theory Spec2Isabelle
  imports Main "HOL-Library.Monad_Syntax" "HOL-Library.Sublist"
begin

section \<open>JavaScript strings\<close>

text \<open>
  A JavaScript string is a sequence of UTF-16 code units; \<open>length\<close>, \<open>indexOf\<close>,
  \<open>slice\<close> and the offsets of a finding all count code units. A code unit is a
  natural number here. ASCII literals of the source are written \<open>str ''...''\<close>; a code
  unit outside printable ASCII is written as its number.
\<close>

type_synonym jstring = "nat list"

definition str :: "string \<Rightarrow> jstring" where
  "str cs = map of_char cs"

text \<open>\<open>WhiteSpace\<close> and \<open>LineTerminator\<close> of ECMAScript: what \<open>trim\<close> removes and
  what \<open>\s\<close> matches.\<close>

definition is_space :: "nat \<Rightarrow> bool" where
  "is_space c \<longleftrightarrow> c = 32 \<or> (9 \<le> c \<and> c \<le> 13) \<or> c = 160 \<or> c = 5760
     \<or> (8192 \<le> c \<and> c \<le> 8202) \<or> c = 8232 \<or> c = 8233 \<or> c = 8239 \<or> c = 8287
     \<or> c = 12288 \<or> c = 65279"

definition is_digit :: "nat \<Rightarrow> bool" where
  "is_digit c \<longleftrightarrow> 48 \<le> c \<and> c \<le> 57"

definition is_upper_az :: "nat \<Rightarrow> bool" where
  "is_upper_az c \<longleftrightarrow> 65 \<le> c \<and> c \<le> 90"

definition is_lower_az :: "nat \<Rightarrow> bool" where
  "is_lower_az c \<longleftrightarrow> 97 \<le> c \<and> c \<le> 122"

text \<open>\<open>\w\<close>: the 63 basic word characters.\<close>

definition is_word :: "nat \<Rightarrow> bool" where
  "is_word c \<longleftrightarrow> is_upper_az c \<or> is_lower_az c \<or> is_digit c \<or> c = 95"

text \<open>\<open>.\<close> without the \<open>s\<close> flag: anything but a line terminator.\<close>

definition is_dot :: "nat \<Rightarrow> bool" where
  "is_dot c \<longleftrightarrow> c \<noteq> 10 \<and> c \<noteq> 13 \<and> c \<noteq> 8232 \<and> c \<noteq> 8233"

definition trim :: "jstring \<Rightarrow> jstring" where
  "trim s = rev (dropWhile is_space (rev (dropWhile is_space s)))"

text \<open>\<open>s.slice(a, b)\<close> for \<open>0 \<le> a\<close> and \<open>0 \<le> b\<close>; \<open>s.slice(a)\<close> is \<open>drop a s\<close>.\<close>

definition slice :: "jstring \<Rightarrow> nat \<Rightarrow> nat \<Rightarrow> jstring" where
  "slice s a b = take (b - a) (drop a s)"

text \<open>
  \<open>toLowerCase\<close> and \<open>toUpperCase\<close> read the text as code points, map every code point
  by the Unicode Default Case Conversion without a locale, and write the result as code
  units again. A high surrogate followed by a low surrogate is one code point; any other
  code unit, a lone surrogate too, is a code point of its own.
\<close>

definition is_high :: "nat \<Rightarrow> bool" where
  "is_high c \<longleftrightarrow> 55296 \<le> c \<and> c \<le> 56319"

definition is_low :: "nat \<Rightarrow> bool" where
  "is_low c \<longleftrightarrow> 56320 \<le> c \<and> c \<le> 57343"

fun code_points :: "jstring \<Rightarrow> nat list" where
  "code_points (c # d # cs) =
     (if is_high c \<and> is_low d
      then (65536 + (c - 55296) * 1024 + (d - 56320)) # code_points cs
      else c # code_points (d # cs))"
| "code_points cs = cs"

definition code_units :: "nat \<Rightarrow> jstring" where
  "code_units cp =
     (if cp < 65536 then [cp]
      else [55296 + (cp - 65536) div 1024, 56320 + (cp - 65536) mod 1024])"

text \<open>
  The tables are those of Unicode 15.0: the simple lower-case and upper-case mappings
  of \<^verbatim>\<open>UnicodeData.txt\<close>, the unconditional mappings of \<^verbatim>\<open>SpecialCasing.txt\<close>, and the
  properties \<open>Cased\<close> and \<open>Case_Ignorable\<close>. A row \<open>(lo, hi, step, t)\<close> of a mapping table
  maps the code points \<open>lo\<close>, \<open>lo + step\<close>, ... up to \<open>hi\<close> to \<open>t\<close>, \<open>t + step\<close>, ...; a row
  \<open>(lo, hi)\<close> of a property table holds the code points from \<open>lo\<close> to \<open>hi\<close>. The rows are
  disjoint and ascending, so a lookup stops at the first row that starts after the code
  point.
\<close>

fun mapped :: "(nat \<times> nat \<times> nat \<times> nat) list \<Rightarrow> nat \<Rightarrow> nat" where
  "mapped [] c = c"
| "mapped ((lo, hi, step, t) # rows) c =
     (if c < lo then c
      else if c \<le> hi then (if (c - lo) mod step = 0 then t + (c - lo) else c)
      else mapped rows c)"

fun special :: "(nat \<times> nat list) list \<Rightarrow> nat \<Rightarrow> nat list option" where
  "special [] c = None"
| "special ((k, us) # rows) c =
     (if c < k then None else if c = k then Some us else special rows c)"

fun in_rows :: "(nat \<times> nat) list \<Rightarrow> nat \<Rightarrow> bool" where
  "in_rows [] c = False"
| "in_rows ((lo, hi) # rows) c =
     (if c < lo then False else if c \<le> hi then True else in_rows rows c)"

definition lower_rows :: "(nat \<times> nat \<times> nat \<times> nat) list" where
  "lower_rows =
    [(65, 90, 1, 97), (192, 214, 1, 224), (216, 222, 1, 248), (256, 302, 2, 257),
     (306, 310, 2, 307), (313, 327, 2, 314), (330, 374, 2, 331), (376, 376, 1, 255),
     (377, 381, 2, 378), (385, 385, 1, 595), (386, 388, 2, 387), (390, 390, 1, 596),
     (391, 391, 1, 392), (393, 394, 1, 598), (395, 395, 1, 396), (398, 398, 1, 477),
     (399, 399, 1, 601), (400, 400, 1, 603), (401, 401, 1, 402), (403, 403, 1, 608),
     (404, 404, 1, 611), (406, 406, 1, 617), (407, 407, 1, 616), (408, 408, 1, 409),
     (412, 412, 1, 623), (413, 413, 1, 626), (415, 415, 1, 629), (416, 420, 2, 417),
     (422, 422, 1, 640), (423, 423, 1, 424), (425, 425, 1, 643), (428, 428, 1, 429),
     (430, 430, 1, 648), (431, 431, 1, 432), (433, 434, 1, 650), (435, 437, 2, 436),
     (439, 439, 1, 658), (440, 440, 1, 441), (444, 444, 1, 445), (452, 452, 1, 454),
     (453, 453, 1, 454), (455, 455, 1, 457), (456, 456, 1, 457), (458, 458, 1, 460),
     (459, 475, 2, 460), (478, 494, 2, 479), (497, 497, 1, 499), (498, 500, 2, 499),
     (502, 502, 1, 405), (503, 503, 1, 447), (504, 542, 2, 505), (544, 544, 1, 414),
     (546, 562, 2, 547), (570, 570, 1, 11365), (571, 571, 1, 572), (573, 573, 1, 410),
     (574, 574, 1, 11366), (577, 577, 1, 578), (579, 579, 1, 384), (580, 580, 1, 649),
     (581, 581, 1, 652), (582, 590, 2, 583), (880, 882, 2, 881), (886, 886, 1, 887),
     (895, 895, 1, 1011), (902, 902, 1, 940), (904, 906, 1, 941), (908, 908, 1, 972),
     (910, 911, 1, 973), (913, 929, 1, 945), (931, 939, 1, 963), (975, 975, 1, 983),
     (984, 1006, 2, 985), (1012, 1012, 1, 952), (1015, 1015, 1, 1016), (1017, 1017, 1, 1010),
     (1018, 1018, 1, 1019), (1021, 1023, 1, 891), (1024, 1039, 1, 1104), (1040, 1071, 1, 1072),
     (1120, 1152, 2, 1121), (1162, 1214, 2, 1163), (1216, 1216, 1, 1231), (1217, 1229, 2, 1218),
     (1232, 1326, 2, 1233), (1329, 1366, 1, 1377), (4256, 4293, 1, 11520), (4295, 4295, 1, 11559),
     (4301, 4301, 1, 11565), (5024, 5103, 1, 43888), (5104, 5109, 1, 5112), (7312, 7354, 1, 4304),
     (7357, 7359, 1, 4349), (7680, 7828, 2, 7681), (7838, 7838, 1, 223), (7840, 7934, 2, 7841),
     (7944, 7951, 1, 7936), (7960, 7965, 1, 7952), (7976, 7983, 1, 7968), (7992, 7999, 1, 7984),
     (8008, 8013, 1, 8000), (8025, 8031, 2, 8017), (8040, 8047, 1, 8032), (8072, 8079, 1, 8064),
     (8088, 8095, 1, 8080), (8104, 8111, 1, 8096), (8120, 8121, 1, 8112), (8122, 8123, 1, 8048),
     (8124, 8124, 1, 8115), (8136, 8139, 1, 8050), (8140, 8140, 1, 8131), (8152, 8153, 1, 8144),
     (8154, 8155, 1, 8054), (8168, 8169, 1, 8160), (8170, 8171, 1, 8058), (8172, 8172, 1, 8165),
     (8184, 8185, 1, 8056), (8186, 8187, 1, 8060), (8188, 8188, 1, 8179), (8486, 8486, 1, 969),
     (8490, 8490, 1, 107), (8491, 8491, 1, 229), (8498, 8498, 1, 8526), (8544, 8559, 1, 8560),
     (8579, 8579, 1, 8580), (9398, 9423, 1, 9424), (11264, 11311, 1, 11312),
     (11360, 11360, 1, 11361), (11362, 11362, 1, 619), (11363, 11363, 1, 7549),
     (11364, 11364, 1, 637), (11367, 11371, 2, 11368), (11373, 11373, 1, 593),
     (11374, 11374, 1, 625), (11375, 11375, 1, 592), (11376, 11376, 1, 594),
     (11378, 11378, 1, 11379), (11381, 11381, 1, 11382), (11390, 11391, 1, 575),
     (11392, 11490, 2, 11393), (11499, 11501, 2, 11500), (11506, 11506, 1, 11507),
     (42560, 42604, 2, 42561), (42624, 42650, 2, 42625), (42786, 42798, 2, 42787),
     (42802, 42862, 2, 42803), (42873, 42875, 2, 42874), (42877, 42877, 1, 7545),
     (42878, 42886, 2, 42879), (42891, 42891, 1, 42892), (42893, 42893, 1, 613),
     (42896, 42898, 2, 42897), (42902, 42920, 2, 42903), (42922, 42922, 1, 614),
     (42923, 42923, 1, 604), (42924, 42924, 1, 609), (42925, 42925, 1, 620),
     (42926, 42926, 1, 618), (42928, 42928, 1, 670), (42929, 42929, 1, 647),
     (42930, 42930, 1, 669), (42931, 42931, 1, 43859), (42932, 42946, 2, 42933),
     (42948, 42948, 1, 42900), (42949, 42949, 1, 642), (42950, 42950, 1, 7566),
     (42951, 42953, 2, 42952), (42960, 42960, 1, 42961), (42966, 42968, 2, 42967),
     (42997, 42997, 1, 42998), (65313, 65338, 1, 65345), (66560, 66599, 1, 66600),
     (66736, 66771, 1, 66776), (66928, 66938, 1, 66967), (66940, 66954, 1, 66979),
     (66956, 66962, 1, 66995), (66964, 66965, 1, 67003), (68736, 68786, 1, 68800),
     (71840, 71871, 1, 71872), (93760, 93791, 1, 93792), (125184, 125217, 1, 125218)]"

definition upper_rows :: "(nat \<times> nat \<times> nat \<times> nat) list" where
  "upper_rows =
    [(97, 122, 1, 65), (181, 181, 1, 924), (224, 246, 1, 192), (248, 254, 1, 216),
     (255, 255, 1, 376), (257, 303, 2, 256), (305, 305, 1, 73), (307, 311, 2, 306),
     (314, 328, 2, 313), (331, 375, 2, 330), (378, 382, 2, 377), (383, 383, 1, 83),
     (384, 384, 1, 579), (387, 389, 2, 386), (392, 392, 1, 391), (396, 396, 1, 395),
     (402, 402, 1, 401), (405, 405, 1, 502), (409, 409, 1, 408), (410, 410, 1, 573),
     (414, 414, 1, 544), (417, 421, 2, 416), (424, 424, 1, 423), (429, 429, 1, 428),
     (432, 432, 1, 431), (436, 438, 2, 435), (441, 441, 1, 440), (445, 445, 1, 444),
     (447, 447, 1, 503), (453, 453, 1, 452), (454, 454, 1, 452), (456, 456, 1, 455),
     (457, 457, 1, 455), (459, 459, 1, 458), (460, 460, 1, 458), (462, 476, 2, 461),
     (477, 477, 1, 398), (479, 495, 2, 478), (498, 498, 1, 497), (499, 499, 1, 497),
     (501, 501, 1, 500), (505, 543, 2, 504), (547, 563, 2, 546), (572, 572, 1, 571),
     (575, 576, 1, 11390), (578, 578, 1, 577), (583, 591, 2, 582), (592, 592, 1, 11375),
     (593, 593, 1, 11373), (594, 594, 1, 11376), (595, 595, 1, 385), (596, 596, 1, 390),
     (598, 599, 1, 393), (601, 601, 1, 399), (603, 603, 1, 400), (604, 604, 1, 42923),
     (608, 608, 1, 403), (609, 609, 1, 42924), (611, 611, 1, 404), (613, 613, 1, 42893),
     (614, 614, 1, 42922), (616, 616, 1, 407), (617, 617, 1, 406), (618, 618, 1, 42926),
     (619, 619, 1, 11362), (620, 620, 1, 42925), (623, 623, 1, 412), (625, 625, 1, 11374),
     (626, 626, 1, 413), (629, 629, 1, 415), (637, 637, 1, 11364), (640, 640, 1, 422),
     (642, 642, 1, 42949), (643, 643, 1, 425), (647, 647, 1, 42929), (648, 648, 1, 430),
     (649, 649, 1, 580), (650, 651, 1, 433), (652, 652, 1, 581), (658, 658, 1, 439),
     (669, 669, 1, 42930), (670, 670, 1, 42928), (837, 837, 1, 921), (881, 883, 2, 880),
     (887, 887, 1, 886), (891, 893, 1, 1021), (940, 940, 1, 902), (941, 943, 1, 904),
     (945, 961, 1, 913), (962, 962, 1, 931), (963, 971, 1, 931), (972, 972, 1, 908),
     (973, 974, 1, 910), (976, 976, 1, 914), (977, 977, 1, 920), (981, 981, 1, 934),
     (982, 982, 1, 928), (983, 983, 1, 975), (985, 1007, 2, 984), (1008, 1008, 1, 922),
     (1009, 1009, 1, 929), (1010, 1010, 1, 1017), (1011, 1011, 1, 895), (1013, 1013, 1, 917),
     (1016, 1016, 1, 1015), (1019, 1019, 1, 1018), (1072, 1103, 1, 1040), (1104, 1119, 1, 1024),
     (1121, 1153, 2, 1120), (1163, 1215, 2, 1162), (1218, 1230, 2, 1217), (1231, 1231, 1, 1216),
     (1233, 1327, 2, 1232), (1377, 1414, 1, 1329), (4304, 4346, 1, 7312), (4349, 4351, 1, 7357),
     (5112, 5117, 1, 5104), (7296, 7296, 1, 1042), (7297, 7297, 1, 1044), (7298, 7298, 1, 1054),
     (7299, 7300, 1, 1057), (7301, 7301, 1, 1058), (7302, 7302, 1, 1066), (7303, 7303, 1, 1122),
     (7304, 7304, 1, 42570), (7545, 7545, 1, 42877), (7549, 7549, 1, 11363),
     (7566, 7566, 1, 42950), (7681, 7829, 2, 7680), (7835, 7835, 1, 7776), (7841, 7935, 2, 7840),
     (7936, 7943, 1, 7944), (7952, 7957, 1, 7960), (7968, 7975, 1, 7976), (7984, 7991, 1, 7992),
     (8000, 8005, 1, 8008), (8017, 8023, 2, 8025), (8032, 8039, 1, 8040), (8048, 8049, 1, 8122),
     (8050, 8053, 1, 8136), (8054, 8055, 1, 8154), (8056, 8057, 1, 8184), (8058, 8059, 1, 8170),
     (8060, 8061, 1, 8186), (8112, 8113, 1, 8120), (8126, 8126, 1, 921), (8144, 8145, 1, 8152),
     (8160, 8161, 1, 8168), (8165, 8165, 1, 8172), (8526, 8526, 1, 8498), (8560, 8575, 1, 8544),
     (8580, 8580, 1, 8579), (9424, 9449, 1, 9398), (11312, 11359, 1, 11264),
     (11361, 11361, 1, 11360), (11365, 11365, 1, 570), (11366, 11366, 1, 574),
     (11368, 11372, 2, 11367), (11379, 11379, 1, 11378), (11382, 11382, 1, 11381),
     (11393, 11491, 2, 11392), (11500, 11502, 2, 11499), (11507, 11507, 1, 11506),
     (11520, 11557, 1, 4256), (11559, 11559, 1, 4295), (11565, 11565, 1, 4301),
     (42561, 42605, 2, 42560), (42625, 42651, 2, 42624), (42787, 42799, 2, 42786),
     (42803, 42863, 2, 42802), (42874, 42876, 2, 42873), (42879, 42887, 2, 42878),
     (42892, 42892, 1, 42891), (42897, 42899, 2, 42896), (42900, 42900, 1, 42948),
     (42903, 42921, 2, 42902), (42933, 42947, 2, 42932), (42952, 42954, 2, 42951),
     (42961, 42961, 1, 42960), (42967, 42969, 2, 42966), (42998, 42998, 1, 42997),
     (43859, 43859, 1, 42931), (43888, 43967, 1, 5024), (65345, 65370, 1, 65313),
     (66600, 66639, 1, 66560), (66776, 66811, 1, 66736), (66967, 66977, 1, 66928),
     (66979, 66993, 1, 66940), (66995, 67001, 1, 66956), (67003, 67004, 1, 66964),
     (68800, 68850, 1, 68736), (71872, 71903, 1, 71840), (93792, 93823, 1, 93760),
     (125218, 125251, 1, 125184)]"

definition upper_special :: "(nat \<times> nat list) list" where
  "upper_special =
    [(223, [83, 83]), (329, [700, 78]), (496, [74, 780]), (912, [921, 776, 769]),
     (944, [933, 776, 769]), (1415, [1333, 1362]), (7830, [72, 817]), (7831, [84, 776]),
     (7832, [87, 778]), (7833, [89, 778]), (7834, [65, 702]), (8016, [933, 787]),
     (8018, [933, 787, 768]), (8020, [933, 787, 769]), (8022, [933, 787, 834]),
     (8064, [7944, 921]), (8065, [7945, 921]), (8066, [7946, 921]), (8067, [7947, 921]),
     (8068, [7948, 921]), (8069, [7949, 921]), (8070, [7950, 921]), (8071, [7951, 921]),
     (8072, [7944, 921]), (8073, [7945, 921]), (8074, [7946, 921]), (8075, [7947, 921]),
     (8076, [7948, 921]), (8077, [7949, 921]), (8078, [7950, 921]), (8079, [7951, 921]),
     (8080, [7976, 921]), (8081, [7977, 921]), (8082, [7978, 921]), (8083, [7979, 921]),
     (8084, [7980, 921]), (8085, [7981, 921]), (8086, [7982, 921]), (8087, [7983, 921]),
     (8088, [7976, 921]), (8089, [7977, 921]), (8090, [7978, 921]), (8091, [7979, 921]),
     (8092, [7980, 921]), (8093, [7981, 921]), (8094, [7982, 921]), (8095, [7983, 921]),
     (8096, [8040, 921]), (8097, [8041, 921]), (8098, [8042, 921]), (8099, [8043, 921]),
     (8100, [8044, 921]), (8101, [8045, 921]), (8102, [8046, 921]), (8103, [8047, 921]),
     (8104, [8040, 921]), (8105, [8041, 921]), (8106, [8042, 921]), (8107, [8043, 921]),
     (8108, [8044, 921]), (8109, [8045, 921]), (8110, [8046, 921]), (8111, [8047, 921]),
     (8114, [8122, 921]), (8115, [913, 921]), (8116, [902, 921]), (8118, [913, 834]),
     (8119, [913, 834, 921]), (8124, [913, 921]), (8130, [8138, 921]), (8131, [919, 921]),
     (8132, [905, 921]), (8134, [919, 834]), (8135, [919, 834, 921]), (8140, [919, 921]),
     (8146, [921, 776, 768]), (8147, [921, 776, 769]), (8150, [921, 834]),
     (8151, [921, 776, 834]), (8162, [933, 776, 768]), (8163, [933, 776, 769]),
     (8164, [929, 787]), (8166, [933, 834]), (8167, [933, 776, 834]), (8178, [8186, 921]),
     (8179, [937, 921]), (8180, [911, 921]), (8182, [937, 834]), (8183, [937, 834, 921]),
     (8188, [937, 921]), (64256, [70, 70]), (64257, [70, 73]), (64258, [70, 76]),
     (64259, [70, 70, 73]), (64260, [70, 70, 76]), (64261, [83, 84]), (64262, [83, 84]),
     (64275, [1348, 1350]), (64276, [1348, 1333]), (64277, [1348, 1339]), (64278, [1358, 1350]),
     (64279, [1348, 1341])]"

definition cased_rows :: "(nat \<times> nat) list" where
  "cased_rows =
    [(65, 90), (97, 122), (170, 170), (181, 181), (186, 186), (192, 214), (216, 246), (248, 442),
     (444, 447), (452, 659), (661, 696), (704, 705), (736, 740), (837, 837), (880, 883),
     (886, 887), (890, 893), (895, 895), (902, 902), (904, 906), (908, 908), (910, 929),
     (931, 1013), (1015, 1153), (1162, 1327), (1329, 1366), (1376, 1416), (4256, 4293),
     (4295, 4295), (4301, 4301), (4304, 4346), (4348, 4351), (5024, 5109), (5112, 5117),
     (7296, 7304), (7312, 7354), (7357, 7359), (7424, 7615), (7680, 7957), (7960, 7965),
     (7968, 8005), (8008, 8013), (8016, 8023), (8025, 8025), (8027, 8027), (8029, 8029),
     (8031, 8061), (8064, 8116), (8118, 8124), (8126, 8126), (8130, 8132), (8134, 8140),
     (8144, 8147), (8150, 8155), (8160, 8172), (8178, 8180), (8182, 8188), (8305, 8305),
     (8319, 8319), (8336, 8348), (8450, 8450), (8455, 8455), (8458, 8467), (8469, 8469),
     (8473, 8477), (8484, 8484), (8486, 8486), (8488, 8488), (8490, 8493), (8495, 8500),
     (8505, 8505), (8508, 8511), (8517, 8521), (8526, 8526), (8544, 8575), (8579, 8580),
     (9398, 9449), (11264, 11492), (11499, 11502), (11506, 11507), (11520, 11557), (11559, 11559),
     (11565, 11565), (42560, 42605), (42624, 42653), (42786, 42887), (42891, 42894),
     (42896, 42954), (42960, 42961), (42963, 42963), (42965, 42969), (42994, 42998),
     (43000, 43002), (43824, 43866), (43868, 43881), (43888, 43967), (64256, 64262),
     (64275, 64279), (65313, 65338), (65345, 65370), (66560, 66639), (66736, 66771),
     (66776, 66811), (66928, 66938), (66940, 66954), (66956, 66962), (66964, 66965),
     (66967, 66977), (66979, 66993), (66995, 67001), (67003, 67004), (67456, 67456),
     (67459, 67461), (67463, 67504), (67506, 67514), (68736, 68786), (68800, 68850),
     (71840, 71903), (93760, 93823), (119808, 119892), (119894, 119964), (119966, 119967),
     (119970, 119970), (119973, 119974), (119977, 119980), (119982, 119993), (119995, 119995),
     (119997, 120003), (120005, 120069), (120071, 120074), (120077, 120084), (120086, 120092),
     (120094, 120121), (120123, 120126), (120128, 120132), (120134, 120134), (120138, 120144),
     (120146, 120485), (120488, 120512), (120514, 120538), (120540, 120570), (120572, 120596),
     (120598, 120628), (120630, 120654), (120656, 120686), (120688, 120712), (120714, 120744),
     (120746, 120770), (120772, 120779), (122624, 122633), (122635, 122654), (122661, 122666),
     (122928, 122989), (125184, 125251), (127280, 127305), (127312, 127337), (127344, 127369)]"

definition case_ignorable_rows :: "(nat \<times> nat) list" where
  "case_ignorable_rows =
    [(39, 39), (46, 46), (58, 58), (94, 94), (96, 96), (168, 168), (173, 173), (175, 175),
     (180, 180), (183, 184), (688, 879), (884, 885), (890, 890), (900, 901), (903, 903),
     (1155, 1161), (1369, 1369), (1375, 1375), (1425, 1469), (1471, 1471), (1473, 1474),
     (1476, 1477), (1479, 1479), (1524, 1524), (1536, 1541), (1552, 1562), (1564, 1564),
     (1600, 1600), (1611, 1631), (1648, 1648), (1750, 1757), (1759, 1768), (1770, 1773),
     (1807, 1807), (1809, 1809), (1840, 1866), (1958, 1968), (2027, 2037), (2042, 2042),
     (2045, 2045), (2070, 2093), (2137, 2139), (2184, 2184), (2192, 2193), (2200, 2207),
     (2249, 2306), (2362, 2362), (2364, 2364), (2369, 2376), (2381, 2381), (2385, 2391),
     (2402, 2403), (2417, 2417), (2433, 2433), (2492, 2492), (2497, 2500), (2509, 2509),
     (2530, 2531), (2558, 2558), (2561, 2562), (2620, 2620), (2625, 2626), (2631, 2632),
     (2635, 2637), (2641, 2641), (2672, 2673), (2677, 2677), (2689, 2690), (2748, 2748),
     (2753, 2757), (2759, 2760), (2765, 2765), (2786, 2787), (2810, 2815), (2817, 2817),
     (2876, 2876), (2879, 2879), (2881, 2884), (2893, 2893), (2901, 2902), (2914, 2915),
     (2946, 2946), (3008, 3008), (3021, 3021), (3072, 3072), (3076, 3076), (3132, 3132),
     (3134, 3136), (3142, 3144), (3146, 3149), (3157, 3158), (3170, 3171), (3201, 3201),
     (3260, 3260), (3263, 3263), (3270, 3270), (3276, 3277), (3298, 3299), (3328, 3329),
     (3387, 3388), (3393, 3396), (3405, 3405), (3426, 3427), (3457, 3457), (3530, 3530),
     (3538, 3540), (3542, 3542), (3633, 3633), (3636, 3642), (3654, 3662), (3761, 3761),
     (3764, 3772), (3782, 3782), (3784, 3790), (3864, 3865), (3893, 3893), (3895, 3895),
     (3897, 3897), (3953, 3966), (3968, 3972), (3974, 3975), (3981, 3991), (3993, 4028),
     (4038, 4038), (4141, 4144), (4146, 4151), (4153, 4154), (4157, 4158), (4184, 4185),
     (4190, 4192), (4209, 4212), (4226, 4226), (4229, 4230), (4237, 4237), (4253, 4253),
     (4348, 4348), (4957, 4959), (5906, 5908), (5938, 5939), (5970, 5971), (6002, 6003),
     (6068, 6069), (6071, 6077), (6086, 6086), (6089, 6099), (6103, 6103), (6109, 6109),
     (6155, 6159), (6211, 6211), (6277, 6278), (6313, 6313), (6432, 6434), (6439, 6440),
     (6450, 6450), (6457, 6459), (6679, 6680), (6683, 6683), (6742, 6742), (6744, 6750),
     (6752, 6752), (6754, 6754), (6757, 6764), (6771, 6780), (6783, 6783), (6823, 6823),
     (6832, 6862), (6912, 6915), (6964, 6964), (6966, 6970), (6972, 6972), (6978, 6978),
     (7019, 7027), (7040, 7041), (7074, 7077), (7080, 7081), (7083, 7085), (7142, 7142),
     (7144, 7145), (7149, 7149), (7151, 7153), (7212, 7219), (7222, 7223), (7288, 7293),
     (7376, 7378), (7380, 7392), (7394, 7400), (7405, 7405), (7412, 7412), (7416, 7417),
     (7468, 7530), (7544, 7544), (7579, 7679), (8125, 8125), (8127, 8129), (8141, 8143),
     (8157, 8159), (8173, 8175), (8189, 8190), (8203, 8207), (8216, 8217), (8228, 8228),
     (8231, 8231), (8234, 8238), (8288, 8292), (8294, 8303), (8305, 8305), (8319, 8319),
     (8336, 8348), (8400, 8432), (11388, 11389), (11503, 11505), (11631, 11631), (11647, 11647),
     (11744, 11775), (11823, 11823), (12293, 12293), (12330, 12333), (12337, 12341),
     (12347, 12347), (12441, 12446), (12540, 12542), (40981, 40981), (42232, 42237),
     (42508, 42508), (42607, 42610), (42612, 42621), (42623, 42623), (42652, 42655),
     (42736, 42737), (42752, 42785), (42864, 42864), (42888, 42890), (42994, 42996),
     (43000, 43001), (43010, 43010), (43014, 43014), (43019, 43019), (43045, 43046),
     (43052, 43052), (43204, 43205), (43232, 43249), (43263, 43263), (43302, 43309),
     (43335, 43345), (43392, 43394), (43443, 43443), (43446, 43449), (43452, 43453),
     (43471, 43471), (43493, 43494), (43561, 43566), (43569, 43570), (43573, 43574),
     (43587, 43587), (43596, 43596), (43632, 43632), (43644, 43644), (43696, 43696),
     (43698, 43700), (43703, 43704), (43710, 43711), (43713, 43713), (43741, 43741),
     (43756, 43757), (43763, 43764), (43766, 43766), (43867, 43871), (43881, 43883),
     (44005, 44005), (44008, 44008), (44013, 44013), (64286, 64286), (64434, 64450),
     (65024, 65039), (65043, 65043), (65056, 65071), (65106, 65106), (65109, 65109),
     (65279, 65279), (65287, 65287), (65294, 65294), (65306, 65306), (65342, 65342),
     (65344, 65344), (65392, 65392), (65438, 65439), (65507, 65507), (65529, 65531),
     (66045, 66045), (66272, 66272), (66422, 66426), (67456, 67461), (67463, 67504),
     (67506, 67514), (68097, 68099), (68101, 68102), (68108, 68111), (68152, 68154),
     (68159, 68159), (68325, 68326), (68900, 68903), (69291, 69292), (69373, 69375),
     (69446, 69456), (69506, 69509), (69633, 69633), (69688, 69702), (69744, 69744),
     (69747, 69748), (69759, 69761), (69811, 69814), (69817, 69818), (69821, 69821),
     (69826, 69826), (69837, 69837), (69888, 69890), (69927, 69931), (69933, 69940),
     (70003, 70003), (70016, 70017), (70070, 70078), (70089, 70092), (70095, 70095),
     (70191, 70193), (70196, 70196), (70198, 70199), (70206, 70206), (70209, 70209),
     (70367, 70367), (70371, 70378), (70400, 70401), (70459, 70460), (70464, 70464),
     (70502, 70508), (70512, 70516), (70712, 70719), (70722, 70724), (70726, 70726),
     (70750, 70750), (70835, 70840), (70842, 70842), (70847, 70848), (70850, 70851),
     (71090, 71093), (71100, 71101), (71103, 71104), (71132, 71133), (71219, 71226),
     (71229, 71229), (71231, 71232), (71339, 71339), (71341, 71341), (71344, 71349),
     (71351, 71351), (71453, 71455), (71458, 71461), (71463, 71467), (71727, 71735),
     (71737, 71738), (71995, 71996), (71998, 71998), (72003, 72003), (72148, 72151),
     (72154, 72155), (72160, 72160), (72193, 72202), (72243, 72248), (72251, 72254),
     (72263, 72263), (72273, 72278), (72281, 72283), (72330, 72342), (72344, 72345),
     (72752, 72758), (72760, 72765), (72767, 72767), (72850, 72871), (72874, 72880),
     (72882, 72883), (72885, 72886), (73009, 73014), (73018, 73018), (73020, 73021),
     (73023, 73029), (73031, 73031), (73104, 73105), (73109, 73109), (73111, 73111),
     (73459, 73460), (73472, 73473), (73526, 73530), (73536, 73536), (73538, 73538),
     (78896, 78912), (78919, 78933), (92912, 92916), (92976, 92982), (92992, 92995),
     (94031, 94031), (94095, 94111), (94176, 94177), (94179, 94180), (110576, 110579),
     (110581, 110587), (110589, 110590), (113821, 113822), (113824, 113827), (118528, 118573),
     (118576, 118598), (119143, 119145), (119155, 119170), (119173, 119179), (119210, 119213),
     (119362, 119364), (121344, 121398), (121403, 121452), (121461, 121461), (121476, 121476),
     (121499, 121503), (121505, 121519), (122880, 122886), (122888, 122904), (122907, 122913),
     (122915, 122916), (122918, 122922), (122928, 122989), (123023, 123023), (123184, 123197),
     (123566, 123566), (123628, 123631), (124139, 124143), (125136, 125142), (125252, 125259),
     (127995, 127999), (917505, 917505), (917536, 917631), (917760, 917999)]"

definition cased :: "nat \<Rightarrow> bool" where
  "cased c = in_rows cased_rows c"

definition case_ignorable :: "nat \<Rightarrow> bool" where
  "case_ignorable c = in_rows case_ignorable_rows c"

text \<open>
  The one mapping that depends on the context, \<open>Final_Sigma\<close>: U+03A3 is lowered to
  U+03C2 when a cased letter stands before it and none after it, case-ignorable code
  points being skipped on both sides. \<open>prev\<close> holds the code points before it, the
  nearest first, and \<open>rest\<close> those after it.
\<close>

definition next_cased :: "nat list \<Rightarrow> bool" where
  "next_cased cs = (case dropWhile case_ignorable cs of [] \<Rightarrow> False | c # rest \<Rightarrow> cased c)"

definition final_sigma :: "nat list \<Rightarrow> nat list \<Rightarrow> bool" where
  "final_sigma prev rest \<longleftrightarrow> next_cased prev \<and> \<not> next_cased rest"

text \<open>U+0130 (capital I with dot above) is lowered to the two code points U+0069
  U+0307; every other code point is lowered to one code point.\<close>

definition lower_cp :: "nat list \<Rightarrow> nat list \<Rightarrow> nat \<Rightarrow> nat list" where
  "lower_cp prev rest c =
     (if c = 304 then [105, 775]
      else if c = 931 \<and> final_sigma prev rest then [962]
      else [mapped lower_rows c])"

fun lower_cps :: "nat list \<Rightarrow> nat list \<Rightarrow> nat list" where
  "lower_cps prev [] = []"
| "lower_cps prev (c # cs) = lower_cp prev cs c @ lower_cps (c # prev) cs"

definition upper_cp :: "nat \<Rightarrow> nat list" where
  "upper_cp c = (case special upper_special c of Some us \<Rightarrow> us | None \<Rightarrow> [mapped upper_rows c])"

definition toLowerCase :: "jstring \<Rightarrow> jstring" where
  "toLowerCase s = concat (map code_units (lower_cps [] (code_points s)))"

definition toUpperCase :: "jstring \<Rightarrow> jstring" where
  "toUpperCase s = concat (map code_units (concat (map upper_cp (code_points s))))"

text \<open>\<open>hay.indexOf(needle)\<close>: the first position where \<open>needle\<close> starts, \<open>None\<close> for -1.\<close>

fun indexOf :: "jstring \<Rightarrow> jstring \<Rightarrow> nat option" where
  "indexOf [] needle = (if needle = [] then Some 0 else None)"
| "indexOf (h # hs) needle =
     (if take (length needle) (h # hs) = needle then Some 0
      else map_option Suc (indexOf hs needle))"

definition includes_str :: "jstring \<Rightarrow> jstring \<Rightarrow> bool" where
  "includes_str hay needle \<longleftrightarrow> indexOf hay needle \<noteq> None"

text \<open>\<open>String(n)\<close> for a count: its decimal digits.\<close>

fun num_str :: "nat \<Rightarrow> jstring" where
  "num_str n = (if n < 10 then [48 + n] else num_str (n div 10) @ [48 + n mod 10])"

declare num_str.simps [simp del]

text \<open>\<open>parts.join(sep)\<close>.\<close>

fun join :: "jstring \<Rightarrow> jstring list \<Rightarrow> jstring" where
  "join sep [] = []"
| "join sep [x] = x"
| "join sep (x # y # ys) = x @ sep @ join sep (y # ys)"

section \<open>Regular expressions\<close>

text \<open>
  The patterns of the source are regular expression literals run by the JavaScript
  engine. They are written here as terms of \<open>rx\<close> and run by \<open>rx_match\<close>, a
  backtracking matcher after the ECMAScript semantics: from a start state it returns
  the states in which a match of the pattern can end, in the order in which
  backtracking tries them, so that the head of the list is the match the engine
  reports. A state is the position and the span captured by group 1 (the only group
  a back reference or a replacement of the source reads; the groups nobody reads are
  written without capture).
\<close>

datatype rx =
    Eps
  | Cls "nat \<Rightarrow> bool"
  | Seq rx rx
  | Alt rx rx
  | Rep bool nat "nat option" rx
  | WordB
  | NotAhead rx
  | Group rx
  | BackRef bool

type_synonym mstate = "nat \<times> (nat \<times> nat) option"

text \<open>
  \<open>Canonicalize\<close> of the \<open>i\<close> flag without the \<open>u\<close> flag: the upper case of the
  string of the one code unit when that is one code unit, except that a non-ASCII code
  unit is never mapped into ASCII.
\<close>

definition canon :: "nat \<Rightarrow> nat" where
  "canon c = (case toUpperCase [c] of
                [u] \<Rightarrow> if 128 \<le> c \<and> u < 128 then c else u
              | _ \<Rightarrow> c)"

text \<open>The mandatory iterations of a quantifier: each may match the empty string.\<close>

fun rep_min :: "(mstate \<Rightarrow> mstate list) \<Rightarrow> nat \<Rightarrow> mstate \<Rightarrow> mstate list" where
  "rep_min f 0 st = [st]"
| "rep_min f (Suc k) st = concat (map (rep_min f k) (f st))"

text \<open>
  The optional iterations: an iteration that matches the empty string is rejected
  (\<open>RepeatMatcher\<close>, step 2.b), so every iteration moves forward and the third argument,
  the number of code units left when the loop is entered, bounds their number. A greedy
  quantifier tries one more iteration before it tries to stop, a lazy one after.
\<close>

fun rep_opt ::
  "(mstate \<Rightarrow> mstate list) \<Rightarrow> bool \<Rightarrow> nat \<Rightarrow> nat option \<Rightarrow> mstate \<Rightarrow> mstate list" where
  "rep_opt f greedy 0 mx st = [st]"
| "rep_opt f greedy (Suc n) mx st =
     (if mx = Some 0 then [st]
      else
        let more = concat (map (rep_opt f greedy n (map_option (\<lambda>k. k - 1) mx))
                               (filter (\<lambda>st'. fst st' \<noteq> fst st) (f st)))
        in if greedy then more @ [st] else st # more)"

definition word_at :: "jstring \<Rightarrow> nat \<Rightarrow> bool" where
  "word_at s i \<longleftrightarrow> i < length s \<and> is_word (s ! i)"

fun rx_match :: "rx \<Rightarrow> jstring \<Rightarrow> mstate \<Rightarrow> mstate list" where
  "rx_match Eps s st = [st]"
| "rx_match (Cls p) s (i, c) = (if i < length s \<and> p (s ! i) then [(Suc i, c)] else [])"
| "rx_match (Seq a b) s st = concat (map (rx_match b s) (rx_match a s st))"
| "rx_match (Alt a b) s st = rx_match a s st @ rx_match b s st"
| "rx_match (Rep greedy mn mx r) s st =
     concat (map (\<lambda>st'. rep_opt (rx_match r s) greedy (length s - fst st')
                          (map_option (\<lambda>k. k - mn) mx) st')
                 (rep_min (rx_match r s) mn st))"
| "rx_match WordB s (i, c) =
     (if (0 < i \<and> word_at s (i - 1)) \<noteq> word_at s i then [(i, c)] else [])"
| "rx_match (NotAhead r) s st = (if rx_match r s st = [] then [st] else [])"
| "rx_match (Group r) s (i, c) = map (\<lambda>(j, c'). (j, Some (i, j))) (rx_match r s (i, c))"
| "rx_match (BackRef ic) s (i, c) =
     (case c of
        None \<Rightarrow> [(i, c)]
      | Some (a, b) \<Rightarrow>
          let w = slice s a b; t = take (length w) (drop i s)
          in if (if ic then map canon t = map canon w else t = w)
             then [(i + length w, c)] else [])"

text \<open>
  \<open>re.exec(s)\<close> with \<open>lastIndex = li\<close> (for a pattern with the \<open>g\<close> flag; \<open>li = 0\<close> for
  one without): the first start position from \<open>li\<close> on at which the pattern matches,
  with the end of the match and the capture.
\<close>

definition exec :: "rx \<Rightarrow> jstring \<Rightarrow> nat \<Rightarrow> (nat \<times> nat \<times> (nat \<times> nat) option) option" where
  "exec r s li =
     (case List.find (\<lambda>i. rx_match r s (i, None) \<noteq> []) [li ..< Suc (length s)] of
        None \<Rightarrow> None
      | Some i \<Rightarrow> (case hd (rx_match r s (i, None)) of (j, c) \<Rightarrow> Some (i, j, c)))"

definition test :: "rx \<Rightarrow> jstring \<Rightarrow> bool" where
  "test r s \<longleftrightarrow> exec r s 0 \<noteq> None"

subsection \<open>Pattern notation\<close>

definition lit :: "string \<Rightarrow> rx" where
  "lit cs = foldr (\<lambda>c r. Seq (Cls (\<lambda>x. x = of_char c)) r) cs Eps"

definition lit_i :: "string \<Rightarrow> rx" where
  "lit_i cs = foldr (\<lambda>c r. Seq (Cls (\<lambda>x. canon x = canon (of_char c))) r) cs Eps"

definition seqs :: "rx list \<Rightarrow> rx" where
  "seqs rs = foldr Seq rs Eps"

definition alts :: "rx list \<Rightarrow> rx" where
  "alts rs = (case rs of [] \<Rightarrow> Eps | _ \<Rightarrow> foldr Alt (butlast rs) (last rs))"

abbreviation star :: "rx \<Rightarrow> rx" where "star r \<equiv> Rep True 0 None r"
abbreviation plus :: "rx \<Rightarrow> rx" where "plus r \<equiv> Rep True 1 None r"
abbreviation opt :: "rx \<Rightarrow> rx" where "opt r \<equiv> Rep True 0 (Some 1) r"
abbreviation lazy_star :: "rx \<Rightarrow> rx" where "lazy_star r \<equiv> Rep False 0 None r"
abbreviation at_least :: "nat \<Rightarrow> rx \<Rightarrow> rx" where "at_least n r \<equiv> Rep True n None r"
abbreviation exactly :: "nat \<Rightarrow> rx \<Rightarrow> rx" where "exactly n r \<equiv> Rep True n (Some n) r"

abbreviation ws :: rx where "ws \<equiv> Cls is_space"
abbreviation wd :: rx where "wd \<equiv> Cls is_word"
abbreviation dg :: rx where "dg \<equiv> Cls is_digit"
abbreviation any :: rx where "any \<equiv> Cls (\<lambda>c. True)"
abbreviation dot :: rx where "dot \<equiv> Cls is_dot"
abbreviation ch :: "string \<Rightarrow> rx" where "ch cs \<equiv> Cls (\<lambda>x. x \<in> set (str cs))"
abbreviation not_ch :: "string \<Rightarrow> rx" where "not_ch cs \<equiv> Cls (\<lambda>x. x \<notin> set (str cs))"


subsection \<open>Matches stay inside the text\<close>

fun minlen :: "rx \<Rightarrow> nat" where
  "minlen Eps = 0"
| "minlen (Cls p) = 1"
| "minlen (Seq a b) = minlen a + minlen b"
| "minlen (Alt a b) = min (minlen a) (minlen b)"
| "minlen (Rep greedy mn mx r) = mn * minlen r"
| "minlen WordB = 0"
| "minlen (NotAhead r) = 0"
| "minlen (Group r) = minlen r"
| "minlen (BackRef ic) = 0"

definition steps_by :: "nat \<Rightarrow> jstring \<Rightarrow> (mstate \<Rightarrow> mstate list) \<Rightarrow> bool" where
  "steps_by k s f \<longleftrightarrow>
     (\<forall>st st'. st' \<in> set (f st) \<longrightarrow>
        fst st + k \<le> fst st' \<and> (fst st \<le> length s \<longrightarrow> fst st' \<le> length s))"

lemma steps_byD:
  "steps_by k s f \<Longrightarrow> st' \<in> set (f st) \<Longrightarrow>
     fst st + k \<le> fst st' \<and> (fst st \<le> length s \<longrightarrow> fst st' \<le> length s)"
  unfolding steps_by_def by blast

lemma rep_min_steps:
  assumes f: "steps_by k s f"
  shows "st' \<in> set (rep_min f n st) \<Longrightarrow>
           fst st + n * k \<le> fst st' \<and> (fst st \<le> length s \<longrightarrow> fst st' \<le> length s)"
proof (induction n arbitrary: st)
  case 0
  then show ?case by simp
next
  case (Suc n)
  then obtain m where m: "m \<in> set (f st)" and st': "st' \<in> set (rep_min f n m)"
    by auto
  from steps_byD [OF f m] Suc.IH [OF st'] show ?case
    by (auto simp: algebra_simps)
qed

lemma rep_opt_steps:
  assumes f: "steps_by k s f"
  shows "st' \<in> set (rep_opt f greedy n mx st) \<Longrightarrow>
           fst st \<le> fst st' \<and> (fst st \<le> length s \<longrightarrow> fst st' \<le> length s)"
proof (induction n arbitrary: st mx)
  case 0
  then show ?case by simp
next
  case (Suc n)
  show ?case
  proof (cases "st' = st")
    case True
    then show ?thesis by simp
  next
    case False
    with Suc.prems obtain m where m: "m \<in> set (f st)"
      and st': "st' \<in> set (rep_opt f greedy n (map_option (\<lambda>k. k - 1) mx) m)"
      by (auto simp: Let_def split: if_splits)
    from steps_byD [OF f m] Suc.IH [OF st'] show ?thesis
      by auto
  qed
qed

lemma rx_match_steps: "steps_by (minlen r) s (rx_match r s)"
proof (induction r)
  case Eps
  show ?case by (simp add: steps_by_def)
next
  case (Cls p)
  show ?case by (auto simp: steps_by_def split: if_splits)
next
  case (Seq a b)
  show ?case
    unfolding steps_by_def
  proof (intro allI impI)
    fix st st' assume "st' \<in> set (rx_match (Seq a b) s st)"
    then obtain m where m: "m \<in> set (rx_match a s st)" and st': "st' \<in> set (rx_match b s m)"
      by auto
    from steps_byD [OF Seq.IH(1) m] steps_byD [OF Seq.IH(2) st']
    show "fst st + minlen (Seq a b) \<le> fst st' \<and> (fst st \<le> length s \<longrightarrow> fst st' \<le> length s)"
      by auto
  qed
next
  case (Alt a b)
  show ?case
    unfolding steps_by_def
  proof (intro allI impI)
    fix st st' assume "st' \<in> set (rx_match (Alt a b) s st)"
    then have "st' \<in> set (rx_match a s st) \<or> st' \<in> set (rx_match b s st)"
      by auto
    with steps_byD [OF Alt.IH(1)] steps_byD [OF Alt.IH(2)]
    show "fst st + minlen (Alt a b) \<le> fst st' \<and> (fst st \<le> length s \<longrightarrow> fst st' \<le> length s)"
      by fastforce
  qed
next
  case (Rep greedy mn mx r)
  show ?case
    unfolding steps_by_def
  proof (intro allI impI)
    fix st st' assume "st' \<in> set (rx_match (Rep greedy mn mx r) s st)"
    then obtain m where m: "m \<in> set (rep_min (rx_match r s) mn st)"
      and st': "st' \<in> set (rep_opt (rx_match r s) greedy (length s - fst m)
                              (map_option (\<lambda>k. k - mn) mx) m)"
      by auto
    from rep_min_steps [OF Rep.IH m] rep_opt_steps [OF Rep.IH st']
    show "fst st + minlen (Rep greedy mn mx r) \<le> fst st'
            \<and> (fst st \<le> length s \<longrightarrow> fst st' \<le> length s)"
      by auto
  qed
next
  case WordB
  show ?case by (auto simp: steps_by_def split: if_splits)
next
  case (NotAhead r)
  show ?case by (auto simp: steps_by_def split: if_splits)
next
  case (Group r)
  show ?case
    unfolding steps_by_def
  proof (intro allI impI)
    fix st st' assume "st' \<in> set (rx_match (Group r) s st)"
    then obtain c' where "(fst st', c') \<in> set (rx_match r s st)"
      by (cases st) auto
    from steps_byD [OF Group.IH this]
    show "fst st + minlen (Group r) \<le> fst st' \<and> (fst st \<le> length s \<longrightarrow> fst st' \<le> length s)"
      by simp
  qed
next
  case (BackRef ic)
  show ?case
    unfolding steps_by_def
  proof (intro allI impI)
    fix st st' :: mstate assume a: "st' \<in> set (rx_match (BackRef ic) s st)"
    obtain i c where st: "st = (i, c)" by (cases st)
    show "fst st + minlen (BackRef ic) \<le> fst st' \<and> (fst st \<le> length s \<longrightarrow> fst st' \<le> length s)"
    proof (cases c)
      case None
      with a st show ?thesis by simp
    next
      case (Some ab)
      obtain x y where ab: "ab = (x, y)" by (cases ab)
      let ?w = "slice s x y"
      let ?t = "take (length ?w) (drop i s)"
      from a st Some ab have st': "st' = (i + length ?w, c)"
        and eq: "(if ic then map canon ?t = map canon ?w else ?t = ?w)"
        by (auto simp: Let_def split: if_splits)
      have "length ?t = length ?w"
      proof (cases ic)
        case True
        with eq have "map canon ?t = map canon ?w" by simp
        then show ?thesis by (rule map_eq_imp_length_eq)
      next
        case False
        with eq have "?t = ?w" by simp
        from arg_cong [OF this, of length] show ?thesis .
      qed
      moreover have "length ?t = min (length ?w) (length s - i)"
        by simp
      ultimately have "i \<le> length s \<longrightarrow> i + length ?w \<le> length s"
        by linarith
      with st st' show ?thesis by simp
    qed
  qed
qed

lemma find_SomeD: "List.find P xs = Some x \<Longrightarrow> P x \<and> x \<in> set xs"
  by (induction xs) (auto split: if_splits)

lemma exec_bounds:
  assumes "exec r s li = Some (a, b, c)"
  shows "li \<le> a \<and> a + minlen r \<le> b \<and> b \<le> length s"
proof -
  from assms obtain i where
    f: "List.find (\<lambda>i. rx_match r s (i, None) \<noteq> []) [li ..< Suc (length s)] = Some i"
    and h: "hd (rx_match r s (i, None)) = (b, c)" and ia: "i = a"
    by (auto simp: exec_def split: option.splits prod.splits)
  from find_SomeD [OF f] have ne: "rx_match r s (i, None) \<noteq> []"
    and rng: "li \<le> i" "i \<le> length s"
    by auto
  from ne h have "(b, c) \<in> set (rx_match r s (i, None))"
    by (metis hd_in_set)
  from steps_byD [OF rx_match_steps this] rng ia show ?thesis
    by simp
qed

subsection \<open>Loops over the matches\<close>

text \<open>
  \<open>findAll(sql, re)\<close>: the loop \<open>while ((m = global.exec(sql)) !== null) matches.push(m[0])\<close>.
  \<open>exec\<close> leaves \<open>lastIndex\<close> at the end of the match; after an empty match the loop would
  find the same match for ever, and its value here is \<open>None\<close>.
\<close>

partial_function (option) findAll_loop ::
  "rx \<Rightarrow> jstring \<Rightarrow> nat \<Rightarrow> jstring list \<Rightarrow> jstring list option" where
  "findAll_loop re sql lastIndex matches =
     (case exec re sql lastIndex of
        None \<Rightarrow> Some matches
      | Some (a, b, c) \<Rightarrow> findAll_loop re sql b (matches @ [slice sql a b]))"

definition findAll :: "jstring \<Rightarrow> rx \<Rightarrow> jstring list option" where
  "findAll sql re = findAll_loop re sql 0 []"

definition countMatches :: "jstring \<Rightarrow> rx \<Rightarrow> nat option" where
  "countMatches sql re = map_option length (findAll sql re)"

text \<open>
  The built-in loops of \<open>String.prototype.match\<close> and \<open>String.prototype.replace\<close> with a
  \<open>g\<close> pattern step over an empty match (\<open>AdvanceStringIndex\<close>), so they always end.
  \<open>spans\<close> lists the matches as (start, end, capture).
\<close>

function spans :: "rx \<Rightarrow> jstring \<Rightarrow> nat \<Rightarrow> (nat \<times> nat \<times> (nat \<times> nat) option) list" where
  "spans re s li =
     (case exec re s li of
        None \<Rightarrow> []
      | Some (a, b, c) \<Rightarrow> (a, b, c) # spans re s (if b = a then Suc b else b))"
  by pat_completeness auto
termination
proof (relation "measure (\<lambda>(re, s, li). Suc (length s) - li)")
  show "wf (measure (\<lambda>(re, s, li). Suc (length s) - li))" by simp
next
  fix re s li x2 a y b c
  assume "exec re s li = Some x2" "(a, y) = x2" "(b, c) = y"
  then have "exec re s li = Some (a, b, c)" by simp
  from exec_bounds [OF this]
  show "((re, s, if b = a then Suc b else b), re, s, li)
          \<in> measure (\<lambda>(re, s, li). Suc (length s) - li)"
    by auto
qed

declare spans.simps [simp del]

definition match_count :: "jstring \<Rightarrow> rx \<Rightarrow> nat" where
  "match_count s re = length (spans re s 0)"

text \<open>\<open>s.replace(re, repl)\<close> with a \<open>g\<close> pattern; \<open>repl\<close> gets the text of group 1.\<close>

fun splice :: "jstring \<Rightarrow> nat \<Rightarrow> (jstring \<Rightarrow> jstring)
    \<Rightarrow> (nat \<times> nat \<times> (nat \<times> nat) option) list \<Rightarrow> jstring" where
  "splice s pos repl [] = drop pos s"
| "splice s pos repl ((a, b, c) # ms) =
     slice s pos a @ repl (case c of None \<Rightarrow> [] | Some (x, y) \<Rightarrow> slice s x y)
       @ splice s b repl ms"

definition replace_all :: "jstring \<Rightarrow> rx \<Rightarrow> (jstring \<Rightarrow> jstring) \<Rightarrow> jstring" where
  "replace_all s re repl = splice s 0 repl (spans re s 0)"

section \<open>Findings\<close>

datatype severity = Error | Warning | Info

datatype category = Performance | Memory | Network | Schema | BestPractice

record span =
  start :: nat
  end_pos :: nat

record finding =
  ruleId :: jstring
  severity :: severity
  title :: jstring
  message :: jstring
  suggestion :: jstring
  offset :: "span option"
  fragment :: "jstring option"
  category :: category

definition finding ::
  "jstring \<Rightarrow> severity \<Rightarrow> jstring \<Rightarrow> jstring \<Rightarrow> jstring \<Rightarrow> category \<Rightarrow> jstring option \<Rightarrow> finding" where
  "finding rid sev ttl msg sug cat frag =
     \<lparr>ruleId = rid, severity = sev, title = ttl, message = msg, suggestion = sug,
      offset = None, fragment = frag, category = cat\<rparr>"

text \<open>Case-insensitive position finder: the first occurrence of \<open>needle\<close>.\<close>

definition locate :: "jstring \<Rightarrow> jstring \<Rightarrow> span option" where
  "locate sql needle =
     (case indexOf (toLowerCase sql) (toLowerCase needle) of
        None \<Rightarrow> None
      | Some idx \<Rightarrow> Some \<lparr>start = idx, end_pos = idx + length needle\<rparr>)"

text \<open>\<open>const loc = locate(sql, needle); if (loc) findings[findings.length - 1].offset = loc\<close>.\<close>

definition located :: "finding \<Rightarrow> span option \<Rightarrow> finding" where
  "located f loc = (case loc of None \<Rightarrow> f | Some l \<Rightarrow> f\<lparr>offset := Some l\<rparr>)"

section \<open>The parsed tree\<close>

text \<open>
  Modelled from the spec: the tree type of the external parser (node-sql-parser) is not
  in the repository, and the rules read it as \<open>any\<close>. The types below have the fields
  the rules read, each optional where the rules test it for presence: a node with its
  \<open>type\<close>, \<open>columns\<close> (the string \<open>*\<close>, an array of columns, or something else), \<open>from\<close>
  (absent, an array of items, or one item), \<open>where\<close>, \<open>orderby\<close> and \<open>limit\<close>; a column
  with its \<open>expr\<close>; a from item with \<open>expr\<close>, \<open>join\<close>, \<open>on\<close>, \<open>table\<close> and \<open>as\<close>; an
  expression with \<open>type\<close>, \<open>ast\<close> (a nested query), \<open>left\<close>, \<open>right\<close> and \<open>args.expr\<close>
  (an array or one expression).
\<close>

datatype ast =
    Ast (ast_type: jstring) (ast_columns: columns) (ast_from: from_clause)
        (ast_where: "expr option") (ast_orderby: "expr list option")
        (ast_limit: "expr list option")
and columns = ColumnsStar | ColumnsArr "column list" | ColumnsOther
and column = Column (col_expr: "expr option")
and from_clause = NoFrom | FromArr "from_item list" | FromOne from_item
and from_item =
    FromItem (item_expr: "expr option") (item_join: "jstring option")
             (item_on: "expr option") (item_table: "jstring option")
             (item_as: "jstring option")
and expr =
    Expr (expr_type: jstring) (expr_ast: "ast option") (expr_left: "expr option")
         (expr_right: "expr option") (expr_args: "args_expr option")
and args_expr = ArgsArr "expr list" | ArgsOne expr

text \<open>What \<open>parser.astify\<close> returns: one tree, or an array of trees.\<close>

datatype parse_tree = Tree ast | Trees "ast list"

text \<open>\<open>Array.isArray(ast.from) ? ast.from : [ast.from]\<close>, for a \<open>from\<close> that is there.\<close>

fun fromList :: "from_clause \<Rightarrow> from_item list" where
  "fromList NoFrom = []"
| "fromList (FromArr items) = items"
| "fromList (FromOne item) = [item]"

text \<open>A string field is truthy when it is there and not empty.\<close>

fun truthy :: "jstring option \<Rightarrow> bool" where
  "truthy None = False"
| "truthy (Some s) = (s \<noteq> [])"

text \<open>\<open>item.expr && item.expr.ast\<close>: the nested query of a from item.\<close>

fun item_subquery :: "from_item \<Rightarrow> ast option" where
  "item_subquery (FromItem None j on t a) = None"
| "item_subquery (FromItem (Some (Expr ty sub l r args)) j on t a) = sub"


section \<open>The texts of the findings\<close>

text \<open>
  Title, message and suggestion of every \<open>finding(...)\<close> call of the rules, in the order
  of the source. A template literal is a function of the counts it embeds.
\<close>

definition select_star_all_title :: "jstring" where
  "select_star_all_title =
     str ''SELECT * detected''"

definition select_star_all_message :: "jstring" where
  "select_star_all_message =
     str ''SELECT * reads every column from the table. In columnar engines like DuckDB,''
     @ str '' this defeats column pruning and transfers unnecessary data '' @ [8212]
     @ str '' especially costly when reading remote Parquet files.''"

definition select_star_all_suggestion :: "jstring" where
  "select_star_all_suggestion =
     str ''List only the columns you need: SELECT col1, col2 FROM ... You can also use ''
     @ str ''SELECT * EXCLUDE (col) to drop specific columns.''"

definition select_star_item_title :: "jstring" where
  "select_star_item_title =
     str ''SELECT * detected''"

definition select_star_item_message :: "jstring" where
  "select_star_item_message =
     str ''SELECT * reads every column. In columnar engines, only select the columns yo''
     @ str ''u need to take advantage of column pruning.''"

definition select_star_item_suggestion :: "jstring" where
  "select_star_item_suggestion =
     str ''List only the columns you need, or use EXCLUDE to drop unneeded columns.''"

definition order_without_limit_title :: "jstring" where
  "order_without_limit_title =
     str ''ORDER BY without LIMIT''"

definition order_without_limit_message :: "jstring" where
  "order_without_limit_message =
     str ''Sorting the entire result set requires materializing all rows in memory befo''
     @ str ''re returning. This is a pipeline breaker that can cause out-of-memory errors''
     @ str '' on large datasets.''"

definition order_without_limit_suggestion :: "jstring" where
  "order_without_limit_suggestion =
     str ''Add a LIMIT clause if you only need a subset, or remove ORDER BY if ordering''
     @ str '' is not required. For '' @ [34] @ str ''top N'' @ [34]
     @ str '' queries, use LIMIT N.''"

definition cross_join_title :: "jstring" where
  "cross_join_title =
     str ''CROSS JOIN detected''"

definition cross_join_message :: "jstring" where
  "cross_join_message =
     str ''A CROSS JOIN produces the Cartesian product of both tables (rows_a '' @ [215]
     @ str '' rows_b). This is safe when one side is guaranteed to be a single row (e.g.,''
     @ str '' a scalar CTE), but dangerous on large tables where it can explode memory us''
     @ str ''age.''"

definition cross_join_suggestion :: "jstring" where
  "cross_join_suggestion =
     str ''Verify that at least one side of the CROSS JOIN returns a single row. If joi''
     @ str ''ning large tables, replace with an INNER JOIN or LEFT JOIN with a proper ON ''
     @ str ''condition.''"

definition deeply_nested_subquery_title :: "jstring" where
  "deeply_nested_subquery_title =
     str ''Deeply nested subquery''"

definition deeply_nested_subquery_message :: "jstring" where
  "deeply_nested_subquery_message =
     str ''Subqueries nested 3+ levels deep are hard to optimize. The query planner may''
     @ str '' not be able to flatten them, leading to repeated scans.''"

definition deeply_nested_subquery_suggestion :: "jstring" where
  "deeply_nested_subquery_suggestion =
     str ''Refactor using CTEs (WITH clauses). DuckDB can auto-materialize identical CT''
     @ str ''Es, improving readability and potentially performance.''"

definition implicit_cross_join_title :: "jstring" where
  "implicit_cross_join_title =
     str ''Implicit cross join (comma join without WHERE)''"

definition implicit_cross_join_message :: "jstring" where
  "implicit_cross_join_message =
     str ''Listing tables separated by commas without a WHERE clause creates a Cartesia''
     @ str ''n product. This is equivalent to CROSS JOIN and can be extremely expensive.''"

definition implicit_cross_join_suggestion :: "jstring" where
  "implicit_cross_join_suggestion =
     str ''Use explicit JOIN syntax with ON conditions: FROM a JOIN b ON a.id = b.id''"

definition join_without_on_title :: "jstring" where
  "join_without_on_title =
     str ''JOIN without ON condition''"

definition join_without_on_message :: "jstring" where
  "join_without_on_message =
     str ''A JOIN without an ON condition may produce a Cartesian product or rely on im''
     @ str ''plicit behavior.''"

definition join_without_on_suggestion :: "jstring" where
  "join_without_on_suggestion =
     str ''Always specify an explicit ON condition for joins.''"

definition non_spillable_list_title :: "nat \<Rightarrow> jstring" where
  "non_spillable_list_title count =
     str ''list() aggregate cannot spill to disk ('' @ (num_str count) @ str ''x)''"

definition non_spillable_list_message :: "nat \<Rightarrow> jstring" where
  "non_spillable_list_message count =
     str ''The list() aggregate function is used '' @ (num_str count)
     @ str '' time(s) in this query. Per DuckDB docs, list() cannot offload intermediate ''
     @ str ''state to disk. On large datasets, this will cause out-of-memory crashes ''
     @ [8212] @ str '' especially on MotherDuck Ducklings with fixed memory limits.''"

definition non_spillable_list_suggestion :: "jstring" where
  "non_spillable_list_suggestion =
     str ''Consider whether you can: (1) pre-filter data before aggregating with list()''
     @ str '', (2) add a LIMIT or WHERE to reduce input rows, (3) use string_agg() if you''
     @ str '' only need a concatenated string (though it has the same spill limitation), ''
     @ str ''or (4) break the query into smaller batches.''"

definition non_spillable_list_distinct_title :: "jstring" where
  "non_spillable_list_distinct_title =
     str ''LIST(DISTINCT ...) '' @ [8212] @ str '' double memory pressure''"

definition non_spillable_list_distinct_message :: "jstring" where
  "non_spillable_list_distinct_message =
     str ''LIST(DISTINCT ...) combines two non-spillable operations: deduplication and ''
     @ str ''list accumulation. The DISTINCT requires a hash set in memory AND the result''
     @ str ''ing list is accumulated in memory. Neither can spill to disk.''"

definition non_spillable_list_distinct_suggestion :: "jstring" where
  "non_spillable_list_distinct_suggestion =
     str ''If you only need the distinct values as a comma-separated string, consider s''
     @ str ''tring_agg(DISTINCT ...) '' @ [8212]
     @ str '' though it also cannot spill. Better: reduce the input dataset first with a ''
     @ str ''GROUP BY in a prior CTE.''"

definition non_spillable_string_agg_title :: "jstring" where
  "non_spillable_string_agg_title =
     str ''string_agg() cannot spill to disk''"

definition non_spillable_string_agg_message :: "jstring" where
  "non_spillable_string_agg_message =
     str ''The string_agg() function cannot offload intermediate state to disk. On larg''
     @ str ''e datasets with many groups or large string values, this can exhaust memory.''"

definition non_spillable_string_agg_suggestion :: "jstring" where
  "non_spillable_string_agg_suggestion =
     str ''Pre-filter or limit input data before applying string_agg(). Consider whethe''
     @ str ''r you actually need string concatenation or if an array (list) return is acc''
     @ str ''eptable.''"

definition non_spillable_ordered_agg_title :: "jstring" where
  "non_spillable_ordered_agg_title =
     str ''Ordered aggregate (ORDER BY inside aggregate)''"

definition non_spillable_ordered_agg_message :: "jstring" where
  "non_spillable_ordered_agg_message =
     str ''Aggregate functions with an ORDER BY clause (e.g., LIST(... ORDER BY ...)) a''
     @ str ''re '' @ [34] @ str ''holistic'' @ [34] @ str '' '' @ [8212]
     @ str '' they must see all input before producing output. DuckDB cannot spill these ''
     @ str ''complex intermediate states to disk.''"

definition non_spillable_ordered_agg_suggestion :: "jstring" where
  "non_spillable_ordered_agg_suggestion =
     str ''If ordering within the aggregate is not critical, remove the ORDER BY. Other''
     @ str ''wise, ensure the input dataset is small or pre-sorted.''"

definition many_blocking_operators_error_title :: "nat \<Rightarrow> jstring" where
  "many_blocking_operators_error_title totalBlockingOps =
     (num_str totalBlockingOps) @ str '' blocking operators detected''"

definition many_blocking_operators_error_message :: "nat \<Rightarrow> nat \<Rightarrow> nat \<Rightarrow> jstring" where
  "many_blocking_operators_error_message orderByCount windowFuncCount groupByCount =
     str ''This query contains '' @ (num_str orderByCount) @ str '' ORDER BY, ''
     @ (num_str windowFuncCount) @ str '' window function (OVER), and ''
     @ (num_str groupByCount)
     @ str '' GROUP BY operations. Each is a blocking/pipeline-breaking operator that buf''
     @ str ''fers data in memory. Per DuckDB docs: '' @ [34]
     @ str ''If multiple blocking operators appear in the same query, DuckDB may still th''
     @ str ''row an out-of-memory exception due to the complex interplay of these operato''
     @ str ''rs.'' @ [34]"

definition many_blocking_operators_error_suggestion :: "jstring" where
  "many_blocking_operators_error_suggestion =
     str ''Consider breaking this query into multiple sequential queries, materializing''
     @ str '' intermediate results into temp tables. This lets DuckDB release memory betw''
     @ str ''een steps rather than holding all intermediate states simultaneously.''"

definition many_blocking_operators_warning_title :: "nat \<Rightarrow> jstring" where
  "many_blocking_operators_warning_title totalBlockingOps =
     (num_str totalBlockingOps) @ str '' blocking operators in one query''"

definition many_blocking_operators_warning_message :: "nat \<Rightarrow> nat \<Rightarrow> nat \<Rightarrow> jstring" where
  "many_blocking_operators_warning_message orderByCount windowFuncCount groupByCount =
     str ''This query has '' @ (num_str orderByCount) @ str '' ORDER BY, ''
     @ (num_str windowFuncCount) @ str '' window functions, and '' @ (num_str groupByCount)
     @ str '' GROUP BY operations. Each is a pipeline breaker that buffers data in memory''
     @ str ''. Combined, they increase the risk of out-of-memory errors.''"

definition many_blocking_operators_warning_suggestion :: "jstring" where
  "many_blocking_operators_warning_suggestion =
     str ''Consider materializing intermediate CTEs into temp tables to reduce peak mem''
     @ str ''ory usage, or break the query into sequential steps.''"

definition heavy_json_extraction_title :: "nat \<Rightarrow> jstring" where
  "heavy_json_extraction_title totalJsonOps =
     str ''Heavy JSON extraction ('' @ (num_str totalJsonOps) @ str '' operations)''"

definition heavy_json_extraction_message :: "nat \<Rightarrow> jstring" where
  "heavy_json_extraction_message totalJsonOps =
     str ''This query performs '' @ (num_str totalJsonOps)
     @ str '' JSON extraction operations (->> and ->). Each extraction parses the JSON bl''
     @ str ''ob, and when applied repeatedly to the same column across many rows, this mu''
     @ str ''ltiplies CPU and memory usage. JSON values are stored as strings, so they'' @ [39]
     @ str ''re also not columnar-efficient.''"

definition heavy_json_extraction_suggestion :: "jstring" where
  "heavy_json_extraction_suggestion =
     str ''Consider: (1) Extract JSON fields into typed columns at ingest time (CREATE ''
     @ str ''TABLE ... AS SELECT payload->>'' @ [39] @ str ''field'' @ [39]
     @ str '' AS field ...), (2) Use json_extract with multiple paths in a single call, o''
     @ str ''r (3) Move JSON parsing into a dedicated CTE and reference the extracted col''
     @ str ''umns downstream.''"

definition moderate_json_extraction_title :: "nat \<Rightarrow> jstring" where
  "moderate_json_extraction_title totalJsonOps =
     str ''Moderate JSON extraction ('' @ (num_str totalJsonOps) @ str '' operations)''"

definition moderate_json_extraction_message :: "nat \<Rightarrow> jstring" where
  "moderate_json_extraction_message totalJsonOps =
     str ''This query performs '' @ (num_str totalJsonOps)
     @ str '' JSON extraction operations. While manageable, each parses the JSON blob ind''
     @ str ''ependently. On wide JSON payloads, this can add significant CPU overhead.''"

definition moderate_json_extraction_suggestion :: "jstring" where
  "moderate_json_extraction_suggestion =
     str ''Consider extracting commonly-accessed JSON fields into typed columns at inge''
     @ str ''st time for better performance.''"

definition json_each_expansion_title :: "jstring" where
  "json_each_expansion_title =
     str ''json_each() row expansion''"

definition json_each_expansion_message :: "jstring" where
  "json_each_expansion_message =
     str ''json_each() explodes a JSON array or object into rows. If the JSON contains ''
     @ str ''many elements, this can dramatically multiply the row count and memory usage''
     @ str '', especially when combined with subsequent aggregation or sorting.''"

definition json_each_expansion_suggestion :: "jstring" where
  "json_each_expansion_suggestion =
     str ''Filter the JSON array before expanding if possible, or apply LIMIT/WHERE imm''
     @ str ''ediately after the json_each() to keep the expanded result set small.''"

definition json_array_extract_title :: "jstring" where
  "json_array_extract_title =
     str ''JSON array wildcard extraction''"

definition json_array_extract_message :: "jstring" where
  "json_array_extract_message =
     str ''json_extract_string() with a [*] wildcard path extracts all array elements. ''
     @ str ''This creates a list in memory and, when combined with list_transform(), adds''
     @ str '' further memory pressure.''"

definition json_array_extract_suggestion :: "jstring" where
  "json_array_extract_suggestion =
     str ''If you only need a subset of array elements, filter before extraction. Consi''
     @ str ''der flattening JSON arrays into separate rows at ingest time.''"

definition repeated_order_limit_1_title :: "nat \<Rightarrow> jstring" where
  "repeated_order_limit_1_title orderByLimitMatches =
     str ''ORDER BY ... DESC LIMIT 1 repeated '' @ (num_str orderByLimitMatches) @ str ''x''"

definition repeated_order_limit_1_message :: "nat \<Rightarrow> jstring" where
  "repeated_order_limit_1_message orderByLimitMatches =
     str ''This query uses the ORDER BY ... DESC LIMIT 1 pattern ''
     @ (num_str orderByLimitMatches) @ str '' times to get the '' @ [34] @ str ''latest''
     @ [34]
     @ str '' row. Each instance requires a full sort of the input. This is a common sour''
     @ str ''ce of unnecessary memory usage and is especially costly in CTEs since DuckDB''
     @ str '' materializes each one.''"

definition repeated_order_limit_1_suggestion :: "jstring" where
  "repeated_order_limit_1_suggestion =
     str ''Replace with arg_max(): SELECT arg_max(col, observed_at) FROM table. For mul''
     @ str ''tiple columns, use arg_max(struct_pack(col1, col2, ...), observed_at). This ''
     @ str ''avoids the sort entirely.''"

definition use_arg_max_title :: "jstring" where
  "use_arg_max_title =
     str ''Consider arg_max() instead of ROW_NUMBER() window''"

definition use_arg_max_message :: "jstring" where
  "use_arg_max_message =
     str ''Using ROW_NUMBER() OVER (... ORDER BY ...) filtered to = 1 to get the '' @ [34]
     @ str ''latest'' @ [34] @ str '' or '' @ [34] @ str ''best'' @ [34]
     @ str '' row per group requires a full window sort '' @ [8212]
     @ str '' a blocking operator that buffers all rows. DuckDB'' @ [39]
     @ str ''s arg_max()/arg_min() achieves the same result more efficiently.''"

definition use_arg_max_suggestion :: "jstring" where
  "use_arg_max_suggestion =
     str ''Replace with: SELECT key, arg_max(value_col, order_col) FROM ... GROUP BY ke''
     @ str ''y. For multiple columns: arg_max(struct_pack(col1, col2), order_col).''"

definition leading_wildcard_like_title :: "jstring" where
  "leading_wildcard_like_title =
     str ''LIKE with leading wildcard''"

definition leading_wildcard_like_message :: "jstring" where
  "leading_wildcard_like_message =
     str ''A LIKE pattern starting with '' @ [39] @ str ''%'' @ [39]
     @ str '' prevents DuckDB from using zone maps or min/max statistics for filtering, f''
     @ str ''orcing a full column scan.''"

definition leading_wildcard_like_suggestion :: "jstring" where
  "leading_wildcard_like_suggestion =
     str ''If possible, use a trailing-only wildcard (LIKE '' @ [39] @ str ''prefix%'' @ [39]
     @ str ''), use CONTAINS() or regexp_matches() for clarity, or consider a full-text s''
     @ str ''earch approach.''"

definition function_on_filter_column_title :: "jstring" where
  "function_on_filter_column_title =
     str ''Function applied to column in WHERE clause''"

definition function_on_filter_column_message :: "jstring" where
  "function_on_filter_column_message =
     str ''Wrapping a column in a function (e.g., UPPER(name) = ..., YEAR(created_at) =''
     @ str '' ...) prevents filter pushdown and forces DuckDB to evaluate every row.''"

definition function_on_filter_column_suggestion :: "jstring" where
  "function_on_filter_column_suggestion =
     str ''Store pre-computed values in the table or rewrite the condition to keep the ''
     @ str ''column bare. For example, instead of YEAR(dt) = 2024, use dt >= '' @ [39]
     @ str ''2024-01-01'' @ [39] @ str '' AND dt < '' @ [39] @ str ''2025-01-01'' @ [39]
     @ str ''.''"

definition distinct_star_title :: "jstring" where
  "distinct_star_title =
     str ''SELECT DISTINCT *''"

definition distinct_star_message :: "jstring" where
  "distinct_star_message =
     str ''DISTINCT * forces DuckDB to hash or sort ALL columns to find unique rows. Th''
     @ str ''is is extremely memory-intensive and rarely intentional.''"

definition distinct_star_suggestion :: "jstring" where
  "distinct_star_suggestion =
     str ''Select only the columns you need uniqueness on, or reconsider whether DISTIN''
     @ str ''CT is necessary (maybe GROUP BY is more appropriate).''"

definition union_without_all_title :: "jstring" where
  "union_without_all_title =
     str ''UNION without ALL''"

definition union_without_all_message :: "jstring" where
  "union_without_all_message =
     str ''UNION (without ALL) removes duplicate rows by hashing the entire result set.''
     @ str '' If duplicates are acceptable or impossible, this is wasted work.''"

definition union_without_all_suggestion :: "jstring" where
  "union_without_all_suggestion =
     str ''Use UNION ALL if you don'' @ [39]
     @ str ''t need deduplication. Also consider UNION BY NAME for tables with different ''
     @ str ''column orders.''"

definition count_distinct_title :: "nat \<Rightarrow> jstring" where
  "count_distinct_title countDistinct =
     str ''COUNT(DISTINCT ...) detected ('' @ (num_str countDistinct) @ str ''x)''"

definition count_distinct_message :: "nat \<Rightarrow> jstring" where
  "count_distinct_message countDistinct =
     str ''COUNT(DISTINCT) appears '' @ (num_str countDistinct)
     @ str '' time(s). Each builds a hash set of all unique values in memory. On high-car''
     @ str ''dinality columns this is very memory-intensive.''"

definition count_distinct_suggestion :: "jstring" where
  "count_distinct_suggestion =
     str ''If an approximate count is acceptable, consider using APPROX_COUNT_DISTINCT(''
     @ str '') which uses HyperLogLog and far less memory.''"

definition not_in_subquery_title :: "jstring" where
  "not_in_subquery_title =
     str ''NOT IN with subquery''"

definition not_in_subquery_message :: "jstring" where
  "not_in_subquery_message =
     str ''NOT IN with a subquery can be slow because it may prevent the optimizer from''
     @ str '' using an anti-join. It also has surprising NULL semantics '' @ [8212]
     @ str '' if the subquery returns any NULL, the entire NOT IN evaluates to NULL/false''
     @ str ''.''"

definition not_in_subquery_suggestion :: "jstring" where
  "not_in_subquery_suggestion =
     str ''Use NOT EXISTS (SELECT 1 FROM ... WHERE ...) instead, or a LEFT JOIN ... WHE''
     @ str ''RE right.id IS NULL anti-join pattern.''"

definition correlated_subquery_title :: "jstring" where
  "correlated_subquery_title =
     str ''Possible correlated subquery''"

definition correlated_subquery_message :: "jstring" where
  "correlated_subquery_message =
     str ''A correlated subquery in the SELECT list or WHERE clause re-executes for eve''
     @ str ''ry row of the outer query. This is extremely slow on large tables.''"

definition correlated_subquery_suggestion :: "jstring" where
  "correlated_subquery_suggestion =
     str ''Rewrite as a JOIN or use a CTE. For example: WITH sub AS (SELECT ...) SELECT''
     @ str '' ... FROM main JOIN sub ON ...''"

definition insert_select_star_title :: "jstring" where
  "insert_select_star_title =
     str ''INSERT INTO ... SELECT *''"

definition insert_select_star_message :: "jstring" where
  "insert_select_star_message =
     str ''Large INSERT ... SELECT operations preserve insertion order by default, whic''
     @ str ''h requires buffering the entire result. This can cause OOM on large datasets''
     @ str ''.''"

definition insert_select_star_suggestion :: "jstring" where
  "insert_select_star_suggestion =
     str ''Run SET preserve_insertion_order = false; before the insert if row order doe''
     @ str ''sn'' @ [39] @ str ''t matter. This significantly reduces memory usage.''"

definition many_ctes_warning_title :: "nat \<Rightarrow> jstring" where
  "many_ctes_warning_title cteCount =
     (num_str cteCount) @ str '' CTEs detected''"

definition many_ctes_warning_message :: "nat \<Rightarrow> jstring" where
  "many_ctes_warning_message cteCount =
     str ''This query has '' @ (num_str cteCount)
     @ str '' CTEs. DuckDB materializes each CTE, meaning all intermediate results are he''
     @ str ''ld in memory simultaneously. With '' @ (num_str cteCount) @ str '' CTEs ''
     @ [8212]
     @ str '' each potentially containing blocking operators like ORDER BY or GROUP BY ''
     @ [8212] @ str '' the combined memory footprint can be substantial.''"

definition many_ctes_warning_suggestion :: "jstring" where
  "many_ctes_warning_suggestion =
     str ''Consider breaking this into multiple sequential queries with CREATE TEMP TAB''
     @ str ''LE to materialize intermediate results, allowing DuckDB to release memory be''
     @ str ''tween stages. Focus on CTEs that produce large intermediate results.''"

definition many_ctes_info_title :: "nat \<Rightarrow> jstring" where
  "many_ctes_info_title cteCount =
     (num_str cteCount) @ str '' CTEs detected''"

definition many_ctes_info_message :: "nat \<Rightarrow> jstring" where
  "many_ctes_info_message cteCount =
     str ''This query has '' @ (num_str cteCount)
     @ str '' CTEs. DuckDB materializes each CTE. While CTEs improve readability, excessi''
     @ str ''ve CTEs may increase peak memory usage.''"

definition many_ctes_info_suggestion :: "jstring" where
  "many_ctes_info_suggestion =
     str ''Consider whether some CTEs can be inlined or merged. DuckDB auto-materialize''
     @ str ''s duplicate CTEs, so focus on eliminating unused ones.''"

definition window_without_qualify_title :: "jstring" where
  "window_without_qualify_title =
     str ''Window function filtered in WHERE instead of QUALIFY''"

definition window_without_qualify_message :: "jstring" where
  "window_without_qualify_message =
     str ''DuckDB supports QUALIFY, which filters on window function results directly ''
     @ [8212]
     @ str '' no subquery needed. Using WHERE on a window function result requires wrappi''
     @ str ''ng in a subquery.''"

definition window_without_qualify_suggestion :: "jstring" where
  "window_without_qualify_suggestion =
     str ''Use QUALIFY instead: SELECT ... FROM ... QUALIFY ROW_NUMBER() OVER (...) <= ''
     @ str ''N''"

definition excessive_casts_title :: "nat \<Rightarrow> jstring" where
  "excessive_casts_title castOps =
     (num_str castOps) @ str '' type cast operations''"

definition excessive_casts_message :: "nat \<Rightarrow> jstring" where
  "excessive_casts_message castOps =
     str ''This query has '' @ (num_str castOps)
     @ str '' explicit type casts. This often means data is stored as JSON or VARCHAR and''
     @ str '' cast at query time. Each cast adds CPU overhead and prevents DuckDB from us''
     @ str ''ing native type optimizations.''"

definition excessive_casts_suggestion :: "jstring" where
  "excessive_casts_suggestion =
     str ''Store data in native types (BOOLEAN, INTEGER, TIMESTAMP, etc.) at ingest tim''
     @ str ''e. For JSON payloads, consider extracting frequently-queried fields into typ''
     @ str ''ed columns.''"

definition md_local_remote_transfer_title :: "jstring" where
  "md_local_remote_transfer_title =
     str ''Possible large local-to-cloud data transfer''"

definition md_local_remote_transfer_message :: "jstring" where
  "md_local_remote_transfer_message =
     str ''Reading local files (read_csv, read_parquet) and joining with MotherDuck clo''
     @ str ''ud tables causes data to be uploaded via Bridge. Large local files will bott''
     @ str ''leneck on network upload speed.''"

definition md_local_remote_transfer_suggestion :: "jstring" where
  "md_local_remote_transfer_suggestion =
     str ''Consider uploading the local data to MotherDuck first (CREATE TABLE ... AS S''
     @ str ''ELECT * FROM read_csv(...)), then join cloud-to-cloud for better performance''
     @ str ''.''"

definition group_by_verbose_title :: "jstring" where
  "group_by_verbose_title =
     str ''Verbose GROUP BY''"

definition group_by_verbose_message :: "jstring" where
  "group_by_verbose_message =
     str ''DuckDB supports GROUP BY ALL which automatically groups by all non-aggregate''
     @ str ''d columns. This reduces errors when modifying the SELECT list.''"

definition group_by_verbose_suggestion :: "jstring" where
  "group_by_verbose_suggestion =
     str ''Replace the explicit column list with GROUP BY ALL for convenience.''"

definition remote_file_select_star_title :: "jstring" where
  "remote_file_select_star_title =
     str ''SELECT * from remote file''"

definition remote_file_select_star_message :: "jstring" where
  "remote_file_select_star_message =
     str ''Reading all columns from a remote Parquet/CSV file downloads the entire file''
     @ str '' over the network. This is extremely slow for wide tables.''"

definition remote_file_select_star_suggestion :: "jstring" where
  "remote_file_select_star_suggestion =
     str ''Select only the columns you need. For remote Parquet, DuckDB can do column p''
     @ str ''runing and predicate pushdown '' @ [8212]
     @ str '' but only if you specify columns and WHERE filters.''"

definition md_duckling_size_title :: "jstring" where
  "md_duckling_size_title =
     str ''Consider a larger Duckling size''"

definition md_duckling_size_message :: "jstring" where
  "md_duckling_size_message =
     str ''If this query runs out of memory on MotherDuck, consider upgrading from Puls''
     @ str ''e to Standard, Jumbo, Mega, or Giga Ducklings for more memory.''"

definition md_duckling_size_suggestion :: "jstring" where
  "md_duckling_size_suggestion =
     str ''Change your Duckling size in MotherDuck settings. Also try SET preserve_inse''
     @ str ''rtion_order = false; and SET temp_directory to enable spilling.''"

definition list_transform_title :: "jstring" where
  "list_transform_title =
     str ''list_transform() '' @ [8212] @ str '' in-memory list processing''"

definition list_transform_message :: "jstring" where
  "list_transform_message =
     str ''list_transform() applies a lambda to every element of a list in memory. When''
     @ str '' combined with other list operations (list_concat, flatten, array_to_string)''
     @ str '', the entire chain is non-spillable.''"

definition list_transform_suggestion :: "jstring" where
  "list_transform_suggestion =
     str ''Consider whether this transformation can be done at ingest time or via a sim''
     @ str ''pler SQL expression. For string building, a CTE with UNNEST + string_agg may''
     @ str '' give the optimizer more room.''"

definition non_spillable_pivot_title :: "jstring" where
  "non_spillable_pivot_title =
     str ''PIVOT uses list() internally '' @ [8212] @ str '' cannot spill to disk''"

definition non_spillable_pivot_message :: "jstring" where
  "non_spillable_pivot_message =
     str ''DuckDB'' @ [39]
     @ str ''s PIVOT statement internally uses the list() aggregate to collect values bef''
     @ str ''ore spreading them into columns. Since list() cannot spill to disk, PIVOT on''
     @ str '' large datasets or high-cardinality pivot columns will cause out-of-memory c''
     @ str ''rashes. This is documented in the DuckDB '' @ [34] @ str ''Tuning Workloads''
     @ [34] @ str '' guide as a non-spillable operator.''"

definition non_spillable_pivot_suggestion :: "jstring" where
  "non_spillable_pivot_suggestion =
     str ''Consider: (1) pre-filter or pre-aggregate data before pivoting to reduce inp''
     @ str ''ut size, (2) limit the number of distinct pivot values with a WHERE or IN cl''
     @ str ''ause on the pivot column, (3) break the pivot into smaller batches by partit''
     @ str ''ioning the data, or (4) use a manual CASE WHEN approach: SUM(CASE WHEN flag ''
     @ str ''= '' @ [39] @ str ''X'' @ [39] @ str '' THEN 1 ELSE 0 END) AS x '' @ [8212]
     @ str '' which uses only spillable operators.''"

definition many_left_join_on_true_title :: "nat \<Rightarrow> jstring" where
  "many_left_join_on_true_title leftJoinOnTrue =
     (num_str leftJoinOnTrue) @ str '' LEFT JOIN ... ON TRUE''"

definition many_left_join_on_true_message :: "nat \<Rightarrow> jstring" where
  "many_left_join_on_true_message leftJoinOnTrue =
     str ''This query uses LEFT JOIN ... ON TRUE '' @ (num_str leftJoinOnTrue)
     @ str '' times to combine CTE results. This is a valid pattern when each CTE returns''
     @ str '' a single row, but if any CTE unexpectedly returns multiple rows, the result''
     @ str '' will silently multiply.''"

definition many_left_join_on_true_suggestion :: "jstring" where
  "many_left_join_on_true_suggestion =
     str ''Consider adding an assertion or defensive LIMIT 1 to CTEs that are expected ''
     @ str ''to return a single row. Alternatively, use scalar subqueries in the final SE''
     @ str ''LECT.''"

definition non_spillable_median_title :: "nat \<Rightarrow> jstring" where
  "non_spillable_median_title count =
     str ''Non-spillable ordered-set aggregate ('' @ (num_str count) @ str ''x)''"

definition non_spillable_median_message :: "nat \<Rightarrow> jstring" where
  "non_spillable_median_message count =
     str ''This query uses '' @ (num_str count)
     @ str '' ordered-set aggregate(s) (MEDIAN, QUANTILE, PERCENTILE_CONT/DISC, or MODE).''
     @ str '' These functions must sort all input values in memory to compute exact resul''
     @ str ''ts and cannot spill to disk. On large datasets or high-cardinality groups, t''
     @ str ''his causes OOM crashes.''"

definition non_spillable_median_suggestion :: "jstring" where
  "non_spillable_median_suggestion =
     str ''Use APPROX_QUANTILE(col, 0.5) instead of MEDIAN() for approximate results wi''
     @ str ''th bounded memory. For MODE(), pre-aggregate with COUNT(*) and take the top ''
     @ str ''row. Pre-filter data to reduce input size.''"

definition unnest_large_expansion_title :: "jstring" where
  "unnest_large_expansion_title =
     str ''UNNEST() may cause large row expansion''"

definition unnest_large_expansion_message :: "jstring" where
  "unnest_large_expansion_message =
     str ''UNNEST() on a column explodes array values into individual rows. If arrays a''
     @ str ''re large, row counts and memory usage can multiply dramatically '' @ [8212]
     @ str '' especially when combined with subsequent joins or aggregations.''"

definition unnest_large_expansion_suggestion :: "jstring" where
  "unnest_large_expansion_suggestion =
     str ''Filter rows before UNNEST to limit input size. Consider using list functions''
     @ str '' (list_filter, list_transform) to process arrays without expanding them into''
     @ str '' rows.''"

definition recursive_cte_no_limit_title :: "jstring" where
  "recursive_cte_no_limit_title =
     str ''Recursive CTE without termination guard''"

definition recursive_cte_no_limit_message :: "jstring" where
  "recursive_cte_no_limit_message =
     str ''WITH RECURSIVE without a LIMIT, depth counter, or USING KEY clause risks inf''
     @ str ''inite recursion. DuckDB will keep expanding rows until memory is exhausted, ''
     @ str ''causing an OOM crash.''"

definition recursive_cte_no_limit_suggestion :: "jstring" where
  "recursive_cte_no_limit_suggestion =
     str ''Add a depth counter (e.g., depth + 1 in the recursive term and WHERE depth <''
     @ str '' N), add a LIMIT clause, or use USING KEY to avoid revisiting rows.''"

definition ctas_memory_title :: "jstring" where
  "ctas_memory_title =
     str ''CREATE TABLE AS SELECT materializes fully in memory''"

definition ctas_memory_message :: "jstring" where
  "ctas_memory_message =
     str ''CREATE TABLE ... AS SELECT (CTAS) materializes the entire query result befor''
     @ str ''e writing to disk because DuckDB preserves insertion order by default. For l''
     @ str ''arge result sets, this can exhaust memory.''"

definition ctas_memory_suggestion :: "jstring" where
  "ctas_memory_suggestion =
     str ''Run SET preserve_insertion_order = false; before the CTAS to allow streaming''
     @ str '' writes with significantly less memory. This is safe when row order does not''
     @ str '' matter.''"

definition large_in_list_title :: "jstring" where
  "large_in_list_title =
     str ''Large IN list (50+ values)''"

definition large_in_list_message :: "jstring" where
  "large_in_list_message =
     str ''An IN clause with 50+ literal values adds significant parse overhead and usu''
     @ str ''ally indicates a missing dimension table. The parser must process every valu''
     @ str ''e, and the resulting filter cannot benefit from join optimizations.''"

definition large_in_list_suggestion :: "jstring" where
  "large_in_list_suggestion =
     str ''Load the values into a CTE or temp table and use a SEMI JOIN (WHERE EXISTS o''
     @ str ''r INNER JOIN) instead: WITH vals AS (SELECT UNNEST([...]) AS v) SELECT ... F''
     @ str ''ROM t WHERE t.col IN (SELECT v FROM vals).''"

definition read_remote_no_filter_title :: "jstring" where
  "read_remote_no_filter_title =
     str ''Remote file scan without WHERE filter''"

definition read_remote_no_filter_message :: "jstring" where
  "read_remote_no_filter_message =
     str ''Reading remote files (S3, HTTP, GCS) without a WHERE clause downloads all ro''
     @ str ''w groups. DuckDB can push down predicates to skip row groups in remote Parqu''
     @ str ''et files via min/max statistics, but only if you provide a filter.''"

definition read_remote_no_filter_suggestion :: "jstring" where
  "read_remote_no_filter_suggestion =
     str ''Add a WHERE clause on partition or sort columns to enable predicate pushdown''
     @ str '' and row group skipping. This can dramatically reduce the amount of data tra''
     @ str ''nsferred over the network.''"

definition multiple_remote_scans_title :: "nat \<Rightarrow> jstring" where
  "multiple_remote_scans_title remoteScans =
     (num_str remoteScans) @ str '' remote file scans in one query''"

definition multiple_remote_scans_message :: "nat \<Rightarrow> jstring" where
  "multiple_remote_scans_message remoteScans =
     str ''This query reads from '' @ (num_str remoteScans)
     @ str '' remote files. Each remote scan incurs network latency, and DuckDB must coor''
     @ str ''dinate multiple HTTP connections in parallel. Combined bandwidth and round-t''
     @ str ''rip delays compound, especially for large files.''"

definition multiple_remote_scans_suggestion :: "jstring" where
  "multiple_remote_scans_suggestion =
     str ''Materialize dimension tables into local or MotherDuck tables first (CREATE T''
     @ str ''ABLE dim AS SELECT ... FROM read_parquet('' @ [39] @ str ''s3://...'' @ [39]
     @ str '')), then join against the local copy. This avoids repeated remote fetches.''"

definition glob_many_files_title :: "jstring" where
  "glob_many_files_title =
     str ''Deep glob pattern (**) on remote files''"

definition glob_many_files_message :: "jstring" where
  "glob_many_files_message =
     str ''Using ** in a remote file path triggers recursive directory listing, which r''
     @ str ''equires many network round-trips to enumerate all files. This can be very sl''
     @ str ''ow on deep directory structures, especially on S3 where each LIST operation ''
     @ str ''has latency.''"

definition glob_many_files_suggestion :: "jstring" where
  "glob_many_files_suggestion =
     str ''Use Hive-style partitioning (e.g., read_parquet('' @ [39]
     @ str ''s3://bucket/table/*/*.parquet'' @ [39]
     @ str '', hive_partitioning=true)) or narrow the glob to specific subdirectories to ''
     @ str ''reduce the number of LIST calls.''"

definition temporal_join_via_window_title :: "jstring" where
  "temporal_join_via_window_title =
     str ''Consider ASOF JOIN for temporal matching''"

definition temporal_join_via_window_message :: "jstring" where
  "temporal_join_via_window_message =
     str ''This query appears to use an inequality join combined with a window function''
     @ str '' (ROW_NUMBER, LAST_VALUE) to find the '' @ [34] @ str ''nearest'' @ [34]
     @ str '' or '' @ [34] @ str ''most recent'' @ [34]
     @ str '' match. DuckDB natively supports ASOF JOIN, which is purpose-built for this ''
     @ str ''pattern and is faster and uses less memory.''"

definition temporal_join_via_window_suggestion :: "jstring" where
  "temporal_join_via_window_suggestion =
     str ''Rewrite as: SELECT * FROM events ASOF JOIN prices ON events.ts >= prices.ts.''
     @ str '' ASOF JOIN efficiently finds the nearest match without the window function o''
     @ str ''verhead.''"

definition or_chain_instead_of_in_title :: "jstring" where
  "or_chain_instead_of_in_title =
     str ''OR chain can be simplified to IN (...)''"

definition or_chain_instead_of_in_message :: "jstring" where
  "or_chain_instead_of_in_message =
     str ''Multiple OR conditions on the same column (col = '' @ [39] @ str ''a'' @ [39]
     @ str '' OR col = '' @ [39] @ str ''b'' @ [39]
     @ str '' OR ...) are verbose and harder to read. DuckDB optimizes IN lists into effi''
     @ str ''cient hash lookups.''"

definition or_chain_instead_of_in_suggestion :: "jstring" where
  "or_chain_instead_of_in_suggestion =
     str ''Replace with: col IN ('' @ [39] @ str ''a'' @ [39] @ str '', '' @ [39] @ str ''b''
     @ [39] @ str '', '' @ [39] @ str ''c'' @ [39] @ str '', '' @ [39] @ str ''d'' @ [39]
     @ str ''). This is more readable and may be optimized differently by the query plann''
     @ str ''er.''"

definition between_timestamp_title :: "jstring" where
  "between_timestamp_title =
     str ''BETWEEN on temporal column''"

definition between_timestamp_message :: "jstring" where
  "between_timestamp_message =
     str ''BETWEEN uses a closed-closed interval ([start, end]), which includes both bo''
     @ str ''undary values. For temporal data, this causes boundary rows to appear in two''
     @ str '' adjacent bins (e.g., a row at midnight belongs to both '' @ [34]
     @ str ''yesterday'' @ [34] @ str '' and '' @ [34] @ str ''today'' @ [34]
     @ str ''). This is a common source of double-counting in time-series analysis.''"

definition between_timestamp_suggestion :: "jstring" where
  "between_timestamp_suggestion =
     str ''Use half-open intervals instead: col >= '' @ [39] @ str ''2024-01-01'' @ [39]
     @ str '' AND col < '' @ [39] @ str ''2024-02-01'' @ [39]
     @ str ''. This ensures each row belongs to exactly one bin.''"

definition chained_select_star_title :: "jstring" where
  "chained_select_star_title =
     str ''SELECT * chained through multiple CTEs''"

definition chained_select_star_message :: "jstring" where
  "chained_select_star_message =
     str ''Using SELECT * in multiple CTEs and the final query defeats column pruning a''
     @ str ''t every materialization stage. DuckDB materializes each CTE, so every column''
     @ str '' is carried through every intermediate step even if only a few columns are n''
     @ str ''eeded at the end.''"

definition chained_select_star_suggestion :: "jstring" where
  "chained_select_star_suggestion =
     str ''Specify only the needed columns in early CTEs to enable column pruning. You ''
     @ str ''can also use SELECT * EXCLUDE (col1, col2) to drop unneeded columns early in''
     @ str '' the pipeline.''"

definition md_cross_database_join_title :: "jstring" where
  "md_cross_database_join_title =
     str ''Cross-database join detected''"

definition md_cross_database_join_message :: "nat \<Rightarrow> jstring \<Rightarrow> jstring" where
  "md_cross_database_join_message dbPrefixes_size dbPrefixes_joined =
     str ''This query references tables from '' @ (num_str dbPrefixes_size)
     @ str '' different databases ('' @ dbPrefixes_joined
     @ str ''). On MotherDuck, cross-database joins may require transferring data between''
     @ str '' storage locations, adding network overhead.''"

definition md_cross_database_join_suggestion :: "jstring" where
  "md_cross_database_join_suggestion =
     str ''If both databases are on MotherDuck, consider consolidating frequently-joine''
     @ str ''d tables into the same database. If one side is small, materialize it locall''
     @ str ''y first.''"

section \<open>Rules on the tree\<close>

fun checkSelectStar :: "ast \<Rightarrow> jstring \<Rightarrow> finding list"
and checkSelectStar_items :: "from_item list \<Rightarrow> jstring \<Rightarrow> finding list" where
  "checkSelectStar (Ast ty cols frm wh ob lim) sql =
     (if ty \<noteq> str ''select'' then []
      else
        (case cols of
           ColumnsStar \<Rightarrow>
             [located (finding (str ''select-star'') Warning select_star_all_title
                         select_star_all_message select_star_all_suggestion Performance
                         (Some (str ''SELECT *'')))
                      (locate sql (str ''select *''))]
         | ColumnsArr cs \<Rightarrow>
             concat (map (\<lambda>col.
               (case col of
                  Column (Some (Expr ety sub l r args)) \<Rightarrow>
                    if ety = str ''star''
                    then [finding (str ''select-star'') Warning select_star_item_title
                            select_star_item_message select_star_item_suggestion Performance
                            (Some (str ''*''))]
                    else []
                | Column None \<Rightarrow> [])) cs)
         | ColumnsOther \<Rightarrow> [])
        @ (case frm of
             NoFrom \<Rightarrow> []
           | FromArr items \<Rightarrow> checkSelectStar_items items sql
           | FromOne item \<Rightarrow> checkSelectStar_items [item] sql))"
| "checkSelectStar_items [] sql = []"
| "checkSelectStar_items (FromItem e j on t a # rest) sql =
     (case e of
        Some (Expr ety (Some sub) l r args) \<Rightarrow> checkSelectStar sub sql
      | _ \<Rightarrow> [])
     @ checkSelectStar_items rest sql"

definition checkOrderByWithoutLimit :: "ast \<Rightarrow> jstring \<Rightarrow> finding list" where
  "checkOrderByWithoutLimit a sql =
     (if ast_type a \<noteq> str ''select'' then []
      else if ast_orderby a \<noteq> None \<and> ast_limit a = None
      then [located (finding (str ''order-without-limit'') Warning order_without_limit_title
                       order_without_limit_message order_without_limit_suggestion Memory
                       (Some (str ''ORDER BY'')))
                    (locate sql (str ''order by''))]
      else [])"

definition checkCrossJoin :: "ast \<Rightarrow> jstring \<Rightarrow> finding list" where
  "checkCrossJoin a sql =
     (if ast_type a \<noteq> str ''select'' \<or> ast_from a = NoFrom then []
      else concat (map (\<lambda>item.
             if item_join item = Some (str ''CROSS JOIN'')
             then [located (finding (str ''cross-join'') Warning cross_join_title
                              cross_join_message cross_join_suggestion Memory
                              (Some (str ''CROSS JOIN'')))
                           (locate sql (str ''cross join''))]
             else []) (fromList (ast_from a))))"

fun checkNestedSubqueries :: "ast \<Rightarrow> jstring \<Rightarrow> nat \<Rightarrow> finding list"
and checkNestedSubqueries_items :: "from_item list \<Rightarrow> jstring \<Rightarrow> nat \<Rightarrow> finding list"
and checkExprForSubqueries :: "expr \<Rightarrow> jstring \<Rightarrow> nat \<Rightarrow> finding list"
and checkExprForSubqueries_args :: "expr list \<Rightarrow> jstring \<Rightarrow> nat \<Rightarrow> finding list" where
  "checkNestedSubqueries (Ast ty cols frm wh ob lim) sql depth =
     (if ty \<noteq> str ''select'' then []
      else
        (if 3 \<le> depth
         then [finding (str ''deeply-nested-subquery'') Warning deeply_nested_subquery_title
                 deeply_nested_subquery_message deeply_nested_subquery_suggestion
                 Performance None]
         else [])
        @ (case wh of None \<Rightarrow> [] | Some e \<Rightarrow> checkExprForSubqueries e sql depth)
        @ (case frm of
             NoFrom \<Rightarrow> []
           | FromArr items \<Rightarrow> checkNestedSubqueries_items items sql depth
           | FromOne item \<Rightarrow> checkNestedSubqueries_items [item] sql depth))"
| "checkNestedSubqueries_items [] sql depth = []"
| "checkNestedSubqueries_items (FromItem e j on t a # rest) sql depth =
     (case e of
        Some (Expr ety (Some sub) l r args) \<Rightarrow> checkNestedSubqueries sub sql (depth + 1)
      | _ \<Rightarrow> [])
     @ checkNestedSubqueries_items rest sql depth"
| "checkExprForSubqueries (Expr ety sub l r args) sql depth =
     (case sub of None \<Rightarrow> [] | Some q \<Rightarrow> checkNestedSubqueries q sql (depth + 1))
     @ (case l of None \<Rightarrow> [] | Some e \<Rightarrow> checkExprForSubqueries e sql depth)
     @ (case r of None \<Rightarrow> [] | Some e \<Rightarrow> checkExprForSubqueries e sql depth)
     @ (case args of
          None \<Rightarrow> []
        | Some (ArgsArr es) \<Rightarrow> checkExprForSubqueries_args es sql depth
        | Some (ArgsOne e) \<Rightarrow> checkExprForSubqueries_args [e] sql depth)"
| "checkExprForSubqueries_args [] sql depth = []"
| "checkExprForSubqueries_args (Expr ety sub l r args # rest) sql depth =
     (case sub of None \<Rightarrow> [] | Some q \<Rightarrow> checkNestedSubqueries q sql (depth + 1))
     @ checkExprForSubqueries_args rest sql depth"

text \<open>\<open>f.table || f.as || ''\<close>.\<close>

definition item_name :: "from_item \<Rightarrow> jstring" where
  "item_name f =
     (if truthy (item_table f) then the (item_table f)
      else if truthy (item_as f) then the (item_as f)
      else [])"

definition checkJoinWithoutCondition :: "ast \<Rightarrow> jstring \<Rightarrow> finding list" where
  "checkJoinWithoutCondition a sql =
     (if ast_type a \<noteq> str ''select'' \<or> ast_from a = NoFrom then []
      else
        let fromList = fromList (ast_from a) in
        (if 1 < length fromList
              \<and> \<not> list_ex (\<lambda>f. truthy (item_join f)) fromList \<and> ast_where a = None
         then [finding (str ''implicit-cross-join'') Error implicit_cross_join_title
                 implicit_cross_join_message implicit_cross_join_suggestion Memory
                 (Some (join (str '', '') (filter (\<lambda>n. n \<noteq> []) (map item_name fromList))))]
         else [])
        @ concat (map (\<lambda>item.
            if truthy (item_join item) \<and> item_join item \<noteq> Some (str ''CROSS JOIN'')
                 \<and> item_on item = None
            then [located (finding (str ''join-without-on'') Warning join_without_on_title
                             join_without_on_message join_without_on_suggestion Performance
                             (item_join item))
                          (locate sql (the (item_join item)))]
            else []) fromList))"

text \<open>Deduplicate by \<open>ruleId\<close>: the filter of \<open>runRules\<close> with its set \<open>seen\<close>.\<close>

fun dedup :: "jstring set \<Rightarrow> finding list \<Rightarrow> finding list" where
  "dedup seen [] = []"
| "dedup seen (f # fs) =
     (if ruleId f \<in> seen then dedup seen fs
      else f # dedup (insert (ruleId f) seen) fs)"


section \<open>Rules on the text\<close>

text \<open>
  \<open>regexRules\<close> of \<^verbatim>\<open>rules.ts\<close> is a sequence of blocks, numbered in its comments, each
  pushing its findings when its patterns match. A block is a function here, from the
  text to the findings it pushes; the result is \<open>None\<close> when a \<open>findAll\<close> loop of the
  block does not end. Before each block stand the patterns it runs, as in the source.
\<close>

abbreviation cu :: "nat \<Rightarrow> rx" where "cu n \<equiv> Cls (\<lambda>x. x = n)"
abbreviation not_cu :: "nat \<Rightarrow> rx" where "not_cu n \<equiv> Cls (\<lambda>x. x \<noteq> n)"

text \<open>1. \<^verbatim>\<open>/\blist\s*\(/gi\<close> and \<^verbatim>\<open>/\bLIST\s*\(\s*DISTINCT\b/gi\<close>\<close>

definition re_list :: rx where
  "re_list = seqs [WordB, lit_i ''list'', star ws, lit_i ''('']"

definition re_list_distinct :: rx where
  "re_list_distinct =
     seqs [WordB, lit_i ''LIST'', star ws, lit_i ''('', star ws, lit_i ''DISTINCT'', WordB]"

definition rule_non_spillable_list :: "jstring \<Rightarrow> finding list option" where
  "rule_non_spillable_list sql = do {
     listAggMatches \<leftarrow> findAll sql re_list;
     Some (if 0 < length listAggMatches
           then let count = length listAggMatches in
             [located (finding (str ''non-spillable-list'') Error
                         (non_spillable_list_title count) (non_spillable_list_message count)
                         non_spillable_list_suggestion Memory (Some (listAggMatches ! 0)))
                      (locate sql (listAggMatches ! 0))]
           else [])
   }"

definition rule_non_spillable_list_distinct :: "jstring \<Rightarrow> finding list option" where
  "rule_non_spillable_list_distinct sql = do {
     listDistinctMatches \<leftarrow> findAll sql re_list_distinct;
     Some (if 0 < length listDistinctMatches
           then [located (finding (str ''non-spillable-list-distinct'') Error
                            non_spillable_list_distinct_title
                            non_spillable_list_distinct_message
                            non_spillable_list_distinct_suggestion Memory
                            (Some (listDistinctMatches ! 0)))
                         (locate sql (listDistinctMatches ! 0))]
           else [])
   }"

text \<open>2. \<^verbatim>\<open>/\bstring_agg\s*\(/i\<close>\<close>

definition re_string_agg :: rx where
  "re_string_agg = seqs [WordB, lit_i ''string_agg'', star ws, lit_i ''('']"

definition rule_non_spillable_string_agg :: "jstring \<Rightarrow> finding list option" where
  "rule_non_spillable_string_agg sql =
     Some (if test re_string_agg sql
           then [located (finding (str ''non-spillable-string-agg'') Warning
                            non_spillable_string_agg_title non_spillable_string_agg_message
                            non_spillable_string_agg_suggestion Memory
                            (Some (str ''string_agg('')))
                         (locate sql (str ''string_agg(''))]
           else [])"

text \<open>3. \<^verbatim>\<open>/\b(?:list|string_agg|array_agg|LIST)\s*\([^)]*ORDER\s+BY\b/gi\<close>\<close>

definition re_agg_order_by :: rx where
  "re_agg_order_by =
     seqs [WordB,
           alts [lit_i ''list'', lit_i ''string_agg'', lit_i ''array_agg'', lit_i ''LIST''],
           star ws, lit_i ''('', star (not_ch '')''), lit_i ''ORDER'', plus ws, lit_i ''BY'',
           WordB]"

definition rule_non_spillable_ordered_agg :: "jstring \<Rightarrow> finding list option" where
  "rule_non_spillable_ordered_agg sql = do {
     aggOrderByMatches \<leftarrow> findAll sql re_agg_order_by;
     Some (if 0 < length aggOrderByMatches
           then [located (finding (str ''non-spillable-ordered-agg'') Warning
                            non_spillable_ordered_agg_title non_spillable_ordered_agg_message
                            non_spillable_ordered_agg_suggestion Memory
                            (Some (aggOrderByMatches ! 0)))
                         (locate sql (aggOrderByMatches ! 0))]
           else [])
   }"

text \<open>4. \<^verbatim>\<open>/\bORDER\s+BY\b/gi\<close>, \<^verbatim>\<open>/\bOVER\s*\(/gi\<close> and \<^verbatim>\<open>/\bGROUP\s+BY\b/gi\<close>\<close>

definition re_order_by :: rx where
  "re_order_by = seqs [WordB, lit_i ''ORDER'', plus ws, lit_i ''BY'', WordB]"

definition re_over :: rx where
  "re_over = seqs [WordB, lit_i ''OVER'', star ws, lit_i ''('']"

definition re_group_by :: rx where
  "re_group_by = seqs [WordB, lit_i ''GROUP'', plus ws, lit_i ''BY'', WordB]"

definition rule_many_blocking_operators :: "jstring \<Rightarrow> finding list option" where
  "rule_many_blocking_operators sql = do {
     orderByCount \<leftarrow> countMatches sql re_order_by;
     windowFuncCount \<leftarrow> countMatches sql re_over;
     groupByCount \<leftarrow> countMatches sql re_group_by;
     let totalBlockingOps = orderByCount + windowFuncCount + groupByCount;
     Some (if 8 \<le> totalBlockingOps
           then [finding (str ''many-blocking-operators'') Error
                   (many_blocking_operators_error_title totalBlockingOps)
                   (many_blocking_operators_error_message orderByCount windowFuncCount
                      groupByCount)
                   many_blocking_operators_error_suggestion Memory None]
           else if 5 \<le> totalBlockingOps
           then [finding (str ''many-blocking-operators'') Warning
                   (many_blocking_operators_warning_title totalBlockingOps)
                   (many_blocking_operators_warning_message orderByCount windowFuncCount
                      groupByCount)
                   many_blocking_operators_warning_suggestion Memory None]
           else [])
   }"

text \<open>5. \<^verbatim>\<open>/->>/g\<close> and \<^verbatim>\<open>/->[^>]/g\<close>\<close>

definition re_json_arrow :: rx where
  "re_json_arrow = lit ''->>''"

definition re_json_arrow_obj :: rx where
  "re_json_arrow_obj = seqs [lit ''->'', not_ch ''>'']"

definition rule_json_extraction :: "jstring \<Rightarrow> finding list option" where
  "rule_json_extraction sql = do {
     jsonArrowCount \<leftarrow> countMatches sql re_json_arrow;
     jsonArrowObjCount \<leftarrow> countMatches sql re_json_arrow_obj;
     let totalJsonOps = jsonArrowCount + jsonArrowObjCount;
     Some (if 20 \<le> totalJsonOps
           then [located (finding (str ''heavy-json-extraction'') Warning
                            (heavy_json_extraction_title totalJsonOps)
                            (heavy_json_extraction_message totalJsonOps)
                            heavy_json_extraction_suggestion Performance (Some (str ''->>'')))
                         (locate sql (str ''->>''))]
           else if 8 \<le> totalJsonOps
           then [located (finding (str ''moderate-json-extraction'') Info
                            (moderate_json_extraction_title totalJsonOps)
                            (moderate_json_extraction_message totalJsonOps)
                            moderate_json_extraction_suggestion Performance
                            (Some (str ''->>'')))
                         (locate sql (str ''->>''))]
           else [])
   }"

text \<open>6. \<^verbatim>\<open>/\bjson_each\s*\(/i\<close>\<close>

definition re_json_each :: rx where
  "re_json_each = seqs [WordB, lit_i ''json_each'', star ws, lit_i ''('']"

definition rule_json_each_expansion :: "jstring \<Rightarrow> finding list option" where
  "rule_json_each_expansion sql =
     Some (if test re_json_each sql
           then [located (finding (str ''json-each-expansion'') Warning
                            json_each_expansion_title json_each_expansion_message
                            json_each_expansion_suggestion Memory (Some (str ''json_each('')))
                         (locate sql (str ''json_each(''))]
           else [])"

text \<open>7. \<^verbatim>\<open>/json_extract_string\s*\([^)]*\$\.\w+\[\*\]/i\<close>\<close>

definition re_json_array_extract :: rx where
  "re_json_array_extract =
     seqs [lit_i ''json_extract_string'', star ws, lit_i ''('', star (not_ch '')''),
           lit_i ''$.'', plus wd, lit_i ''[*]'']"

definition rule_json_array_extract :: "jstring \<Rightarrow> finding list option" where
  "rule_json_array_extract sql =
     Some (if test re_json_array_extract sql
           then [finding (str ''json-array-extract'') Info json_array_extract_title
                   json_array_extract_message json_array_extract_suggestion Memory None]
           else [])"

text \<open>8. \<^verbatim>\<open>/ORDER\s+BY\s+\w+(?:\.\w+)?\s+DESC\s*\n\s*LIMIT\s+1/gi\<close>\<close>

definition re_order_by_limit_1 :: rx where
  "re_order_by_limit_1 =
     seqs [lit_i ''ORDER'', plus ws, lit_i ''BY'', plus ws, plus wd,
           opt (seqs [lit_i ''.'', plus wd]), plus ws, lit_i ''DESC'', star ws, cu 10,
           star ws, lit_i ''LIMIT'', plus ws, lit_i ''1'']"

definition rule_repeated_order_limit_1 :: "jstring \<Rightarrow> finding list option" where
  "rule_repeated_order_limit_1 sql = do {
     orderByLimitMatches \<leftarrow> findAll sql re_order_by_limit_1;
     Some (if 2 \<le> length orderByLimitMatches
           then [located (finding (str ''repeated-order-limit-1'') Warning
                            (repeated_order_limit_1_title (length orderByLimitMatches))
                            (repeated_order_limit_1_message (length orderByLimitMatches))
                            repeated_order_limit_1_suggestion Performance
                            (Some (orderByLimitMatches ! 0)))
                         (locate sql (orderByLimitMatches ! 0))]
           else [])
   }"

text \<open>9. \<^verbatim>\<open>/ROW_NUMBER\s*\(\s*\)\s*OVER\s*\([^)]*ORDER\s+BY\b/gi\<close> and
  \<^verbatim>\<open>/(?:row_number|rn|id_verification_response_row_number)\s*(?:=|<=)\s*[12]\b/i\<close>\<close>

definition re_window_for_latest :: rx where
  "re_window_for_latest =
     seqs [lit_i ''ROW_NUMBER'', star ws, lit_i ''('', star ws, lit_i '')'', star ws,
           lit_i ''OVER'', star ws, lit_i ''('', star (not_ch '')''), lit_i ''ORDER'',
           plus ws, lit_i ''BY'', WordB]"

definition re_row_number_filter :: rx where
  "re_row_number_filter =
     seqs [alts [lit_i ''row_number'', lit_i ''rn'',
                 lit_i ''id_verification_response_row_number''],
           star ws, alts [lit_i ''='', lit_i ''<=''], star ws, ch ''12'', WordB]"

definition rule_use_arg_max :: "jstring \<Rightarrow> finding list option" where
  "rule_use_arg_max sql =
     Some (if test re_window_for_latest sql \<and> test re_row_number_filter sql
           then [located (finding (str ''use-arg-max'') Info use_arg_max_title
                            use_arg_max_message use_arg_max_suggestion Performance
                            (Some (str ''ROW_NUMBER()'')))
                         (locate sql (str ''ROW_NUMBER()''))]
           else [])"

text \<open>10. \<^verbatim>\<open>/LIKE\s+'%[^']*%'/gi\<close>: one finding for each match.\<close>

definition re_like_wildcard :: rx where
  "re_like_wildcard =
     seqs [lit_i ''LIKE'', plus ws, cu 39, lit_i ''%'', star (not_cu 39), lit_i ''%'', cu 39]"

definition rule_leading_wildcard_like :: "jstring \<Rightarrow> finding list option" where
  "rule_leading_wildcard_like sql = do {
     likePatterns \<leftarrow> findAll sql re_like_wildcard;
     Some (map (\<lambda>match.
             located (finding (str ''leading-wildcard-like'') Warning
                        leading_wildcard_like_title leading_wildcard_like_message
                        leading_wildcard_like_suggestion Performance (Some match))
                     (locate sql match)) likePatterns)
   }"

text \<open>11. \<^verbatim>\<open>/WHERE\s+(?:.*?\s+AND\s+|.*?\s+OR\s+)*(?:UPPER|LOWER|TRIM|CAST|EXTRACT|DATE_TRUNC|YEAR|MONTH|DAY|STRFTIME|LENGTH|SUBSTRING|REPLACE)\s*\([^)]*\)\s*(?:=|!=|<|>|<=|>=|LIKE|IN)/gi\<close>\<close>

definition re_func_in_where :: rx where
  "re_func_in_where =
     seqs [lit_i ''WHERE'', plus ws,
           star (alts [seqs [lazy_star dot, plus ws, lit_i ''AND'', plus ws],
                       seqs [lazy_star dot, plus ws, lit_i ''OR'', plus ws]]),
           alts [lit_i ''UPPER'', lit_i ''LOWER'', lit_i ''TRIM'', lit_i ''CAST'',
                 lit_i ''EXTRACT'', lit_i ''DATE_TRUNC'', lit_i ''YEAR'', lit_i ''MONTH'',
                 lit_i ''DAY'', lit_i ''STRFTIME'', lit_i ''LENGTH'', lit_i ''SUBSTRING'',
                 lit_i ''REPLACE''],
           star ws, lit_i ''('', star (not_ch '')''), lit_i '')'', star ws,
           alts [lit_i ''='', lit_i ''!='', lit_i ''<'', lit_i ''>'', lit_i ''<='',
                 lit_i ''>='', lit_i ''LIKE'', lit_i ''IN'']]"

definition rule_function_on_filter_column :: "jstring \<Rightarrow> finding list option" where
  "rule_function_on_filter_column sql = do {
     funcInWhere \<leftarrow> findAll sql re_func_in_where;
     Some (if 0 < length funcInWhere
           then [finding (str ''function-on-filter-column'') Warning
                   function_on_filter_column_title function_on_filter_column_message
                   function_on_filter_column_suggestion Performance None]
           else [])
   }"

text \<open>12. \<^verbatim>\<open>/SELECT\s+DISTINCT\s+\*/i\<close>\<close>

definition re_distinct_star :: rx where
  "re_distinct_star =
     seqs [lit_i ''SELECT'', plus ws, lit_i ''DISTINCT'', plus ws, lit_i ''*'']"

definition rule_distinct_star :: "jstring \<Rightarrow> finding list option" where
  "rule_distinct_star sql =
     Some (if test re_distinct_star sql
           then [located (finding (str ''distinct-star'') Warning distinct_star_title
                            distinct_star_message distinct_star_suggestion Memory
                            (Some (str ''SELECT DISTINCT *'')))
                         (locate sql (str ''SELECT DISTINCT *''))]
           else [])"

text \<open>13. \<^verbatim>\<open>/\bUNION\b(?!\s+ALL\b)/gi\<close>\<close>

definition re_union :: rx where
  "re_union =
     seqs [WordB, lit_i ''UNION'', WordB, NotAhead (seqs [plus ws, lit_i ''ALL'', WordB])]"

definition rule_union_without_all :: "jstring \<Rightarrow> finding list option" where
  "rule_union_without_all sql = do {
     unionMatches \<leftarrow> findAll sql re_union;
     Some (if 0 < length unionMatches
           then [located (finding (str ''union-without-all'') Info union_without_all_title
                            union_without_all_message union_without_all_suggestion
                            Performance (Some (str ''UNION'')))
                         (locate sql (str ''UNION''))]
           else [])
   }"

text \<open>14. \<^verbatim>\<open>/COUNT\s*\(\s*DISTINCT\b/gi\<close>\<close>

definition re_count_distinct :: rx where
  "re_count_distinct =
     seqs [lit_i ''COUNT'', star ws, lit_i ''('', star ws, lit_i ''DISTINCT'', WordB]"

definition rule_count_distinct :: "jstring \<Rightarrow> finding list option" where
  "rule_count_distinct sql = do {
     countDistinct \<leftarrow> findAll sql re_count_distinct;
     Some (if 0 < length countDistinct
           then [located (finding (str ''count-distinct'') Info
                            (count_distinct_title (length countDistinct))
                            (count_distinct_message (length countDistinct))
                            count_distinct_suggestion Memory (Some (countDistinct ! 0)))
                         (locate sql (countDistinct ! 0))]
           else [])
   }"

text \<open>15. \<^verbatim>\<open>/NOT\s+IN\s*\(\s*SELECT/i\<close>\<close>

definition re_not_in_subquery :: rx where
  "re_not_in_subquery =
     seqs [lit_i ''NOT'', plus ws, lit_i ''IN'', star ws, lit_i ''('', star ws,
           lit_i ''SELECT'']"

definition rule_not_in_subquery :: "jstring \<Rightarrow> finding list option" where
  "rule_not_in_subquery sql =
     Some (if test re_not_in_subquery sql
           then [located (finding (str ''not-in-subquery'') Warning not_in_subquery_title
                            not_in_subquery_message not_in_subquery_suggestion Performance
                            (Some (str ''NOT IN (SELECT'')))
                         (locate sql (str ''NOT IN''))]
           else [])"

text \<open>16. \<^verbatim>\<open>/SELECT\s[\s\S]*?\(\s*SELECT\b[\s\S]*?WHERE[\s\S]*?\.\w+\s*=\s*\w+\.\w+/i\<close>\<close>

definition re_correlated_subquery :: rx where
  "re_correlated_subquery =
     seqs [lit_i ''SELECT'', ws, lazy_star any, lit_i ''('', star ws, lit_i ''SELECT'',
           WordB, lazy_star any, lit_i ''WHERE'', lazy_star any, lit_i ''.'', plus wd,
           star ws, lit_i ''='', star ws, plus wd, lit_i ''.'', plus wd]"

definition rule_correlated_subquery :: "jstring \<Rightarrow> finding list option" where
  "rule_correlated_subquery sql =
     Some (if test re_correlated_subquery sql
           then [finding (str ''correlated-subquery'') Error correlated_subquery_title
                   correlated_subquery_message correlated_subquery_suggestion Performance
                   (Some (str ''correlated subquery''))]
           else [])"

text \<open>17. \<^verbatim>\<open>/INSERT\s+INTO\b[\s\S]*?SELECT\s+\*/i\<close>\<close>

definition re_insert_select_star :: rx where
  "re_insert_select_star =
     seqs [lit_i ''INSERT'', plus ws, lit_i ''INTO'', WordB, lazy_star any,
           lit_i ''SELECT'', plus ws, lit_i ''*'']"

definition rule_insert_select_star :: "jstring \<Rightarrow> finding list option" where
  "rule_insert_select_star sql =
     Some (if test re_insert_select_star sql
           then [finding (str ''insert-select-star'') Info insert_select_star_title
                   insert_select_star_message insert_select_star_suggestion Memory
                   (Some (str ''INSERT INTO ... SELECT *''))]
           else [])"

text \<open>18. \<^verbatim>\<open>(upper.match(/\bAS\s*\(/g) || []).length\<close>, on the upper-cased text\<close>

definition re_cte :: rx where
  "re_cte = seqs [WordB, lit ''AS'', star ws, lit ''('']"

definition rule_many_ctes :: "jstring \<Rightarrow> finding list option" where
  "rule_many_ctes sql =
     (let cteCount = match_count (toUpperCase sql) re_cte in
      Some (if 10 < cteCount
            then [finding (str ''many-ctes'') Warning (many_ctes_warning_title cteCount)
                    (many_ctes_warning_message cteCount) many_ctes_warning_suggestion
                    Memory None]
            else if 5 < cteCount
            then [finding (str ''many-ctes'') Info (many_ctes_info_title cteCount)
                    (many_ctes_info_message cteCount) many_ctes_info_suggestion Memory None]
            else []))"

text \<open>19. \<^verbatim>\<open>/\b(ROW_NUMBER|RANK|DENSE_RANK|NTILE|LAG|LEAD|FIRST_VALUE|LAST_VALUE)\s*\(/i\<close>,
  \<^verbatim>\<open>/\bQUALIFY\b/i\<close> and \<^verbatim>\<open>/WHERE\b[\s\S]*?\b(ROW_NUMBER|RANK|DENSE_RANK)\b/i\<close>\<close>

definition re_window_func :: rx where
  "re_window_func =
     seqs [WordB,
           alts [lit_i ''ROW_NUMBER'', lit_i ''RANK'', lit_i ''DENSE_RANK'', lit_i ''NTILE'',
                 lit_i ''LAG'', lit_i ''LEAD'', lit_i ''FIRST_VALUE'', lit_i ''LAST_VALUE''],
           star ws, lit_i ''('']"

definition re_qualify :: rx where
  "re_qualify = seqs [WordB, lit_i ''QUALIFY'', WordB]"

definition re_where_on_window :: rx where
  "re_where_on_window =
     seqs [lit_i ''WHERE'', WordB, lazy_star any, WordB,
           alts [lit_i ''ROW_NUMBER'', lit_i ''RANK'', lit_i ''DENSE_RANK''], WordB]"

definition rule_window_without_qualify :: "jstring \<Rightarrow> finding list option" where
  "rule_window_without_qualify sql =
     (let hasWindowFunc = test re_window_func sql;
          hasQualify = test re_qualify sql;
          hasWhereOnWindow = (hasWindowFunc \<and> \<not> hasQualify \<and> test re_where_on_window sql)
      in Some (if hasWhereOnWindow
               then [finding (str ''window-without-qualify'') Info
                       window_without_qualify_title window_without_qualify_message
                       window_without_qualify_suggestion BestPractice None]
               else []))"

text \<open>20. \<^verbatim>\<open>/(?:CAST\s*\([^)]+AS\s+(?:BOOLEAN|INTEGER|DOUBLE|BIGINT|DATE|TIMESTAMP)\s*\)|::\s*(?:BOOLEAN|INTEGER|DOUBLE|BIGINT|TIMESTAMPTZ?)\b)/gi\<close>\<close>

definition re_cast_ops :: rx where
  "re_cast_ops =
     alts [seqs [lit_i ''CAST'', star ws, lit_i ''('', plus (not_ch '')''), lit_i ''AS'',
                 plus ws,
                 alts [lit_i ''BOOLEAN'', lit_i ''INTEGER'', lit_i ''DOUBLE'',
                       lit_i ''BIGINT'', lit_i ''DATE'', lit_i ''TIMESTAMP''],
                 star ws, lit_i '')''],
           seqs [lit_i ''::'', star ws,
                 alts [lit_i ''BOOLEAN'', lit_i ''INTEGER'', lit_i ''DOUBLE'',
                       lit_i ''BIGINT'', seqs [lit_i ''TIMESTAMPT'', opt (lit_i ''Z'')]],
                 WordB]]"

definition rule_excessive_casts :: "jstring \<Rightarrow> finding list option" where
  "rule_excessive_casts sql = do {
     castOps \<leftarrow> findAll sql re_cast_ops;
     Some (if 8 < length castOps
           then [finding (str ''excessive-casts'') Info
                   (excessive_casts_title (length castOps))
                   (excessive_casts_message (length castOps)) excessive_casts_suggestion
                   Schema None]
           else [])
   }"

text \<open>21. \<^verbatim>\<open>/FROM\s+read_(?:csv|parquet|json)\s*\(/i\<close> and \<^verbatim>\<open>/\bmd:/i\<close>\<close>

definition re_from_read :: rx where
  "re_from_read =
     seqs [lit_i ''FROM'', plus ws, lit_i ''read_'',
           alts [lit_i ''csv'', lit_i ''parquet'', lit_i ''json''], star ws, lit_i ''('']"

definition re_md :: rx where
  "re_md = seqs [WordB, lit_i ''md:'']"

definition rule_md_local_remote_transfer :: "jstring \<Rightarrow> finding list option" where
  "rule_md_local_remote_transfer sql =
     Some (if test re_from_read sql \<and> test re_md sql
           then [finding (str ''md-local-remote-transfer'') Warning
                   md_local_remote_transfer_title md_local_remote_transfer_message
                   md_local_remote_transfer_suggestion Network None]
           else [])"

text \<open>22. \<^verbatim>\<open>/GROUP\s+BY\s+(?!ALL\b)\w+(?:\s*,\s*\w+){3,}/gi\<close>\<close>

definition re_group_by_verbose :: rx where
  "re_group_by_verbose =
     seqs [lit_i ''GROUP'', plus ws, lit_i ''BY'', plus ws,
           NotAhead (seqs [lit_i ''ALL'', WordB]), plus wd,
           at_least 3 (seqs [star ws, lit_i '','', star ws, plus wd])]"

definition rule_group_by_verbose :: "jstring \<Rightarrow> finding list option" where
  "rule_group_by_verbose sql =
     Some (if test re_group_by_verbose sql
           then [finding (str ''group-by-verbose'') Info group_by_verbose_title
                   group_by_verbose_message group_by_verbose_suggestion BestPractice None]
           else [])"

text \<open>23. \<^verbatim>\<open>/FROM\s+(?:read_parquet|read_csv|read_json)\s*\(\s*'https?:/i\<close> and
  \<^verbatim>\<open>/SELECT\s+\*/i\<close>\<close>

definition re_from_read_http :: rx where
  "re_from_read_http =
     seqs [lit_i ''FROM'', plus ws,
           alts [lit_i ''read_parquet'', lit_i ''read_csv'', lit_i ''read_json''],
           star ws, lit_i ''('', star ws, cu 39, lit_i ''http'', opt (lit_i ''s''),
           lit_i '':'']"

definition re_select_star :: rx where
  "re_select_star = seqs [lit_i ''SELECT'', plus ws, lit_i ''*'']"

definition rule_remote_file_select_star :: "jstring \<Rightarrow> finding list option" where
  "rule_remote_file_select_star sql =
     Some (if test re_from_read_http sql \<and> test re_select_star sql
           then [finding (str ''remote-file-select-star'') Error
                   remote_file_select_star_title remote_file_select_star_message
                   remote_file_select_star_suggestion Network None]
           else [])"

text \<open>24. \<^verbatim>\<open>upper.includes('OUT OF MEMORY') || upper.includes('OOM')\<close>\<close>

definition rule_md_duckling_size :: "jstring \<Rightarrow> finding list option" where
  "rule_md_duckling_size sql =
     (let upper = toUpperCase sql in
      Some (if includes_str upper (str ''OUT OF MEMORY'') \<or> includes_str upper (str ''OOM'')
            then [finding (str ''md-duckling-size'') Info md_duckling_size_title
                    md_duckling_size_message md_duckling_size_suggestion Memory None]
            else []))"

text \<open>25. \<^verbatim>\<open>/\blist_transform\s*\(/i\<close>\<close>

definition re_list_transform :: rx where
  "re_list_transform = seqs [WordB, lit_i ''list_transform'', star ws, lit_i ''('']"

definition rule_list_transform :: "jstring \<Rightarrow> finding list option" where
  "rule_list_transform sql =
     Some (if test re_list_transform sql
           then [located (finding (str ''list-transform'') Info list_transform_title
                            list_transform_message list_transform_suggestion Memory
                            (Some (str ''list_transform('')))
                         (locate sql (str ''list_transform(''))]
           else [])"

text \<open>26. \<^verbatim>\<open>/\bPIVOT\b/i.test(sql) && !/\bUNPIVOT\b/i.test(sql) || /\bPIVOT\b[\s\S]*?\bUSING\b/i.test(sql)\<close>\<close>

definition re_pivot :: rx where
  "re_pivot = seqs [WordB, lit_i ''PIVOT'', WordB]"

definition re_unpivot :: rx where
  "re_unpivot = seqs [WordB, lit_i ''UNPIVOT'', WordB]"

definition re_pivot_using :: rx where
  "re_pivot_using =
     seqs [WordB, lit_i ''PIVOT'', WordB, lazy_star any, WordB, lit_i ''USING'', WordB]"

definition rule_non_spillable_pivot :: "jstring \<Rightarrow> finding list option" where
  "rule_non_spillable_pivot sql =
     Some (if (test re_pivot sql \<and> \<not> test re_unpivot sql) \<or> test re_pivot_using sql
           then [finding (str ''non-spillable-pivot'') Error non_spillable_pivot_title
                   non_spillable_pivot_message non_spillable_pivot_suggestion Memory
                   (Some (str ''pivot''))]
           else [])"

text \<open>27. \<^verbatim>\<open>/LEFT\s+JOIN\s+\w+\s+ON\s+TRUE/gi\<close>\<close>

definition re_left_join_on_true :: rx where
  "re_left_join_on_true =
     seqs [lit_i ''LEFT'', plus ws, lit_i ''JOIN'', plus ws, plus wd, plus ws, lit_i ''ON'',
           plus ws, lit_i ''TRUE'']"

definition rule_many_left_join_on_true :: "jstring \<Rightarrow> finding list option" where
  "rule_many_left_join_on_true sql = do {
     leftJoinOnTrue \<leftarrow> countMatches sql re_left_join_on_true;
     Some (if 5 \<le> leftJoinOnTrue
           then [finding (str ''many-left-join-on-true'') Info
                   (many_left_join_on_true_title leftJoinOnTrue)
                   (many_left_join_on_true_message leftJoinOnTrue)
                   many_left_join_on_true_suggestion BestPractice None]
           else [])
   }"

text \<open>28. \<^verbatim>\<open>/\b(?:MEDIAN|QUANTILE|PERCENTILE_CONT|PERCENTILE_DISC|MODE)\s*\(/gi\<close>\<close>

definition re_ordered_set_agg :: rx where
  "re_ordered_set_agg =
     seqs [WordB,
           alts [lit_i ''MEDIAN'', lit_i ''QUANTILE'', lit_i ''PERCENTILE_CONT'',
                 lit_i ''PERCENTILE_DISC'', lit_i ''MODE''],
           star ws, lit_i ''('']"

definition rule_non_spillable_median :: "jstring \<Rightarrow> finding list option" where
  "rule_non_spillable_median sql = do {
     orderedSetAggMatches \<leftarrow> findAll sql re_ordered_set_agg;
     Some (if 0 < length orderedSetAggMatches
           then let count = length orderedSetAggMatches in
             [located (finding (str ''non-spillable-median'') Warning
                         (non_spillable_median_title count)
                         (non_spillable_median_message count)
                         non_spillable_median_suggestion Memory
                         (Some (orderedSetAggMatches ! 0)))
                      (locate sql (orderedSetAggMatches ! 0))]
           else [])
   }"

text \<open>29. \<^verbatim>\<open>/\bUNNEST\s*\(\s*(?![\['\d])\w+/gi\<close>\<close>

definition re_unnest :: rx where
  "re_unnest =
     seqs [WordB, lit_i ''UNNEST'', star ws, lit_i ''('', star ws,
           NotAhead (Cls (\<lambda>x. x = 91 \<or> x = 39 \<or> is_digit x)), plus wd]"

definition rule_unnest_large_expansion :: "jstring \<Rightarrow> finding list option" where
  "rule_unnest_large_expansion sql = do {
     unnestMatches \<leftarrow> findAll sql re_unnest;
     Some (if 0 < length unnestMatches
           then [located (finding (str ''unnest-large-expansion'') Warning
                            unnest_large_expansion_title unnest_large_expansion_message
                            unnest_large_expansion_suggestion Memory
                            (Some (unnestMatches ! 0)))
                         (locate sql (unnestMatches ! 0))]
           else [])
   }"

text \<open>30. \<^verbatim>\<open>/\bWITH\s+RECURSIVE\b/i\<close>, \<^verbatim>\<open>/\bWITH\s+RECURSIVE\b[\s\S]*\bLIMIT\b/i\<close>,
  \<^verbatim>\<open>/\bdepth\s*[<>=]/i\<close>, \<^verbatim>\<open>/\blevel\s*[<>=]/i\<close>, \<^verbatim>\<open>/\bdepth\s*\+\s*1\b/i\<close>,
  \<^verbatim>\<open>/\blevel\s*\+\s*1\b/i\<close> and \<^verbatim>\<open>/\bUSING\s+KEY\b/i\<close>\<close>

definition re_with_recursive :: rx where
  "re_with_recursive = seqs [WordB, lit_i ''WITH'', plus ws, lit_i ''RECURSIVE'', WordB]"

definition re_recursive_limit :: rx where
  "re_recursive_limit =
     seqs [WordB, lit_i ''WITH'', plus ws, lit_i ''RECURSIVE'', WordB, star any, WordB,
           lit_i ''LIMIT'', WordB]"

definition re_compare :: "string \<Rightarrow> rx" where
  "re_compare name = seqs [WordB, lit_i name, star ws, ch ''<>='']"

definition re_plus_one :: "string \<Rightarrow> rx" where
  "re_plus_one name = seqs [WordB, lit_i name, star ws, lit_i ''+'', star ws, lit_i ''1'', WordB]"

definition re_using_key :: rx where
  "re_using_key = seqs [WordB, lit_i ''USING'', plus ws, lit_i ''KEY'', WordB]"

definition rule_recursive_cte_no_limit :: "jstring \<Rightarrow> finding list option" where
  "rule_recursive_cte_no_limit sql =
     Some (if test re_with_recursive sql
           then
             let hasLimit = test re_recursive_limit sql;
                 hasDepthCheck = (test (re_compare ''depth'') sql
                                  \<or> test (re_compare ''level'') sql
                                  \<or> test (re_plus_one ''depth'') sql
                                  \<or> test (re_plus_one ''level'') sql);
                 hasUsingKey = test re_using_key sql
             in if \<not> hasLimit \<and> \<not> hasDepthCheck \<and> \<not> hasUsingKey
                then [located (finding (str ''recursive-cte-no-limit'') Warning
                                 recursive_cte_no_limit_title recursive_cte_no_limit_message
                                 recursive_cte_no_limit_suggestion Memory
                                 (Some (str ''WITH RECURSIVE'')))
                              (locate sql (str ''WITH RECURSIVE''))]
                else []
           else [])"

text \<open>31. \<^verbatim>\<open>/\bCREATE\s+(?:OR\s+REPLACE\s+)?TABLE\b[\s\S]*?\bAS\s+SELECT\b/i\<close>\<close>

definition re_ctas :: rx where
  "re_ctas =
     seqs [WordB, lit_i ''CREATE'', plus ws,
           opt (seqs [lit_i ''OR'', plus ws, lit_i ''REPLACE'', plus ws]),
           lit_i ''TABLE'', WordB, lazy_star any, WordB, lit_i ''AS'', plus ws,
           lit_i ''SELECT'', WordB]"

definition rule_ctas_memory :: "jstring \<Rightarrow> finding list option" where
  "rule_ctas_memory sql =
     Some (if test re_ctas sql
           then [located (finding (str ''ctas-memory'') Info ctas_memory_title
                            ctas_memory_message ctas_memory_suggestion Memory
                            (Some (str ''CREATE TABLE'')))
                         (locate sql (str ''CREATE''))]
           else [])"

text \<open>32. \<^verbatim>\<open>/\bIN\s*\((?:\s*(?:'[^']*'|[\d.]+)\s*,){49,}/gi\<close>\<close>

definition re_in_list :: rx where
  "re_in_list =
     seqs [WordB, lit_i ''IN'', star ws, lit_i ''('',
           at_least 49
             (seqs [star ws,
                    alts [seqs [cu 39, star (not_cu 39), cu 39],
                          plus (Cls (\<lambda>x. is_digit x \<or> x = 46))],
                    star ws, lit_i '',''])]"

definition rule_large_in_list :: "jstring \<Rightarrow> finding list option" where
  "rule_large_in_list sql = do {
     inListMatches \<leftarrow> findAll sql re_in_list;
     Some (if 0 < length inListMatches
           then [located (finding (str ''large-in-list'') Warning large_in_list_title
                            large_in_list_message large_in_list_suggestion Performance
                            (Some (slice (inListMatches ! 0) 0 40 @ str ''...'')))
                         (locate sql (slice (inListMatches ! 0) 0 30))]
           else [])
   }"

text \<open>33. and 34. \<^verbatim>\<open>/\bread_(?:parquet|csv|json)\s*\(\s*'(?:s3:\/\/|https?:\/\/|gs:\/\/|gcs:\/\/|r2:\/\/)/gi\<close>,
  and \<^verbatim>\<open>/\bWHERE\b/i\<close>\<close>

definition re_remote_read :: rx where
  "re_remote_read =
     seqs [WordB, lit_i ''read_'', alts [lit_i ''parquet'', lit_i ''csv'', lit_i ''json''],
           star ws, lit_i ''('', star ws, cu 39,
           alts [lit_i ''s3://'', seqs [lit_i ''http'', opt (lit_i ''s''), lit_i ''://''],
                 lit_i ''gs://'', lit_i ''gcs://'', lit_i ''r2://'']]"

definition re_where :: rx where
  "re_where = seqs [WordB, lit_i ''WHERE'', WordB]"

definition rule_read_remote_no_filter :: "jstring \<Rightarrow> finding list option" where
  "rule_read_remote_no_filter sql =
     Some (if test re_remote_read sql
           then if \<not> test re_where sql
                then [finding (str ''read-remote-no-filter'') Warning
                        read_remote_no_filter_title read_remote_no_filter_message
                        read_remote_no_filter_suggestion Network None]
                else []
           else [])"

definition rule_multiple_remote_scans :: "jstring \<Rightarrow> finding list option" where
  "rule_multiple_remote_scans sql = do {
     remoteScans \<leftarrow> findAll sql re_remote_read;
     Some (if 2 \<le> length remoteScans
           then [located (finding (str ''multiple-remote-scans'') Warning
                            (multiple_remote_scans_title (length remoteScans))
                            (multiple_remote_scans_message (length remoteScans))
                            multiple_remote_scans_suggestion Network
                            (Some (remoteScans ! 0)))
                         (locate sql (remoteScans ! 0))]
           else [])
   }"

text \<open>35. \<^verbatim>\<open>/\bread_(?:parquet|csv|json)\s*\(\s*'(?:s3:\/\/|https?:\/\/|gs:\/\/|gcs:\/\/|r2:\/\/)[^']*\*\*[^']*'/gi\<close>\<close>

definition re_remote_glob :: rx where
  "re_remote_glob =
     seqs [re_remote_read, star (not_cu 39), lit_i ''**'', star (not_cu 39), cu 39]"

definition rule_glob_many_files :: "jstring \<Rightarrow> finding list option" where
  "rule_glob_many_files sql =
     Some (if test re_remote_glob sql
           then [finding (str ''glob-many-files'') Info glob_many_files_title
                   glob_many_files_message glob_many_files_suggestion Performance None]
           else [])"

text \<open>36. \<^verbatim>\<open>/\bJOIN\b[\s\S]*?\bON\b[\s\S]*?(?:<=|>=|<\s|>\s)[\s\S]*?\b(?:ROW_NUMBER|LAST_VALUE|FIRST_VALUE)\s*\(/i\<close>,
  \<^verbatim>\<open>/\bJOIN\b[\s\S]*?\bON\b[\s\S]*?(?:<=|>=)[\s\S]*?(?:timestamp|date|time|_at\b|_dt\b|created|updated|observed)/i\<close>
  and \<^verbatim>\<open>/\b(?:ROW_NUMBER|LAST_VALUE|FIRST_VALUE)\s*\(/i\<close>\<close>

definition re_rank_call :: rx where
  "re_rank_call =
     seqs [WordB, alts [lit_i ''ROW_NUMBER'', lit_i ''LAST_VALUE'', lit_i ''FIRST_VALUE''],
           star ws, lit_i ''('']"

definition re_inequality_join :: rx where
  "re_inequality_join =
     seqs [WordB, lit_i ''JOIN'', WordB, lazy_star any, WordB, lit_i ''ON'', WordB,
           lazy_star any,
           alts [lit_i ''<='', lit_i ''>='', seqs [lit_i ''<'', ws], seqs [lit_i ''>'', ws]],
           lazy_star any, re_rank_call]"

definition re_asof_pattern :: rx where
  "re_asof_pattern =
     seqs [WordB, lit_i ''JOIN'', WordB, lazy_star any, WordB, lit_i ''ON'', WordB,
           lazy_star any, alts [lit_i ''<='', lit_i ''>=''], lazy_star any,
           alts [lit_i ''timestamp'', lit_i ''date'', lit_i ''time'',
                 seqs [lit_i ''_at'', WordB], seqs [lit_i ''_dt'', WordB], lit_i ''created'',
                 lit_i ''updated'', lit_i ''observed'']]"

definition rule_temporal_join_via_window :: "jstring \<Rightarrow> finding list option" where
  "rule_temporal_join_via_window sql =
     (let hasInequalityJoin = test re_inequality_join sql;
          hasAsofPattern = test re_asof_pattern sql
      in Some (if hasInequalityJoin \<or> (hasAsofPattern \<and> test re_rank_call sql)
               then [finding (str ''temporal-join-via-window'') Info
                       temporal_join_via_window_title temporal_join_via_window_message
                       temporal_join_via_window_suggestion Performance
                       (Some (str ''ASOF JOIN''))]
               else []))"

text \<open>37. \<^verbatim>\<open>/(\w+(?:\.\w+)?)\s*=\s*'[^']*'\s+OR\s+\1\s*=\s*'[^']*'\s+OR\s+\1\s*=\s*'[^']*'\s+OR\s+\1\s*=\s*'[^']*'/gi\<close>\<close>

definition re_eq_literal :: rx where
  "re_eq_literal = seqs [star ws, lit_i ''='', star ws, cu 39, star (not_cu 39), cu 39]"

definition re_or_again :: rx where
  "re_or_again = seqs [plus ws, lit_i ''OR'', plus ws, BackRef True, re_eq_literal]"

definition re_or_chain :: rx where
  "re_or_chain =
     seqs [Group (seqs [plus wd, opt (seqs [lit_i ''.'', plus wd])]), re_eq_literal,
           re_or_again, re_or_again, re_or_again]"

definition rule_or_chain_instead_of_in :: "jstring \<Rightarrow> finding list option" where
  "rule_or_chain_instead_of_in sql =
     Some (if test re_or_chain sql
           then [finding (str ''or-chain-instead-of-in'') Info or_chain_instead_of_in_title
                   or_chain_instead_of_in_message or_chain_instead_of_in_suggestion
                   BestPractice None]
           else [])"

text \<open>38. \<^verbatim>\<open>/\b(?:timestamp|date|time|_at|_dt|created|updated|observed|_date|_time|_ts)\s+BETWEEN\b/gi\<close>
  and \<^verbatim>\<open>/\bBETWEEN\s+'[^']*(?:\d{4}-\d{2}-\d{2})[^']*'\s+AND\s+'[^']*(?:\d{4}-\d{2}-\d{2})[^']*'/gi\<close>\<close>

definition re_between_temporal :: rx where
  "re_between_temporal =
     seqs [WordB,
           alts [lit_i ''timestamp'', lit_i ''date'', lit_i ''time'', lit_i ''_at'',
                 lit_i ''_dt'', lit_i ''created'', lit_i ''updated'', lit_i ''observed'',
                 lit_i ''_date'', lit_i ''_time'', lit_i ''_ts''],
           plus ws, lit_i ''BETWEEN'', WordB]"

definition re_date_literal :: rx where
  "re_date_literal =
     seqs [cu 39, star (not_cu 39),
           seqs [exactly 4 dg, lit_i ''-'', exactly 2 dg, lit_i ''-'', exactly 2 dg],
           star (not_cu 39), cu 39]"

definition re_between_before_temporal :: rx where
  "re_between_before_temporal =
     seqs [WordB, lit_i ''BETWEEN'', plus ws, re_date_literal, plus ws, lit_i ''AND'',
           plus ws, re_date_literal]"

definition rule_between_timestamp :: "jstring \<Rightarrow> finding list option" where
  "rule_between_timestamp sql =
     Some (if test re_between_temporal sql \<or> test re_between_before_temporal sql
           then [finding (str ''between-timestamp'') Info between_timestamp_title
                   between_timestamp_message between_timestamp_suggestion BestPractice None]
           else [])"

text \<open>39. \<^verbatim>\<open>/\bAS\s*\(\s*SELECT\s+\*/gi\<close> and
  \<^verbatim>\<open>/\)\s*(?:,\s*\w+\s+AS\s*\([\s\S]*?\)\s*)*SELECT\s+\*\s+FROM\b/i\<close>\<close>

definition re_cte_select_star :: rx where
  "re_cte_select_star =
     seqs [WordB, lit_i ''AS'', star ws, lit_i ''('', star ws, lit_i ''SELECT'', plus ws,
           lit_i ''*'']"

definition re_final_select_star :: rx where
  "re_final_select_star =
     seqs [lit_i '')'', star ws,
           star (seqs [lit_i '','', star ws, plus wd, plus ws, lit_i ''AS'', star ws,
                       lit_i ''('', lazy_star any, lit_i '')'', star ws]),
           lit_i ''SELECT'', plus ws, lit_i ''*'', plus ws, lit_i ''FROM'', WordB]"

definition rule_chained_select_star :: "jstring \<Rightarrow> finding list option" where
  "rule_chained_select_star sql = do {
     cteSelectStarCount \<leftarrow> countMatches sql re_cte_select_star;
     let finalSelectStar = test re_final_select_star sql;
     Some (if 2 \<le> cteSelectStarCount \<and> finalSelectStar
           then [finding (str ''chained-select-star'') Info chained_select_star_title
                   chained_select_star_message chained_select_star_suggestion Performance
                   None]
           else [])
   }"

text \<open>40. \<^verbatim>\<open>/\b(\w+)\.\w+\.\w+\b/gi\<close>; the prefixes
  \<^verbatim>\<open>new Set(dbQualifiedTables.map((t) => t.split('.')[0].toLowerCase()))\<close> keep the order
  of their first occurrence.\<close>

definition re_db_qualified :: rx where
  "re_db_qualified =
     seqs [WordB, plus wd, lit_i ''.'', plus wd, lit_i ''.'', plus wd, WordB]"

definition new_Set :: "jstring list \<Rightarrow> jstring list" where
  "new_Set xs = fold (\<lambda>x acc. if x \<in> set acc then acc else acc @ [x]) xs []"

definition rule_md_cross_database_join :: "jstring \<Rightarrow> finding list option" where
  "rule_md_cross_database_join sql = do {
     dbQualifiedTables \<leftarrow> findAll sql re_db_qualified;
     Some (if 2 \<le> length dbQualifiedTables
           then
             let dbPrefixes =
                   new_Set (map (\<lambda>t. toLowerCase (takeWhile (\<lambda>x. x \<noteq> 46) t))
                                dbQualifiedTables)
             in if 2 \<le> length dbPrefixes
                then [finding (str ''md-cross-database-join'') Info
                        md_cross_database_join_title
                        (md_cross_database_join_message (length dbPrefixes)
                           (join (str '', '') dbPrefixes))
                        md_cross_database_join_suggestion Network None]
                else []
           else [])
   }"

subsection \<open>All blocks in order\<close>

text \<open>
  The blocks of \<open>regexRules\<close> in the order of the source. The copy of \<^verbatim>\<open>rules.ts\<close>
  in \<^verbatim>\<open>src/unnamed/part_002\<close> ends after block 27; the copy in \<^verbatim>\<open>src/src/App.tsx\<close>
  has the same 27 blocks and then blocks 28 to 40.
\<close>

definition blocks_1_27 :: "(jstring \<Rightarrow> finding list option) list" where
  "blocks_1_27 =
     [rule_non_spillable_list, rule_non_spillable_list_distinct,
      rule_non_spillable_string_agg, rule_non_spillable_ordered_agg,
      rule_many_blocking_operators, rule_json_extraction, rule_json_each_expansion,
      rule_json_array_extract, rule_repeated_order_limit_1, rule_use_arg_max,
      rule_leading_wildcard_like, rule_function_on_filter_column, rule_distinct_star,
      rule_union_without_all, rule_count_distinct, rule_not_in_subquery,
      rule_correlated_subquery, rule_insert_select_star, rule_many_ctes,
      rule_window_without_qualify, rule_excessive_casts, rule_md_local_remote_transfer,
      rule_group_by_verbose, rule_remote_file_select_star, rule_md_duckling_size,
      rule_list_transform, rule_non_spillable_pivot, rule_many_left_join_on_true]"

definition blocks_28_40 :: "(jstring \<Rightarrow> finding list option) list" where
  "blocks_28_40 =
     [rule_non_spillable_median, rule_unnest_large_expansion, rule_recursive_cte_no_limit,
      rule_ctas_memory, rule_large_in_list, rule_read_remote_no_filter,
      rule_multiple_remote_scans, rule_glob_many_files, rule_temporal_join_via_window,
      rule_or_chain_instead_of_in, rule_between_timestamp, rule_chained_select_star,
      rule_md_cross_database_join]"

fun run_blocks :: "(jstring \<Rightarrow> finding list option) list \<Rightarrow> jstring \<Rightarrow> finding list option" where
  "run_blocks [] sql = Some []"
| "run_blocks (b # bs) sql = do {
     pushed \<leftarrow> b sql;
     rest \<leftarrow> run_blocks bs sql;
     Some (pushed @ rest)
   }"

definition regexRules :: "jstring \<Rightarrow> finding list option" where
  "regexRules sql = run_blocks (blocks_1_27 @ blocks_28_40) sql"

definition regexRules_part_002 :: "jstring \<Rightarrow> finding list option" where
  "regexRules_part_002 sql = run_blocks blocks_1_27 sql"

section \<open>Public API\<close>

text \<open>
  \<open>runRules(ast, sql)\<close>: \<open>ast\<close> is \<open>null\<close> (here \<open>None\<close>), one tree or an array of trees. The
  rules on the tree run for every tree, then the rules on the text, then the filter
  that keeps the first finding of every \<open>ruleId\<close>.
\<close>

definition asts_of :: "parse_tree option \<Rightarrow> ast list" where
  "asts_of ast = (case ast of None \<Rightarrow> [] | Some (Tree a) \<Rightarrow> [a] | Some (Trees as) \<Rightarrow> as)"

definition astRules :: "ast \<Rightarrow> jstring \<Rightarrow> finding list" where
  "astRules node sql =
     checkSelectStar node sql @ checkOrderByWithoutLimit node sql @ checkCrossJoin node sql
       @ checkNestedSubqueries node sql 0 @ checkJoinWithoutCondition node sql"

text \<open>The findings in the order they are pushed: those of the trees, then those of the
  text.\<close>

definition emitted :: "parse_tree option \<Rightarrow> jstring \<Rightarrow> finding list \<Rightarrow> finding list" where
  "emitted ast sql pushed = concat (map (\<lambda>node. astRules node sql) (asts_of ast)) @ pushed"

definition runRules_with ::
  "(jstring \<Rightarrow> finding list option) \<Rightarrow> parse_tree option \<Rightarrow> jstring \<Rightarrow> finding list option" where
  "runRules_with rules ast sql = do {
     pushed \<leftarrow> rules sql;
     Some (dedup {} (emitted ast sql pushed))
   }"

definition runRules :: "parse_tree option \<Rightarrow> jstring \<Rightarrow> finding list option" where
  "runRules ast sql = runRules_with regexRules ast sql"

definition runRules_part_002 :: "parse_tree option \<Rightarrow> jstring \<Rightarrow> finding list option" where
  "runRules_part_002 ast sql = runRules_with regexRules_part_002 ast sql"

text \<open>
  What the spec asks of the filter, in its words: of the findings pushed, a finding
  survives exactly when no finding pushed before it has its \<open>ruleId\<close>, and the survivors
  stand in the order in which they were pushed.
\<close>

definition first_per_rule :: "finding list \<Rightarrow> finding list \<Rightarrow> bool" where
  "first_per_rule kept pushed \<longleftrightarrow>
     kept = map (\<lambda>i. pushed ! i)
              (filter (\<lambda>i. \<forall>j \<in> set [0 ..< i]. ruleId (pushed ! j) \<noteq> ruleId (pushed ! i))
                 [0 ..< length pushed])"

section \<open>The text given to the parser\<close>

text \<open>
  The inner loop of \<open>replaceBalancedCall\<close>:
  \<^verbatim>\<open>while (i < s.length && depth > 0) { if (s[i] === '(') depth++; else if (s[i] === ')') depth--; i++; }\<close>
\<close>

function scan_parens :: "jstring \<Rightarrow> nat \<Rightarrow> nat \<Rightarrow> nat \<times> nat" where
  "scan_parens s i depth =
     (if i < length s \<and> 0 < depth
      then scan_parens s (i + 1)
             (if s ! i = 40 then depth + 1 else if s ! i = 41 then depth - 1 else depth)
      else (i, depth))"
  by pat_completeness auto
termination
  by (relation "measure (\<lambda>(s, i, depth). length s - i)") auto

declare scan_parens.simps [simp del]

text \<open>
  The outer loop, \<open>while ((match = re.exec(s)) !== null)\<close>, with the text \<open>s\<close> and
  \<open>re.lastIndex\<close> as its state: \<open>exec\<close> sets \<open>lastIndex\<close> to the end of the match, and a
  call whose parentheses close is cut out, \<open>lastIndex\<close> set behind the replacement.
\<close>

partial_function (option) replaceBalancedCall_loop ::
  "rx \<Rightarrow> jstring \<Rightarrow> jstring \<Rightarrow> nat \<Rightarrow> jstring option" where
  "replaceBalancedCall_loop re replacement s lastIndex =
     (case exec re s lastIndex of
        None \<Rightarrow> Some s
      | Some (start', e, c) \<Rightarrow>
          (case scan_parens s e 1 of
             (i, depth) \<Rightarrow>
               if depth = 0
               then replaceBalancedCall_loop re replacement
                      (take start' s @ replacement @ drop i s) (start' + length replacement)
               else replaceBalancedCall_loop re replacement s e))"

text \<open>\<^verbatim>\<open>new RegExp(`\\b${funcName}\\s*\\(`, 'gi')\<close>; the callers pass plain identifiers.\<close>

definition re_call :: "string \<Rightarrow> rx" where
  "re_call funcName = seqs [WordB, lit_i funcName, star ws, lit_i ''('']"

definition replaceBalancedCall :: "jstring \<Rightarrow> string \<Rightarrow> jstring \<Rightarrow> jstring option" where
  "replaceBalancedCall s funcName replacement =
     replaceBalancedCall_loop (re_call funcName) replacement s 0"

text \<open>\<^verbatim>\<open>/::[A-Za-z_][A-Za-z0-9_]*(\[\])?/g\<close>\<close>

definition re_type_cast :: rx where
  "re_type_cast =
     seqs [lit ''::'', Cls (\<lambda>x. is_upper_az x \<or> is_lower_az x \<or> x = 95), star wd,
           opt (lit ''[]'')]"

text \<open>\<^verbatim>\<open>/\bPIVOT\s+((?:"\w+"\.)*"?\w+"?)\s+ON\s+[\s\S]*?\bUSING\s+\w+\s*\([^)]*\)(?:\s*,\s*\w+\s*\([^)]*\))*/gi\<close>
  and \<^verbatim>\<open>/\bUNPIVOT\s+((?:"\w+"\.)*"?\w+"?)\s+ON\s+[\s\S]*?\bIN\s*\([^)]*\)/gi\<close>\<close>

definition re_table_ref :: rx where
  "re_table_ref =
     Group (seqs [star (seqs [cu 34, plus wd, cu 34, lit_i ''.'']), opt (cu 34), plus wd,
                  opt (cu 34)])"

definition re_agg_call :: rx where
  "re_agg_call = seqs [plus wd, star ws, lit_i ''('', star (not_ch '')''), lit_i '')'']"

definition re_pivot_clause :: rx where
  "re_pivot_clause =
     seqs [WordB, lit_i ''PIVOT'', plus ws, re_table_ref, plus ws, lit_i ''ON'', plus ws,
           lazy_star any, WordB, lit_i ''USING'', plus ws, re_agg_call,
           star (seqs [star ws, lit_i '','', star ws, re_agg_call])]"

definition re_unpivot_clause :: rx where
  "re_unpivot_clause =
     seqs [WordB, lit_i ''UNPIVOT'', plus ws, re_table_ref, plus ws, lit_i ''ON'', plus ws,
           lazy_star any, WordB, lit_i ''IN'', star ws, lit_i ''('', star (not_ch '')''),
           lit_i '')'']"

definition preprocessForParser :: "jstring \<Rightarrow> jstring option" where
  "preprocessForParser sql = do {
     let s = replace_all sql re_type_cast (\<lambda>g. []);
     s \<leftarrow> replaceBalancedCall s ''list_transform'' (str ''NULL'');
     s \<leftarrow> replaceBalancedCall s ''json_extract_string'' (str ''NULL'');
     s \<leftarrow> replaceBalancedCall s ''json_each'' (str ''(SELECT 1)'');
     s \<leftarrow> replaceBalancedCall s ''LIST'' (str ''ARRAY_AGG(1)'');
     s \<leftarrow> replaceBalancedCall s ''struct_pack'' (str ''ROW(1)'');
     let s = replace_all s re_pivot_clause (\<lambda>g. str ''SELECT * FROM '' @ g);
     let s = replace_all s re_unpivot_clause (\<lambda>g. str ''SELECT * FROM '' @ g);
     Some s
   }"

section \<open>The entry point\<close>

text \<open>
  The parser is outside the repository: \<open>parser.astify\<close> is a parameter, a function from
  the text to a tree or to what it throws, an \<open>Error\<close> object with its message or any
  other value.
\<close>

datatype thrown = ErrorObject jstring | OtherValue

type_synonym astify = "jstring \<Rightarrow> thrown + parse_tree"

record AnalysisResult =
  findings :: "finding list"
  parseError :: "jstring option"

text \<open>\<^verbatim>\<open>e instanceof Error ? e.message : 'Failed to parse SQL'\<close>\<close>

definition error_message :: "thrown \<Rightarrow> jstring" where
  "error_message e = (case e of ErrorObject m \<Rightarrow> m | OtherValue \<Rightarrow> str ''Failed to parse SQL'')"

text \<open>
  \<open>analyze\<close> of \<^verbatim>\<open>index.ts\<close> as in \<^verbatim>\<open>src/unnamed/part_003\<close>: the trimmed text is parsed
  as it is, and after a failure once more in its preprocessed form. The value is
  \<open>None\<close> when a loop of the analysis does not end.
\<close>

definition analyze :: "astify \<Rightarrow> jstring \<Rightarrow> AnalysisResult option" where
  "analyze astify sql =
     (let trimmed = trim sql in
      if trimmed = [] then Some \<lparr>findings = [], parseError = None\<rparr>
      else do {
        (ast, err) \<leftarrow>
          (case astify trimmed of
             Inr tree \<Rightarrow> Some (Some tree, None)
           | Inl e0 \<Rightarrow> do {
               sanitized \<leftarrow> preprocessForParser trimmed;
               Some (case astify sanitized of
                       Inr tree \<Rightarrow> (Some tree, None)
                     | Inl e \<Rightarrow> (None, Some (error_message e)))
             });
        found \<leftarrow> runRules ast trimmed;
        Some \<lparr>findings = found, parseError = err\<rparr>
      })"

text \<open>
  \<open>analyze\<close> as in \<^verbatim>\<open>src/unnamed/part_001\<close>, the copy with the PostgreSQL grammar: only
  the preprocessed text is parsed.
\<close>

definition analyze_part_001 :: "astify \<Rightarrow> jstring \<Rightarrow> AnalysisResult option" where
  "analyze_part_001 astify sql =
     (let trimmed = trim sql in
      if trimmed = [] then Some \<lparr>findings = [], parseError = None\<rparr>
      else do {
        sanitized \<leftarrow> preprocessForParser trimmed;
        (ast, err) \<leftarrow>
          Some (case astify sanitized of
                  Inr tree \<Rightarrow> (Some tree, None)
                | Inl e \<Rightarrow> (None, Some (error_message e)));
        found \<leftarrow> runRules ast trimmed;
        Some \<lparr>findings = found, parseError = err\<rparr>
      })"

section \<open>Notions of the statements\<close>

text \<open>
  Parentheses that match: reading the text, no closing parenthesis comes without an
  open one before it, and none stays open.
\<close>

fun nesting :: "jstring \<Rightarrow> nat \<Rightarrow> nat option" where
  "nesting [] d = Some d"
| "nesting (c # cs) d =
     (if c = 40 then nesting cs (Suc d)
      else if c = 41 then (if d = 0 then None else nesting cs (d - 1))
      else nesting cs d)"

definition balanced :: "jstring \<Rightarrow> bool" where
  "balanced args \<longleftrightarrow> nesting args 0 = Some 0"

text \<open>
  The tree of \<^verbatim>\<open>SELECT a FROM (SELECT a FROM t ORDER BY a) s\<close>: a query whose only from
  item is a nested query with an \<open>ORDER BY\<close> and no \<open>LIMIT\<close>; and the same with
  \<^verbatim>\<open>SELECT *\<close> in the nested query.
\<close>

definition nested_select :: "columns \<Rightarrow> ast" where
  "nested_select cols =
     Ast (str ''select'') cols (FromArr [FromItem None None None (Some (str ''t'')) None])
       None (Some []) None"

definition select_from_nested :: "columns \<Rightarrow> ast" where
  "select_from_nested cols =
     Ast (str ''select'') (ColumnsArr [Column (Some (Expr (str ''column_ref'') None None None None))])
       (FromArr [FromItem (Some (Expr [] (Some (nested_select cols)) None None None)) None None
                   None (Some (str ''s''))])
       None None None"

text \<open>
  A text and a tree for it as the rules read it: the outer query has the columns \<open>*\<close>,
  one from item with a nested query, an \<open>ORDER BY\<close> and no \<open>LIMIT\<close>; the nested query
  has a column of type \<open>star\<close>.
\<close>

definition star_over_star_sql :: jstring where
  "star_over_star_sql = str ''SELECT * FROM (SELECT *, list(a) FROM t) s ORDER BY a''"

definition star_over_star :: ast where
  "star_over_star =
     Ast (str ''select'') ColumnsStar
       (FromArr
          [FromItem
             (Some (Expr []
                (Some (Ast (str ''select'')
                         (ColumnsArr [Column (Some (Expr (str ''star'') None None None None)),
                                      Column (Some (Expr (str ''aggr_func'') None None None None))])
                         (FromArr [FromItem None None None (Some (str ''t'')) None])
                         None None None))
                None None None))
             None None None (Some (str ''s''))])
       None (Some [Expr (str ''column_ref'') None None None None]) None"

text \<open>Code units below the surrogates other than U+0130 and U+03A3: lowering maps
  them one by one.\<close>

definition plain :: "nat \<Rightarrow> bool" where
  "plain c \<longleftrightarrow> c < 55296 \<and> c \<noteq> 304 \<and> c \<noteq> 931"

text \<open>The identifiers that the rules push, in the order of the rules.\<close>

definition ids_1_27 :: "jstring list" where
  "ids_1_27 =
     [str ''non-spillable-list'', str ''non-spillable-list-distinct'',
      str ''non-spillable-string-agg'', str ''non-spillable-ordered-agg'',
      str ''many-blocking-operators'', str ''heavy-json-extraction'',
      str ''moderate-json-extraction'', str ''json-each-expansion'',
      str ''json-array-extract'', str ''repeated-order-limit-1'', str ''use-arg-max'',
      str ''leading-wildcard-like'', str ''function-on-filter-column'', str ''distinct-star'',
      str ''union-without-all'', str ''count-distinct'', str ''not-in-subquery'',
      str ''correlated-subquery'', str ''insert-select-star'', str ''many-ctes'',
      str ''window-without-qualify'', str ''excessive-casts'',
      str ''md-local-remote-transfer'', str ''group-by-verbose'',
      str ''remote-file-select-star'', str ''md-duckling-size'', str ''list-transform'',
      str ''non-spillable-pivot'', str ''many-left-join-on-true'']"

definition ids_28_40 :: "jstring list" where
  "ids_28_40 =
     [str ''non-spillable-median'', str ''unnest-large-expansion'',
      str ''recursive-cte-no-limit'', str ''ctas-memory'', str ''large-in-list'',
      str ''read-remote-no-filter'', str ''multiple-remote-scans'', str ''glob-many-files'',
      str ''temporal-join-via-window'', str ''or-chain-instead-of-in'',
      str ''between-timestamp'', str ''chained-select-star'', str ''md-cross-database-join'']"

definition ids_ast :: "jstring list" where
  "ids_ast =
     [str ''select-star'', str ''order-without-limit'', str ''cross-join'',
      str ''deeply-nested-subquery'', str ''implicit-cross-join'', str ''join-without-on'']"

text \<open>The matches of a pattern that cannot match the empty string.\<close>

definition matches :: "jstring \<Rightarrow> rx \<Rightarrow> jstring list" where
  "matches sql re = the (findAll sql re)"

text \<open>A block \<open>emits\<close> a list of rule identifiers when it always returns, and the
  findings it pushes in one run all carry the same one of them.\<close>

definition emits :: "(jstring \<Rightarrow> finding list option) \<Rightarrow> jstring list \<Rightarrow> bool" where
  "emits b ids \<longleftrightarrow>
     (\<forall>sql. \<exists>fs rid. b sql = Some fs \<and> rid \<in> set ids \<and> (\<forall>f \<in> set fs. ruleId f = rid))"

text \<open>The tree and the error message that \<open>analyze\<close> ends up with.\<close>

definition parse :: "astify \<Rightarrow> jstring \<Rightarrow> jstring \<Rightarrow> parse_tree option \<times> jstring option" where
  "parse astify trimmed sanitized =
     (case astify trimmed of
        Inr tree \<Rightarrow> (Some tree, None)
      | Inl e0 \<Rightarrow>
          (case astify sanitized of
             Inr tree \<Rightarrow> (Some tree, None)
           | Inl e \<Rightarrow> (None, Some (error_message e))))"

definition parse_part_001 :: "astify \<Rightarrow> jstring \<Rightarrow> parse_tree option \<times> jstring option" where
  "parse_part_001 astify sanitized =
     (case astify sanitized of
        Inr tree \<Rightarrow> (Some tree, None)
      | Inl e \<Rightarrow> (None, Some (error_message e)))"

section \<open>Proofs\<close>

subsection \<open>Case mapping of ASCII texts\<close>

lemma code_points_plain:
  "\<forall>c \<in> set s. \<not> is_high c \<Longrightarrow> code_points s = s"
  by (induction s rule: code_points.induct) auto

lemma code_units_bmp: "c < 65536 \<Longrightarrow> code_units c = [c]"
  by (simp add: code_units_def)

lemma mapped_lower_ascii:
  "c < 128 \<Longrightarrow> mapped lower_rows c = (if is_upper_az c then c + 32 else c)"
  by (simp add: lower_rows_def is_upper_az_def)

lemma mapped_upper_ascii:
  "c < 128 \<Longrightarrow> mapped upper_rows c = (if is_lower_az c then c - 32 else c)"
  by (simp add: upper_rows_def is_lower_az_def)

lemma special_upper_ascii: "c < 128 \<Longrightarrow> special upper_special c = None"
  by (simp add: upper_special_def)

lemma lower_cp_ascii:
  "c < 128 \<Longrightarrow> lower_cp prev rest c = [if is_upper_az c then c + 32 else c]"
  by (simp add: lower_cp_def mapped_lower_ascii)

lemma upper_cp_ascii:
  "c < 128 \<Longrightarrow> upper_cp c = [if is_lower_az c then c - 32 else c]"
  by (simp add: upper_cp_def mapped_upper_ascii special_upper_ascii)

lemma lower_cps_ascii:
  "\<forall>c \<in> set s. c < 128
   \<Longrightarrow> lower_cps prev s = map (\<lambda>c. if is_upper_az c then c + 32 else c) s"
  by (induction s arbitrary: prev) (simp_all add: lower_cp_ascii)

lemma toLowerCase_ascii:
  assumes "\<forall>c \<in> set s. c < 128"
  shows "toLowerCase s = map (\<lambda>c. if is_upper_az c then c + 32 else c) s"
proof -
  from assms have "code_points s = s"
    by (intro code_points_plain) (auto simp: is_high_def)
  moreover have "concat (map code_units (map (\<lambda>c. if is_upper_az c then c + 32 else c) s))
                   = map (\<lambda>c. if is_upper_az c then c + 32 else c) s"
    using assms by (induction s) (auto simp: code_units_def)
  ultimately show ?thesis
    using assms by (simp add: toLowerCase_def lower_cps_ascii)
qed

lemma toUpperCase_ascii:
  assumes "\<forall>c \<in> set s. c < 128"
  shows "toUpperCase s = map (\<lambda>c. if is_lower_az c then c - 32 else c) s"
proof -
  from assms have "code_points s = s"
    by (intro code_points_plain) (auto simp: is_high_def)
  moreover have "concat (map code_units (concat (map upper_cp s)))
                   = map (\<lambda>c. if is_lower_az c then c - 32 else c) s"
    using assms by (induction s) (auto simp: code_units_def upper_cp_ascii)
  ultimately show ?thesis
    by (simp add: toUpperCase_def)
qed

lemma toLowerCase_304_ascii:
  assumes "\<forall>c \<in> set s. c < 128"
  shows "toLowerCase (304 # s) = 105 # 775 # map (\<lambda>c. if is_upper_az c then c + 32 else c) s"
proof -
  from assms have "code_points (304 # s) = 304 # s"
    by (intro code_points_plain) (auto simp: is_high_def)
  moreover have "concat (map code_units (map (\<lambda>c. if is_upper_az c then c + 32 else c) s))
                   = map (\<lambda>c. if is_upper_az c then c + 32 else c) s"
    using assms by (induction s) (auto simp: code_units_def)
  ultimately show ?thesis
    using assms by (simp add: toLowerCase_def lower_cps_ascii lower_cp_def code_units_def)
qed

lemma canon_ascii: "c < 128 \<Longrightarrow> canon c = (if is_lower_az c then c - 32 else c)"
  by (auto simp: canon_def toUpperCase_def upper_cp_ascii code_units_def)

lemma canon_304: "canon 304 = 304"
  by (simp add: canon_def toUpperCase_def upper_cp_def upper_special_def upper_rows_def
        code_units_def)

subsection \<open>Case mapping below the surrogates\<close>

lemma mapped_bound:
  "list_all (\<lambda>(lo, hi, step, t). lo < 55296 \<longrightarrow> t + (hi - lo) < 65536) rows
   \<Longrightarrow> c < 55296 \<Longrightarrow> mapped rows c < 65536"
proof (induction rows c rule: mapped.induct)
  case (1 c)
  then show ?case by simp
next
  case (2 lo hi step t rows c)
  show ?case
  proof (cases "c < lo \<or> hi < c")
    case True
    with 2 show ?thesis by auto
  next
    case False
    with 2(2,3) have "t + (c - lo) \<le> t + (hi - lo)" "t + (hi - lo) < 65536" by auto
    with False 2(3) show ?thesis by auto
  qed
qed

lemma mapped_lower_bmp: "c < 55296 \<Longrightarrow> mapped lower_rows c < 65536"
  by (rule mapped_bound) (simp_all add: lower_rows_def)

lemma toLowerCase_plain:
  assumes "\<forall>c \<in> set s. plain c"
  shows "toLowerCase s = map (mapped lower_rows) s"
proof -
  from assms have "code_points s = s"
    by (intro code_points_plain) (auto simp: is_high_def plain_def)
  moreover from assms have "lower_cps prev s = map (mapped lower_rows) s" for prev
    by (induction s arbitrary: prev) (simp_all add: lower_cp_def plain_def)
  moreover have "concat (map code_units (map (mapped lower_rows) s)) = map (mapped lower_rows) s"
    using assms by (induction s) (simp_all add: code_units_bmp mapped_lower_bmp plain_def)
  ultimately show ?thesis
    by (simp add: toLowerCase_def)
qed

subsection \<open>Strings and findings\<close>

lemma str_inj [simp]: "str a = str b \<longleftrightarrow> a = b"
  by (simp add: str_def inj_on_def inj_map_eq_map)

lemma finding_sel [simp]:
  "ruleId (finding rid sev ttl msg sug cat frag) = rid"
  "severity (finding rid sev ttl msg sug cat frag) = sev"
  "message (finding rid sev ttl msg sug cat frag) = msg"
  "offset (finding rid sev ttl msg sug cat frag) = None"
  "fragment (finding rid sev ttl msg sug cat frag) = frag"
  by (simp_all add: finding_def)

lemma located_sel [simp]:
  "ruleId (located f loc) = ruleId f"
  "severity (located f loc) = severity f"
  "message (located f loc) = message f"
  "fragment (located f loc) = fragment f"
  "offset (located f loc) = (case loc of None \<Rightarrow> offset f | Some l \<Rightarrow> Some l)"
  by (simp_all add: located_def split: option.splits)

subsection \<open>The loops of the rules end\<close>

lemma findAll_loop_total:
  assumes pos: "0 < minlen re"
  shows "\<exists>ms. findAll_loop re sql li acc = Some ms"
proof (induction "Suc (length sql) - li" arbitrary: li acc rule: less_induct)
  case less
  show ?case
  proof (cases "exec re sql li")
    case None
    then show ?thesis by (subst findAll_loop.simps) simp
  next
    case (Some m)
    obtain a b c where m: "m = (a, b, c)" by (cases m)
    from exec_bounds [of re sql li a b c] Some m pos
    have "Suc (length sql) - b < Suc (length sql) - li" by auto
    from less [OF this] obtain ms where
      "findAll_loop re sql b (acc @ [slice sql a b]) = Some ms" by blast
    with Some m show ?thesis by (subst findAll_loop.simps) simp
  qed
qed

lemma findAll_total: "0 < minlen re \<Longrightarrow> \<exists>ms. findAll sql re = Some ms"
  unfolding findAll_def by (rule findAll_loop_total)

lemma countMatches_total: "0 < minlen re \<Longrightarrow> \<exists>n. countMatches sql re = Some n"
  unfolding countMatches_def using findAll_total [of re sql] by auto

lemma minlen_seqs [simp]: "minlen (seqs rs) = sum_list (map minlen rs)"
  by (induction rs) (simp_all add: seqs_def)

lemma minlen_lit_i [simp]: "minlen (lit_i cs) = length cs"
  by (induction cs) (simp_all add: lit_i_def)

lemma minlen_lit [simp]: "minlen (lit cs) = length cs"
  by (induction cs) (simp_all add: lit_def)

lemma minlen_pos:
  "0 < minlen re_list" "0 < minlen re_list_distinct" "0 < minlen re_agg_order_by"
  "0 < minlen re_order_by" "0 < minlen re_over" "0 < minlen re_group_by"
  "0 < minlen re_json_arrow" "0 < minlen re_json_arrow_obj"
  "0 < minlen re_order_by_limit_1" "0 < minlen re_like_wildcard"
  "0 < minlen re_func_in_where" "0 < minlen re_union" "0 < minlen re_count_distinct"
  "0 < minlen re_cast_ops" "0 < minlen re_left_join_on_true"
  "0 < minlen re_ordered_set_agg" "0 < minlen re_unnest" "0 < minlen re_in_list"
  "0 < minlen re_remote_read" "0 < minlen re_cte_select_star" "0 < minlen re_db_qualified"
  "0 < minlen (re_call funcName)"
  by (simp_all add: re_list_def re_list_distinct_def re_agg_order_by_def re_order_by_def
      re_over_def re_group_by_def re_json_arrow_def re_json_arrow_obj_def
      re_order_by_limit_1_def re_like_wildcard_def re_func_in_where_def re_union_def
      re_count_distinct_def re_cast_ops_def re_left_join_on_true_def
      re_ordered_set_agg_def re_unnest_def re_in_list_def re_remote_read_def
      re_cte_select_star_def re_db_qualified_def re_call_def alts_def)

lemma findAll_matches: "0 < minlen re \<Longrightarrow> findAll sql re = Some (matches sql re)"
  using findAll_total [of re sql] by (auto simp: matches_def)

lemma countMatches_matches:
  "0 < minlen re \<Longrightarrow> countMatches sql re = Some (length (matches sql re))"
  by (simp add: countMatches_def findAll_matches)

lemmas loops_end = findAll_matches [OF minlen_pos(1)] findAll_matches [OF minlen_pos(2)]
  findAll_matches [OF minlen_pos(3)] countMatches_matches [OF minlen_pos(4)]
  countMatches_matches [OF minlen_pos(5)] countMatches_matches [OF minlen_pos(6)]
  countMatches_matches [OF minlen_pos(7)] countMatches_matches [OF minlen_pos(8)]
  findAll_matches [OF minlen_pos(9)] findAll_matches [OF minlen_pos(10)]
  findAll_matches [OF minlen_pos(11)] findAll_matches [OF minlen_pos(12)]
  findAll_matches [OF minlen_pos(13)] findAll_matches [OF minlen_pos(14)]
  countMatches_matches [OF minlen_pos(15)] findAll_matches [OF minlen_pos(16)]
  findAll_matches [OF minlen_pos(17)] findAll_matches [OF minlen_pos(18)]
  findAll_matches [OF minlen_pos(19)] countMatches_matches [OF minlen_pos(20)]
  findAll_matches [OF minlen_pos(21)]

subsection \<open>What each block pushes\<close>

lemma emitsI:
  "(\<And>sql. \<exists>fs rid. b sql = Some fs \<and> rid \<in> set ids \<and> (\<forall>f \<in> set fs. ruleId f = rid))
   \<Longrightarrow> emits b ids"
  by (simp add: emits_def)

lemma emits_1_27:
  "emits rule_non_spillable_list [str ''non-spillable-list'']"
  "emits rule_non_spillable_list_distinct [str ''non-spillable-list-distinct'']"
  "emits rule_non_spillable_string_agg [str ''non-spillable-string-agg'']"
  "emits rule_non_spillable_ordered_agg [str ''non-spillable-ordered-agg'']"
  "emits rule_many_blocking_operators [str ''many-blocking-operators'']"
  "emits rule_json_extraction [str ''heavy-json-extraction'', str ''moderate-json-extraction'']"
  "emits rule_json_each_expansion [str ''json-each-expansion'']"
  "emits rule_json_array_extract [str ''json-array-extract'']"
  "emits rule_repeated_order_limit_1 [str ''repeated-order-limit-1'']"
  "emits rule_use_arg_max [str ''use-arg-max'']"
  "emits rule_leading_wildcard_like [str ''leading-wildcard-like'']"
  "emits rule_function_on_filter_column [str ''function-on-filter-column'']"
  "emits rule_distinct_star [str ''distinct-star'']"
  "emits rule_union_without_all [str ''union-without-all'']"
  "emits rule_count_distinct [str ''count-distinct'']"
  "emits rule_not_in_subquery [str ''not-in-subquery'']"
  "emits rule_correlated_subquery [str ''correlated-subquery'']"
  "emits rule_insert_select_star [str ''insert-select-star'']"
  "emits rule_many_ctes [str ''many-ctes'']"
  "emits rule_window_without_qualify [str ''window-without-qualify'']"
  "emits rule_excessive_casts [str ''excessive-casts'']"
  "emits rule_md_local_remote_transfer [str ''md-local-remote-transfer'']"
  "emits rule_group_by_verbose [str ''group-by-verbose'']"
  "emits rule_remote_file_select_star [str ''remote-file-select-star'']"
  "emits rule_md_duckling_size [str ''md-duckling-size'']"
  "emits rule_list_transform [str ''list-transform'']"
  "emits rule_non_spillable_pivot [str ''non-spillable-pivot'']"
  "emits rule_many_left_join_on_true [str ''many-left-join-on-true'']"
  by (rule emitsI;
      auto simp: loops_end Let_def rule_non_spillable_list_def
        rule_non_spillable_list_distinct_def rule_non_spillable_string_agg_def
        rule_non_spillable_ordered_agg_def rule_many_blocking_operators_def
        rule_json_extraction_def rule_json_each_expansion_def rule_json_array_extract_def
        rule_repeated_order_limit_1_def rule_use_arg_max_def rule_leading_wildcard_like_def
        rule_function_on_filter_column_def rule_distinct_star_def rule_union_without_all_def
        rule_count_distinct_def rule_not_in_subquery_def rule_correlated_subquery_def
        rule_insert_select_star_def rule_many_ctes_def rule_window_without_qualify_def
        rule_excessive_casts_def rule_md_local_remote_transfer_def rule_group_by_verbose_def
        rule_remote_file_select_star_def rule_md_duckling_size_def rule_list_transform_def
        rule_non_spillable_pivot_def rule_many_left_join_on_true_def)+

lemma emits_28_40:
  "emits rule_non_spillable_median [str ''non-spillable-median'']"
  "emits rule_unnest_large_expansion [str ''unnest-large-expansion'']"
  "emits rule_recursive_cte_no_limit [str ''recursive-cte-no-limit'']"
  "emits rule_ctas_memory [str ''ctas-memory'']"
  "emits rule_large_in_list [str ''large-in-list'']"
  "emits rule_read_remote_no_filter [str ''read-remote-no-filter'']"
  "emits rule_multiple_remote_scans [str ''multiple-remote-scans'']"
  "emits rule_glob_many_files [str ''glob-many-files'']"
  "emits rule_temporal_join_via_window [str ''temporal-join-via-window'']"
  "emits rule_or_chain_instead_of_in [str ''or-chain-instead-of-in'']"
  "emits rule_between_timestamp [str ''between-timestamp'']"
  "emits rule_chained_select_star [str ''chained-select-star'']"
  "emits rule_md_cross_database_join [str ''md-cross-database-join'']"
  by (rule emitsI;
      simp add: loops_end Let_def rule_non_spillable_median_def
        rule_unnest_large_expansion_def rule_recursive_cte_no_limit_def rule_ctas_memory_def
        rule_large_in_list_def rule_read_remote_no_filter_def rule_multiple_remote_scans_def
        rule_glob_many_files_def rule_temporal_join_via_window_def
        rule_or_chain_instead_of_in_def rule_between_timestamp_def
        rule_chained_select_star_def rule_md_cross_database_join_def)+

subsection \<open>Running the blocks\<close>

lemma run_blocks_emits:
  assumes "\<forall>b \<in> set bs. \<exists>ids. emits b ids \<and> set ids \<subseteq> S"
  shows "\<exists>fs. run_blocks bs sql = Some fs \<and> ruleId ` set fs \<subseteq> S"
  using assms
proof (induction bs)
  case Nil
  show ?case by simp
next
  case (Cons b bs)
  then obtain ids where ids: "emits b ids" "set ids \<subseteq> S" by auto
  then obtain pushed where b: "b sql = Some pushed" "ruleId ` set pushed \<subseteq> set ids"
    unfolding emits_def by (metis image_subsetI)
  from Cons obtain rest where r: "run_blocks bs sql = Some rest" "ruleId ` set rest \<subseteq> S"
    by auto
  from b r ids show ?case by auto
qed

lemma emits_sub: "emits b ids \<Longrightarrow> set ids \<subseteq> S \<Longrightarrow> \<exists>ids. emits b ids \<and> set ids \<subseteq> S"
  by blast

lemma blocks_1_27_ids:
  "\<forall>b \<in> set blocks_1_27. \<exists>ids. emits b ids \<and> set ids \<subseteq> set ids_1_27"
  unfolding blocks_1_27_def ids_1_27_def list.set ball_simps
  apply (intro conjI TrueI)
  apply (rule emits_sub, rule emits_1_27, simp)+
  done

lemma blocks_28_40_ids:
  "\<forall>b \<in> set blocks_28_40. \<exists>ids. emits b ids \<and> set ids \<subseteq> set ids_28_40"
  unfolding blocks_28_40_def ids_28_40_def list.set ball_simps
  apply (intro conjI TrueI)
  apply (rule emits_sub, rule emits_28_40, simp)+
  done

lemma regexRules_part_002_returns:
  "\<exists>fs. regexRules_part_002 sql = Some fs \<and> ruleId ` set fs \<subseteq> set ids_1_27"
  unfolding regexRules_part_002_def by (rule run_blocks_emits [OF blocks_1_27_ids])

lemma regexRules_returns:
  "\<exists>fs. regexRules sql = Some fs \<and> ruleId ` set fs \<subseteq> set (ids_1_27 @ ids_28_40)"
proof -
  have "\<forall>b \<in> set (blocks_1_27 @ blocks_28_40).
          \<exists>ids. emits b ids \<and> set ids \<subseteq> set (ids_1_27 @ ids_28_40)"
    using blocks_1_27_ids blocks_28_40_ids by fastforce
  from run_blocks_emits [OF this] show ?thesis by (simp add: regexRules_def)
qed


subsection \<open>The rules on the tree push their own identifiers\<close>

lemma checkSelectStar_ids:
  "f \<in> set (checkSelectStar a sql) \<Longrightarrow> ruleId f = str ''select-star''"
  "f \<in> set (checkSelectStar_items items sql) \<Longrightarrow> ruleId f = str ''select-star''"
proof (induction a sql and items sql rule: checkSelectStar_checkSelectStar_items.induct)
  case (1 ty cols frm wh ob lim sql)
  then show ?case
    by (auto split: columns.splits column.splits option.splits expr.splits
          from_clause.splits if_splits)
next
  case (2 sql)
  then show ?case by simp
next
  case (3 e j on t a rest sql)
  then show ?case
    by (fastforce split: option.splits expr.splits)
qed

lemma checkNestedSubqueries_ids:
  "f \<in> set (checkNestedSubqueries a sql d) \<Longrightarrow> ruleId f = str ''deeply-nested-subquery''"
  "f \<in> set (checkNestedSubqueries_items items sql d)
     \<Longrightarrow> ruleId f = str ''deeply-nested-subquery''"
  "f \<in> set (checkExprForSubqueries e sql d) \<Longrightarrow> ruleId f = str ''deeply-nested-subquery''"
  "f \<in> set (checkExprForSubqueries_args es sql d)
     \<Longrightarrow> ruleId f = str ''deeply-nested-subquery''"
proof (induction a sql d and items sql d and e sql d and es sql d
        rule: checkNestedSubqueries_checkNestedSubqueries_items_checkExprForSubqueries_checkExprForSubqueries_args.induct)
  case (1 ty cols frm wh ob lim sql depth)
  from "1.prems" have ty: "ty = str ''select''"
    by (auto split: if_splits)
  with "1.prems" consider
      "ruleId f = str ''deeply-nested-subquery''"
    | x where "wh = Some x" "f \<in> set (checkExprForSubqueries x sql depth)"
    | xs where "frm = FromArr xs" "f \<in> set (checkNestedSubqueries_items xs sql depth)"
    | x where "frm = FromOne x" "f \<in> set (checkNestedSubqueries_items [x] sql depth)"
    by (auto split: option.splits from_clause.splits if_splits)
  then show ?case
  proof cases
    case 1
    then show ?thesis .
  next
    case 2
    with "1.IH"(1) ty show ?thesis by blast
  next
    case 3
    with "1.IH"(2) ty show ?thesis by blast
  next
    case 4
    with "1.IH"(3) ty show ?thesis by blast
  qed
next
  case (2 sql depth)
  then show ?case by simp
next
  case (3 e j on t a rest sql depth)
  from "3.prems" consider
      x1 x3 x4 x5 q where "e = Some (Expr x1 (Some q) x3 x4 x5)"
        "f \<in> set (checkNestedSubqueries q sql (depth + 1))"
    | "f \<in> set (checkNestedSubqueries_items rest sql depth)"
    by (auto split: option.splits expr.splits)
  then show ?case
  proof cases
    case 1
    with "3.IH"(1) show ?thesis by blast
  next
    case 2
    with "3.IH"(2) show ?thesis by blast
  qed
next
  case (4 ety sub l r args sql depth)
  from "4.prems" consider
      q where "sub = Some q" "f \<in> set (checkNestedSubqueries q sql (depth + 1))"
    | x where "l = Some x" "f \<in> set (checkExprForSubqueries x sql depth)"
    | x where "r = Some x" "f \<in> set (checkExprForSubqueries x sql depth)"
    | xs where "args = Some (ArgsArr xs)" "f \<in> set (checkExprForSubqueries_args xs sql depth)"
    | x where "args = Some (ArgsOne x)" "f \<in> set (checkExprForSubqueries_args [x] sql depth)"
  proof (cases args)
    case None
    with "4.prems" that(1,2,3) show ?thesis
      by (auto split: option.splits)
  next
    case (Some y)
    with "4.prems" that show ?thesis
      by (cases y) (auto split: option.splits)
  qed
  then show ?case
  proof cases
    case 1
    with "4.IH"(1) show ?thesis by blast
  next
    case 2
    with "4.IH"(2) show ?thesis by blast
  next
    case 3
    with "4.IH"(3) show ?thesis by blast
  next
    case 4
    with "4.IH"(4) show ?thesis by blast
  next
    case 5
    with "4.IH"(5) show ?thesis by blast
  qed
next
  case (5 sql depth)
  then show ?case by simp
next
  case (6 ety sub l r args rest sql depth)
  from "6.prems" consider
      q where "sub = Some q" "f \<in> set (checkNestedSubqueries q sql (depth + 1))"
    | "f \<in> set (checkExprForSubqueries_args rest sql depth)"
    by (auto split: option.splits)
  then show ?case
  proof cases
    case 1
    with "6.IH"(1) show ?thesis by blast
  next
    case 2
    with "6.IH"(2) show ?thesis by blast
  qed
qed

lemma astRules_ids:
  assumes "f \<in> set (astRules node sql)"
  shows "ruleId f \<in> set ids_ast"
proof -
  from assms consider
      "f \<in> set (checkSelectStar node sql)"
    | "f \<in> set (checkOrderByWithoutLimit node sql)"
    | "f \<in> set (checkCrossJoin node sql)"
    | "f \<in> set (checkNestedSubqueries node sql 0)"
    | "f \<in> set (checkJoinWithoutCondition node sql)"
    by (auto simp: astRules_def)
  then show ?thesis
  proof cases
    case 1
    from checkSelectStar_ids(1) [OF this] show ?thesis by (simp add: ids_ast_def)
  next
    case 2
    then show ?thesis
      by (auto simp: checkOrderByWithoutLimit_def ids_ast_def split: if_splits)
  next
    case 3
    then show ?thesis
      by (auto simp: checkCrossJoin_def ids_ast_def split: if_splits)
  next
    case 4
    from checkNestedSubqueries_ids(1) [OF this] show ?thesis by (simp add: ids_ast_def)
  next
    case 5
    then show ?thesis
      by (auto simp: checkJoinWithoutCondition_def ids_ast_def Let_def split: if_splits)
  qed
qed

subsection \<open>The filter of \<open>runRules\<close>\<close>

lemma dedup_ids: "ruleId ` set (dedup seen fs) = ruleId ` set fs - seen"
  by (induction fs arbitrary: seen) auto

lemma dedup_distinct: "distinct (map ruleId (dedup seen fs))"
proof (induction fs arbitrary: seen)
  case Nil
  show ?case by simp
next
  case (Cons f fs)
  have "ruleId f \<notin> ruleId ` set (dedup (insert (ruleId f) seen) fs)"
    by (simp add: dedup_ids)
  with Cons show ?case by simp
qed

lemma dedup_filter:
  "filter (\<lambda>f. ruleId f = k) (dedup seen fs) =
     (if k \<in> seen then [] else take 1 (filter (\<lambda>f. ruleId f = k) fs))"
proof (induction fs arbitrary: seen)
  case Nil
  show ?case by simp
next
  case (Cons f fs)
  show ?case
  proof (cases "ruleId f \<in> seen")
    case True
    with Cons show ?thesis by auto
  next
    case False
    with Cons show ?thesis by auto
  qed
qed

subsection \<open>The text normalizer returns\<close>

lemma scan_parens_bounds:
  "scan_parens s i d = (j, d') \<Longrightarrow>
     i \<le> j \<and> (i \<le> length s \<longrightarrow> j \<le> length s) \<and> (0 < d \<longrightarrow> d' = 0 \<longrightarrow> i < j)"
proof (induction s i d rule: scan_parens.induct)
  case (1 s i depth)
  show ?case
  proof (cases "i < length s \<and> 0 < depth")
    case True
    let ?d = "if s ! i = 40 then depth + 1 else if s ! i = 41 then depth - 1 else depth"
    from True "1.prems" have "scan_parens s (i + 1) ?d = (j, d')"
      by (subst (asm) scan_parens.simps) simp
    from "1.IH" [OF True this] True show ?thesis by auto
  next
    case False
    with "1.prems" have "j = i" "d' = depth"
      by (subst (asm) scan_parens.simps, simp)+
    with False show ?thesis by auto
  qed
qed

lemma replaceBalancedCall_loop_returns:
  assumes pos: "0 < minlen re"
  shows "\<exists>t. replaceBalancedCall_loop re replacement s li = Some t"
proof (induction "Suc (length s) - li" arbitrary: s li rule: less_induct)
  case less
  show ?case
  proof (cases "exec re s li")
    case None
    then show ?thesis by (subst replaceBalancedCall_loop.simps) simp
  next
    case (Some m)
    obtain a e c where m: "m = (a, e, c)" by (cases m)
    from exec_bounds [of re s li a e c] Some m pos
    have b: "li \<le> a" "a < e" "e \<le> length s" by auto
    obtain i depth where sc: "scan_parens s e 1 = (i, depth)" by (cases "scan_parens s e 1")
    from scan_parens_bounds [OF sc] b have i: "e \<le> i" "i \<le> length s" "depth = 0 \<longrightarrow> e < i"
      by auto
    show ?thesis
    proof (cases "depth = 0")
      case True
      let ?s = "take a s @ replacement @ drop i s"
      from b i True have "Suc (length ?s) - (a + length replacement) < Suc (length s) - li"
        by (simp add: min_def)
      from less [OF this] obtain t where
        "replaceBalancedCall_loop re replacement ?s (a + length replacement) = Some t" by blast
      with Some m sc True show ?thesis
        by (subst replaceBalancedCall_loop.simps) simp
    next
      case False
      from b have "Suc (length s) - e < Suc (length s) - li" by simp
      from less [OF this] obtain t where
        "replaceBalancedCall_loop re replacement s e = Some t" by blast
      with Some m sc False show ?thesis
        by (subst replaceBalancedCall_loop.simps) simp
    qed
  qed
qed

lemma replaceBalancedCall_returns: "\<exists>t. replaceBalancedCall s funcName replacement = Some t"
  unfolding replaceBalancedCall_def
  by (rule replaceBalancedCall_loop_returns) (rule minlen_pos)

lemma preprocessForParser_returns: "\<exists>t. preprocessForParser sql = Some t"
proof -
  let ?s0 = "replace_all sql re_type_cast (\<lambda>g. [])"
  obtain s1 where s1: "replaceBalancedCall ?s0 ''list_transform'' (str ''NULL'') = Some s1"
    using replaceBalancedCall_returns by blast
  obtain s2 where s2: "replaceBalancedCall s1 ''json_extract_string'' (str ''NULL'') = Some s2"
    using replaceBalancedCall_returns by blast
  obtain s3 where s3: "replaceBalancedCall s2 ''json_each'' (str ''(SELECT 1)'') = Some s3"
    using replaceBalancedCall_returns by blast
  obtain s4 where s4: "replaceBalancedCall s3 ''LIST'' (str ''ARRAY_AGG(1)'') = Some s4"
    using replaceBalancedCall_returns by blast
  obtain s5 where s5: "replaceBalancedCall s4 ''struct_pack'' (str ''ROW(1)'') = Some s5"
    using replaceBalancedCall_returns by blast
  from s1 s2 s3 s4 s5 show ?thesis
    by (simp add: preprocessForParser_def)
qed

subsection \<open>The analysis returns\<close>

lemma runRules_eq:
  "regexRules sql = Some pushed \<Longrightarrow> runRules ast sql = Some (dedup {} (emitted ast sql pushed))"
  by (simp add: runRules_def runRules_with_def)

lemma runRules_part_002_eq:
  "regexRules_part_002 sql = Some pushed \<Longrightarrow>
     runRules_part_002 ast sql = Some (dedup {} (emitted ast sql pushed))"
  by (simp add: runRules_part_002_def runRules_with_def)

lemma analyze_eq:
  assumes "trim sql \<noteq> []" "preprocessForParser (trim sql) = Some sanitized"
    "regexRules (trim sql) = Some pushed"
  shows "analyze astify sql =
           Some \<lparr>findings = dedup {} (emitted (fst (parse astify (trim sql) sanitized))
                                        (trim sql) pushed),
                 parseError = snd (parse astify (trim sql) sanitized)\<rparr>"
  using assms
  by (auto simp: analyze_def parse_def runRules_eq Let_def split: sum.splits)

lemma analyze_part_001_eq:
  assumes "trim sql \<noteq> []" "preprocessForParser (trim sql) = Some sanitized"
    "regexRules (trim sql) = Some pushed"
  shows "analyze_part_001 astify sql =
           Some \<lparr>findings = dedup {} (emitted (fst (parse_part_001 astify sanitized))
                                        (trim sql) pushed),
                 parseError = snd (parse_part_001 astify sanitized)\<rparr>"
  using assms
  by (auto simp: analyze_part_001_def parse_part_001_def runRules_eq Let_def split: sum.splits)

lemma analyze_empty:
  "trim sql = [] \<Longrightarrow> analyze astify sql = Some \<lparr>findings = [], parseError = None\<rparr>"
  "trim sql = [] \<Longrightarrow> analyze_part_001 astify sql = Some \<lparr>findings = [], parseError = None\<rparr>"
  by (simp_all add: analyze_def analyze_part_001_def)

lemma trim_spaces:
  assumes "\<forall>c \<in> set sql. is_space c"
  shows "trim sql = []"
proof -
  from assms have "dropWhile is_space sql = []" by (induction sql) auto
  then show ?thesis by (simp only: trim_def rev.simps dropWhile.simps)
qed

subsection \<open>The findings of one rule\<close>

lemma run_blocks_append:
  "run_blocks bs sql = Some p \<Longrightarrow> run_blocks cs sql = Some q \<Longrightarrow>
     run_blocks (bs @ cs) sql = Some (p @ q)"
  by (induction bs arbitrary: p) (auto simp: bind_eq_Some_conv)

lemma run_blocks_without:
  assumes "\<forall>x \<in> set bs. \<exists>ids. emits x ids \<and> k \<notin> set ids"
  shows "\<exists>fs. run_blocks bs sql = Some fs \<and> filter (\<lambda>f. ruleId f = k) fs = []"
proof -
  from assms have "\<forall>x \<in> set bs. \<exists>ids. emits x ids \<and> set ids \<subseteq> - {k}"
    by blast
  from run_blocks_emits [OF this, of sql] obtain fs where
    "run_blocks bs sql = Some fs" "ruleId ` set fs \<subseteq> - {k}" by blast
  then show ?thesis by (auto simp: filter_empty_conv)
qed

lemma run_blocks_only:
  assumes bs: "bs = pre @ b # post"
    and pre: "\<forall>x \<in> set pre. \<exists>ids. emits x ids \<and> k \<notin> set ids"
    and post: "\<forall>x \<in> set post. \<exists>ids. emits x ids \<and> k \<notin> set ids"
    and b: "b sql = Some mid"
  shows "\<exists>fs. run_blocks bs sql = Some fs
           \<and> filter (\<lambda>f. ruleId f = k) fs = filter (\<lambda>f. ruleId f = k) mid"
proof -
  from run_blocks_without [OF pre, of sql] obtain p where
    p: "run_blocks pre sql = Some p" "filter (\<lambda>f. ruleId f = k) p = []" by blast
  from run_blocks_without [OF post, of sql] obtain q where
    q: "run_blocks post sql = Some q" "filter (\<lambda>f. ruleId f = k) q = []" by blast
  from b q have "run_blocks (b # post) sql = Some (mid @ q)" by simp
  from run_blocks_append [OF p(1) this] p(2) q(2) bs show ?thesis by simp
qed

lemma astRules_without:
  assumes "k \<notin> set ids_ast"
  shows "filter (\<lambda>f. ruleId f = k) (concat (map (\<lambda>node. astRules node sql) nodes)) = []"
  using assms astRules_ids by (fastforce simp: filter_empty_conv)

text \<open>Of a rule of the text, \<open>runRules\<close> keeps the first finding its block pushes.\<close>

lemma runRules_only:
  assumes "blocks_1_27 @ blocks_28_40 = pre @ b # post"
    and "\<forall>x \<in> set pre. \<exists>ids. emits x ids \<and> k \<notin> set ids"
    and "\<forall>x \<in> set post. \<exists>ids. emits x ids \<and> k \<notin> set ids"
    and "b sql = Some mid"
    and "k \<notin> set ids_ast"
  shows "\<exists>pushed. regexRules sql = Some pushed
           \<and> filter (\<lambda>f. ruleId f = k) (dedup {} (emitted ast sql pushed))
               = take 1 (filter (\<lambda>f. ruleId f = k) mid)"
proof -
  from run_blocks_only [OF assms(1-4)] obtain pushed where
    "regexRules sql = Some pushed"
    "filter (\<lambda>f. ruleId f = k) pushed = filter (\<lambda>f. ruleId f = k) mid"
    by (auto simp: regexRules_def)
  with astRules_without [OF assms(5)] show ?thesis
    by (simp add: dedup_filter emitted_def)
qed

lemma other_blocks_many_blocking_operators:
  "blocks_1_27 @ blocks_28_40 =
     take 4 blocks_1_27 @ rule_many_blocking_operators # (drop 5 blocks_1_27 @ blocks_28_40)"
  "\<forall>x \<in> set (take 4 blocks_1_27).
     \<exists>ids. emits x ids \<and> str ''many-blocking-operators'' \<notin> set ids"
  "\<forall>x \<in> set (drop 5 blocks_1_27 @ blocks_28_40).
     \<exists>ids. emits x ids \<and> str ''many-blocking-operators'' \<notin> set ids"
    apply (simp add: blocks_1_27_def)
   apply (simp add: blocks_1_27_def)
   apply (intro conjI TrueI)
      apply (rule exI, rule conjI, rule emits_1_27 emits_28_40, simp)+
  apply (simp add: blocks_1_27_def blocks_28_40_def)
  apply (intro conjI TrueI)
  apply (rule exI, rule conjI, rule emits_1_27 emits_28_40, simp)+
  done

subsection \<open>Embedded counts\<close>

lemma take_eq_prefix: "take (length x) hay = x \<longleftrightarrow> (\<exists>post. hay = x @ post)"
proof
  assume "take (length x) hay = x"
  then have "hay = x @ drop (length x) hay" by (metis append_take_drop_id)
  then show "\<exists>post. hay = x @ post" ..
next
  assume "\<exists>post. hay = x @ post"
  then show "take (length x) hay = x" by auto
qed

lemma includes_str_iff: "includes_str hay x \<longleftrightarrow> (\<exists>pre post. hay = pre @ x @ post)"
proof (induction hay)
  case Nil
  show ?case by (auto simp: includes_str_def)
next
  case (Cons h hs)
  show ?case
  proof (cases "take (length x) (h # hs) = x")
    case True
    then obtain post where "h # hs = [] @ x @ post"
      unfolding take_eq_prefix by auto
    with True show ?thesis
      unfolding includes_str_def by (metis indexOf.simps(2) option.distinct(1))
  next
    case False
    have "(\<exists>pre post. h # hs = pre @ x @ post) \<longleftrightarrow> (\<exists>pre post. hs = pre @ x @ post)"
    proof
      assume "\<exists>pre post. h # hs = pre @ x @ post"
      then obtain pre post where p: "h # hs = pre @ x @ post" by blast
      show "\<exists>pre post. hs = pre @ x @ post"
      proof (cases pre)
        case Nil
        with p have "take (length x) (h # hs) = x" by (simp add: take_eq_prefix)
        with False show ?thesis by simp
      next
        case (Cons a pre')
        with p show ?thesis by auto
      qed
    next
      assume "\<exists>pre post. hs = pre @ x @ post"
      then obtain pre post where "hs = pre @ x @ post" by blast
      then have "h # hs = (h # pre) @ x @ post" by simp
      then show "\<exists>pre post. h # hs = pre @ x @ post" by blast
    qed
    with False Cons show ?thesis
      by (simp add: includes_str_def)
  qed
qed

lemma includes_here: "includes_str (x @ post) x"
  unfolding includes_str_iff by (metis append_Nil)

lemma includes_later: "includes_str ys x \<Longrightarrow> includes_str (xs @ ys) x"
  unfolding includes_str_iff by (metis append.assoc)

subsection \<open>No match in the empty text\<close>

lemma exec_Nil: "0 < minlen re \<Longrightarrow> exec re [] li = None"
proof (rule ccontr)
  assume pos: "0 < minlen re" and "exec re [] li \<noteq> None"
  then obtain a b c where "exec re [] li = Some (a, b, c)" by auto
  from exec_bounds [OF this] pos show False by simp
qed

lemma countMatches_Nil: "0 < minlen re \<Longrightarrow> countMatches [] re = Some 0"
  by (simp add: countMatches_def findAll_def findAll_loop.simps exec_Nil)

subsection \<open>One rule of the text in the result of \<open>analyze\<close>\<close>

lemma analyze_rule:
  assumes ne: "trim sql \<noteq> []"
    and split: "blocks_1_27 @ blocks_28_40 = pre @ b # post"
      "\<forall>x \<in> set pre. \<exists>ids. emits x ids \<and> k \<notin> set ids"
      "\<forall>x \<in> set post. \<exists>ids. emits x ids \<and> k \<notin> set ids"
    and mid: "b (trim sql) = Some mid"
    and k: "k \<notin> set ids_ast"
  shows "\<exists>r. analyze astify sql = Some r
           \<and> filter (\<lambda>f. ruleId f = k) (findings r) = take 1 (filter (\<lambda>f. ruleId f = k) mid)"
    and "\<exists>r. analyze_part_001 astify sql = Some r
           \<and> filter (\<lambda>f. ruleId f = k) (findings r) = take 1 (filter (\<lambda>f. ruleId f = k) mid)"
proof -
  obtain sanitized where san: "preprocessForParser (trim sql) = Some sanitized"
    using preprocessForParser_returns by blast
  obtain pushed where pushed: "regexRules (trim sql) = Some pushed"
    using regexRules_returns by blast
  have *: "filter (\<lambda>f. ruleId f = k) (dedup {} (emitted ast (trim sql) pushed))
             = take 1 (filter (\<lambda>f. ruleId f = k) mid)" for ast
    using runRules_only [OF split mid k, of ast] pushed by auto
  from analyze_eq [OF ne san pushed, of astify] *
  show "\<exists>r. analyze astify sql = Some r
           \<and> filter (\<lambda>f. ruleId f = k) (findings r) = take 1 (filter (\<lambda>f. ruleId f = k) mid)"
    by simp
  from analyze_part_001_eq [OF ne san pushed, of astify] *
  show "\<exists>r. analyze_part_001 astify sql = Some r
           \<and> filter (\<lambda>f. ruleId f = k) (findings r) = take 1 (filter (\<lambda>f. ruleId f = k) mid)"
    by simp
qed

lemma ids_ast_not [simp]:
  "str ''many-blocking-operators'' \<notin> set ids_ast"
  "str ''non-spillable-list'' \<notin> set ids_ast"
  "str ''multiple-remote-scans'' \<notin> set ids_ast"
  "str ''non-spillable-string-agg'' \<notin> set ids_ast"
  by (simp_all add: ids_ast_def)

subsection \<open>Running a pattern on a given text\<close>


lemma exec_rec:
  "exec r s li =
     (if length s < li then None
      else case rx_match r s (li, None) of
             [] \<Rightarrow> exec r s (Suc li)
           | m # ms \<Rightarrow> Some (li, fst m, snd m))"
proof (cases "length s < li")
  case True
  then show ?thesis by (simp add: exec_def)
next
  case False
  then have "[li ..< Suc (length s)] = li # [Suc li ..< Suc (length s)]"
    by (simp add: upt_conv_Cons)
  with False show ?thesis
    by (cases "rx_match r s (li, None)") (auto simp: exec_def split: prod.splits)
qed

lemma rep_opt_numeral:
  "rep_opt f greedy (numeral k) mx st = rep_opt f greedy (Suc (pred_numeral k)) mx st"
  by (simp add: numeral_eq_Suc)

lemma rep_min_numeral:
  "rep_min f (numeral k) st = rep_min f (Suc (pred_numeral k)) st"
  by (simp add: numeral_eq_Suc)

lemmas rx_eval = rep_opt_numeral rep_min_numeral seqs_def lit_i_def lit_def alts_def
  str_def word_at_def is_word_def is_upper_az_def is_lower_az_def is_digit_def is_space_def
  is_dot_def canon_ascii canon_304 slice_def Let_def

subsection \<open>The filter of \<open>runRules\<close> keeps the first finding of every identifier\<close>

lemma dedup_from:
  "k \<le> length p \<Longrightarrow>
   dedup (ruleId ` set (take k p)) (drop k p)
     = map (\<lambda>i. p ! i)
         (filter (\<lambda>i. \<forall>j \<in> set [0 ..< i]. ruleId (p ! j) \<noteq> ruleId (p ! i)) [k ..< length p])"
proof (induction "length p - k" arbitrary: k)
  case 0
  then show ?case by simp
next
  case (Suc n)
  then have k: "k < length p" by simp
  then have d: "drop k p = p ! k # drop (Suc k) p"
    by (simp add: Cons_nth_drop_Suc)
  from k have t: "take (Suc k) p = take k p @ [p ! k]"
    by (simp add: take_Suc_conv_app_nth)
  from k have u: "[k ..< length p] = k # [Suc k ..< length p]"
    by (simp add: upt_conv_Cons)
  from Suc(2) k have ih: "dedup (ruleId ` set (take (Suc k) p)) (drop (Suc k) p)
     = map (\<lambda>i. p ! i)
         (filter (\<lambda>i. \<forall>j \<in> set [0 ..< i]. ruleId (p ! j) \<noteq> ruleId (p ! i))
            [Suc k ..< length p])"
    by (intro Suc(1)) simp_all
  have seen: "ruleId (p ! k) \<in> ruleId ` set (take k p)
                \<longleftrightarrow> \<not> (\<forall>j \<in> set [0 ..< k]. ruleId (p ! j) \<noteq> ruleId (p ! k))"
  proof
    assume "ruleId (p ! k) \<in> ruleId ` set (take k p)"
    then obtain f where f: "f \<in> set (take k p)" "ruleId f = ruleId (p ! k)" by auto
    from f(1) obtain j where "j < length (take k p)" "take k p ! j = f"
      by (auto simp: in_set_conv_nth)
    with k f(2) show "\<not> (\<forall>j \<in> set [0 ..< k]. ruleId (p ! j) \<noteq> ruleId (p ! k))"
      by auto
  next
    assume "\<not> (\<forall>j \<in> set [0 ..< k]. ruleId (p ! j) \<noteq> ruleId (p ! k))"
    then obtain j where j: "j < k" "ruleId (p ! j) = ruleId (p ! k)" by auto
    with k have "p ! j \<in> set (take k p)"
      by (auto simp: in_set_conv_nth intro!: exI [of _ j])
    then have "ruleId (p ! j) \<in> ruleId ` set (take k p)" by (rule imageI)
    with j(2) show "ruleId (p ! k) \<in> ruleId ` set (take k p)" by simp
  qed
  show ?case
  proof (cases "ruleId (p ! k) \<in> ruleId ` set (take k p)")
    case True
    then have "ruleId ` set (take (Suc k) p) = ruleId ` set (take k p)"
      unfolding t by auto
    with True ih seen show ?thesis
      unfolding d u by simp
  next
    case False
    have "ruleId ` set (take (Suc k) p) = insert (ruleId (p ! k)) (ruleId ` set (take k p))"
      unfolding t by auto
    with False ih seen show ?thesis
      unfolding d u by simp
  qed
qed

lemma dedup_first_per_rule: "first_per_rule (dedup {} fs) fs"
  using dedup_from [of 0 fs] by (simp add: first_per_rule_def)

lemma dedup_append:
  "dedup seen (xs @ ys) = dedup seen xs @ dedup (seen \<union> ruleId ` set xs) ys"
proof (induction xs arbitrary: seen)
  case Nil
  show ?case by simp
next
  case (Cons x xs)
  show ?case
  proof (cases "ruleId x \<in> seen")
    case True
    then have "seen \<union> ruleId ` set (x # xs) = seen \<union> ruleId ` set xs" by auto
    with True Cons show ?thesis by simp
  next
    case False
    have "insert (ruleId x) seen \<union> ruleId ` set xs = seen \<union> ruleId ` set (x # xs)" by auto
    with False Cons [of "insert (ruleId x) seen"] show ?thesis by simp
  qed
qed

lemma dedup_cong:
  "\<forall>f \<in> set ys. ruleId f \<in> seen \<longleftrightarrow> ruleId f \<in> seen' \<Longrightarrow> dedup seen ys = dedup seen' ys"
proof (induction ys arbitrary: seen seen')
  case Nil
  show ?case by simp
next
  case (Cons y ys)
  show ?case
  proof (cases "ruleId y \<in> seen")
    case True
    with Cons.prems have "ruleId y \<in> seen'" by simp
    moreover from Cons.prems have "dedup seen ys = dedup seen' ys"
      by (intro Cons.IH) simp
    ultimately show ?thesis using True by simp
  next
    case False
    with Cons.prems have n: "ruleId y \<notin> seen'" by simp
    from Cons.prems
    have "dedup (insert (ruleId y) seen) ys = dedup (insert (ruleId y) seen') ys"
      by (intro Cons.IH) auto
    with False n show ?thesis by simp
  qed
qed

lemma dedup_same_id:
  "\<forall>f \<in> set fs. ruleId f = rid \<Longrightarrow> subseq (map ruleId (dedup seen fs)) [rid]"
proof (induction fs arbitrary: seen)
  case Nil
  show ?case by simp
next
  case (Cons f fs)
  show ?case
  proof (cases "ruleId f \<in> seen")
    case True
    with Cons show ?thesis by simp
  next
    case False
    from Cons.prems have "ruleId ` set (dedup (insert rid seen) fs) = {}"
      by (auto simp: dedup_ids)
    then have "dedup (insert rid seen) fs = []" by simp
    with False Cons.prems show ?thesis by simp
  qed
qed

lemma subseq_singleton: "rid \<in> set ids \<Longrightarrow> subseq xs [rid] \<Longrightarrow> subseq xs ids"
proof -
  assume "rid \<in> set ids" "subseq xs [rid]"
  moreover from this(1) have "subseq [rid] ids" by (simp add: subseq_singleton_left)
  ultimately show ?thesis by (meson subseq_order.order_trans)
qed

lemma run_blocks_order:
  assumes "list_all2 emits bs idss"
  shows "\<exists>fs. run_blocks bs sql = Some fs
           \<and> (\<forall>seen. subseq (map ruleId (dedup seen fs)) (concat idss))"
  using assms
proof (induction bs idss rule: list_all2_induct)
  case Nil
  show ?case by simp
next
  case (Cons b bs ids idss)
  from Cons(1) obtain pushed rid where b: "b sql = Some pushed" "rid \<in> set ids"
    "\<forall>f \<in> set pushed. ruleId f = rid"
    unfolding emits_def by blast
  from Cons(3) obtain rest where r: "run_blocks bs sql = Some rest"
    "\<And>seen. subseq (map ruleId (dedup seen rest)) (concat idss)"
    by auto
  have "subseq (map ruleId (dedup seen (pushed @ rest))) (concat (ids # idss))" for seen
  proof -
    have "subseq (map ruleId (dedup seen pushed)) ids"
      using b(2) dedup_same_id [OF b(3)] by (rule subseq_singleton)
    with r(2) [of "seen \<union> ruleId ` set pushed"] show ?thesis
      by (simp add: dedup_append list_emb_append_mono)
  qed
  with b r show ?case by simp
qed

lemma blocks_in_order:
  "list_all2 emits (blocks_1_27 @ blocks_28_40)
     (map (\<lambda>rid. [rid]) (take 5 ids_1_27)
      @ [[str ''heavy-json-extraction'', str ''moderate-json-extraction'']]
      @ map (\<lambda>rid. [rid]) (drop 7 ids_1_27 @ ids_28_40))"
  "list_all2 emits blocks_1_27
     (map (\<lambda>rid. [rid]) (take 5 ids_1_27)
      @ [[str ''heavy-json-extraction'', str ''moderate-json-extraction'']]
      @ map (\<lambda>rid. [rid]) (drop 7 ids_1_27))"
  by (simp_all add: blocks_1_27_def blocks_28_40_def ids_1_27_def ids_28_40_def
        emits_1_27 emits_28_40)

lemma ids_in_order:
  "concat (map (\<lambda>rid. [rid]) (take 5 ids_1_27)
      @ [[str ''heavy-json-extraction'', str ''moderate-json-extraction'']]
      @ map (\<lambda>rid. [rid]) (drop 7 ids_1_27 @ ids_28_40)) = ids_1_27 @ ids_28_40"
  "concat (map (\<lambda>rid. [rid]) (take 5 ids_1_27)
      @ [[str ''heavy-json-extraction'', str ''moderate-json-extraction'']]
      @ map (\<lambda>rid. [rid]) (drop 7 ids_1_27)) = ids_1_27"
  by (simp_all add: ids_1_27_def ids_28_40_def)

lemma ids_ast_text: "set ids_ast \<inter> set (ids_1_27 @ ids_28_40) = {}"
  by (simp add: ids_ast_def ids_1_27_def ids_28_40_def)

lemma regexRules_order:
  "\<exists>fs. regexRules sql = Some fs
     \<and> (\<forall>seen. subseq (map ruleId (dedup seen fs)) (ids_1_27 @ ids_28_40))"
  using run_blocks_order [OF blocks_in_order(1), of sql]
  by (simp only: ids_in_order regexRules_def)

lemma regexRules_part_002_order:
  "\<exists>fs. regexRules_part_002 sql = Some fs
     \<and> (\<forall>seen. subseq (map ruleId (dedup seen fs)) ids_1_27)"
  using run_blocks_order [OF blocks_in_order(2), of sql]
  by (simp only: ids_in_order regexRules_part_002_def)

lemma analyze_cases:
  obtains "trim sql = []"
  | sanitized pushed where "trim sql \<noteq> []" "preprocessForParser (trim sql) = Some sanitized"
      "regexRules (trim sql) = Some pushed"
  using preprocessForParser_returns regexRules_returns by blast

lemma other_blocks_non_spillable_list:
  "blocks_1_27 @ blocks_28_40 =
     [] @ rule_non_spillable_list # (drop 1 blocks_1_27 @ blocks_28_40)"
  "\<forall>x \<in> set []. \<exists>ids. emits x ids \<and> str ''non-spillable-list'' \<notin> set ids"
  "\<forall>x \<in> set (drop 1 blocks_1_27 @ blocks_28_40).
     \<exists>ids. emits x ids \<and> str ''non-spillable-list'' \<notin> set ids"
    apply (simp add: blocks_1_27_def)
   apply simp
  apply (simp add: blocks_1_27_def blocks_28_40_def)
  apply (intro conjI TrueI)
  apply (rule exI, rule conjI, rule emits_1_27 emits_28_40, simp)+
  done

lemma other_blocks_non_spillable_string_agg:
  "blocks_1_27 @ blocks_28_40 =
     take 2 blocks_1_27 @ rule_non_spillable_string_agg
       # (drop 3 blocks_1_27 @ blocks_28_40)"
  "\<forall>x \<in> set (take 2 blocks_1_27).
     \<exists>ids. emits x ids \<and> str ''non-spillable-string-agg'' \<notin> set ids"
  "\<forall>x \<in> set (drop 3 blocks_1_27 @ blocks_28_40).
     \<exists>ids. emits x ids \<and> str ''non-spillable-string-agg'' \<notin> set ids"
    apply (simp add: blocks_1_27_def)
   apply (simp add: blocks_1_27_def)
   apply (intro conjI TrueI)
    apply (rule exI, rule conjI, rule emits_1_27 emits_28_40, simp)+
  apply (simp add: blocks_1_27_def blocks_28_40_def)
  apply (intro conjI TrueI)
  apply (rule exI, rule conjI, rule emits_1_27 emits_28_40, simp)+
  done


text \<open>
  Claim C3. For the empty string and for a text of white space only, \<open>analyze\<close> returns
  exactly \<open>{findings: [], parseError: null}\<close>, whatever the parser would do.
\<close>

theorem analyze_blank_input:
  assumes "\<forall>c \<in> set sql. is_space c"
  shows "analyze astify sql = Some \<lparr>findings = [], parseError = None\<rparr>
         \<and> analyze_part_001 astify sql = Some \<lparr>findings = [], parseError = None\<rparr>"
  using analyze_empty [OF trim_spaces [OF assms]] by simp

theorem analyze_blank_input_witness:
  "analyze (\<lambda>t. Inl OtherValue) [] = Some \<lparr>findings = [], parseError = None\<rparr>
   \<and> analyze (\<lambda>t. Inl OtherValue) (str ''   '') = Some \<lparr>findings = [], parseError = None\<rparr>
   \<and> analyze_part_001 (\<lambda>t. Inl OtherValue) (str ''   '')
       = Some \<lparr>findings = [], parseError = None\<rparr>"
  using analyze_blank_input [of "[]" "\<lambda>t. Inl OtherValue"]
    analyze_blank_input [of "str ''   ''" "\<lambda>t. Inl OtherValue"]
  by (simp add: str_def is_space_def)

text \<open>
  Claim C1. For every input text the findings returned by \<open>analyze\<close> hold no two entries
  with the same \<open>ruleId\<close>. Of the findings pushed, \<open>runRules\<close> keeps exactly those with no
  finding of the same \<open>ruleId\<close> pushed before them, in the order in which they were
  pushed; and the order of pushing is: for every tree in turn the findings of the star
  expansion, of the unbounded sort, of the cross join, of the deep nesting and of the
  missing join condition, then the findings of the rules on the text. So the findings
  kept are those kept of the trees followed by those kept of the text, and the
  identifiers of the latter stand in the order in which the blocks are declared. This
  holds for both copies of \<^verbatim>\<open>rules.ts\<close>; and the findings of \<open>analyze\<close> are those of
  \<open>runRules\<close> on the trimmed text.
\<close>

theorem findings_deduplicated:
  "(\<exists>tree_findings.
      tree_findings
        = concat (map (\<lambda>node. checkSelectStar node sql @ checkOrderByWithoutLimit node sql
                               @ checkCrossJoin node sql @ checkNestedSubqueries node sql 0
                               @ checkJoinWithoutCondition node sql)
                    (case ast of None \<Rightarrow> [] | Some (Tree a) \<Rightarrow> [a] | Some (Trees as) \<Rightarrow> as))
      \<and> (\<exists>kept structural textual pushed.
            runRules ast sql = Some kept \<and> regexRules sql = Some pushed
            \<and> first_per_rule kept (tree_findings @ pushed)
            \<and> distinct (map ruleId kept)
            \<and> kept = structural @ textual
            \<and> first_per_rule structural tree_findings
            \<and> first_per_rule textual pushed
            \<and> subseq (map ruleId textual) (ids_1_27 @ ids_28_40))
      \<and> (\<exists>kept structural textual pushed.
            runRules_part_002 ast sql = Some kept \<and> regexRules_part_002 sql = Some pushed
            \<and> first_per_rule kept (tree_findings @ pushed)
            \<and> distinct (map ruleId kept)
            \<and> kept = structural @ textual
            \<and> first_per_rule structural tree_findings
            \<and> first_per_rule textual pushed
            \<and> subseq (map ruleId textual) ids_1_27))
   \<and> (\<exists>r. analyze astify sql = Some r \<and> distinct (map ruleId (findings r))
         \<and> (trim sql = [] \<or> (\<exists>tree. runRules tree (trim sql) = Some (findings r))))
   \<and> (\<exists>r. analyze_part_001 astify sql = Some r \<and> distinct (map ruleId (findings r))
         \<and> (trim sql = [] \<or> (\<exists>tree. runRules tree (trim sql) = Some (findings r))))"
proof (intro conjI)
  let ?tf = "concat (map (\<lambda>node. checkSelectStar node sql @ checkOrderByWithoutLimit node sql
                               @ checkCrossJoin node sql @ checkNestedSubqueries node sql 0
                               @ checkJoinWithoutCondition node sql)
                    (case ast of None \<Rightarrow> [] | Some (Tree a) \<Rightarrow> [a] | Some (Trees as) \<Rightarrow> as))"
  have em: "emitted ast sql pushed = ?tf @ pushed" for pushed
    by (simp add: emitted_def astRules_def asts_of_def)
  have tf: "ruleId ` set ?tf \<subseteq> set ids_ast"
    using astRules_ids by (fastforce simp: astRules_def)
  have split: "dedup {} (?tf @ pushed) = dedup {} ?tf @ dedup {} pushed"
    if "ruleId ` set pushed \<subseteq> set (ids_1_27 @ ids_28_40)" for pushed
  proof -
    from that tf ids_ast_text have "\<forall>f \<in> set pushed. ruleId f \<notin> ruleId ` set ?tf"
      by blast
    then have "dedup ({} \<union> ruleId ` set ?tf) pushed = dedup {} pushed"
      by (intro dedup_cong) simp
    then show ?thesis by (simp only: dedup_append)
  qed
  have new: "\<exists>kept structural textual pushed.
            runRules ast sql = Some kept \<and> regexRules sql = Some pushed
            \<and> first_per_rule kept (?tf @ pushed)
            \<and> distinct (map ruleId kept)
            \<and> kept = structural @ textual
            \<and> first_per_rule structural ?tf
            \<and> first_per_rule textual pushed
            \<and> subseq (map ruleId textual) (ids_1_27 @ ids_28_40)"
  proof -
    obtain pushed where p: "regexRules sql = Some pushed"
      "\<And>seen. subseq (map ruleId (dedup seen pushed)) (ids_1_27 @ ids_28_40)"
      using regexRules_order by blast
    from p(1) regexRules_returns [of sql]
    have "ruleId ` set pushed \<subseteq> set (ids_1_27 @ ids_28_40)" by auto
    then have s: "dedup {} (?tf @ pushed) = dedup {} ?tf @ dedup {} pushed"
      by (rule split)
    have k: "runRules ast sql = Some (dedup {} (?tf @ pushed))"
      using runRules_eq [OF p(1), of ast] by (simp only: em)
    have "first_per_rule (dedup {} (?tf @ pushed)) (?tf @ pushed)"
      "distinct (map ruleId (dedup {} (?tf @ pushed)))"
      "first_per_rule (dedup {} ?tf) ?tf" "first_per_rule (dedup {} pushed) pushed"
      by (rule dedup_first_per_rule dedup_distinct)+
    with k s p show ?thesis by blast
  qed
  have old: "\<exists>kept structural textual pushed.
            runRules_part_002 ast sql = Some kept \<and> regexRules_part_002 sql = Some pushed
            \<and> first_per_rule kept (?tf @ pushed)
            \<and> distinct (map ruleId kept)
            \<and> kept = structural @ textual
            \<and> first_per_rule structural ?tf
            \<and> first_per_rule textual pushed
            \<and> subseq (map ruleId textual) ids_1_27"
  proof -
    obtain pushed where p: "regexRules_part_002 sql = Some pushed"
      "\<And>seen. subseq (map ruleId (dedup seen pushed)) ids_1_27"
      using regexRules_part_002_order by blast
    from p(1) regexRules_part_002_returns [of sql]
    have "ruleId ` set pushed \<subseteq> set (ids_1_27 @ ids_28_40)" by auto
    then have s: "dedup {} (?tf @ pushed) = dedup {} ?tf @ dedup {} pushed"
      by (rule split)
    have k: "runRules_part_002 ast sql = Some (dedup {} (?tf @ pushed))"
      using runRules_part_002_eq [OF p(1), of ast] by (simp only: em)
    have "first_per_rule (dedup {} (?tf @ pushed)) (?tf @ pushed)"
      "distinct (map ruleId (dedup {} (?tf @ pushed)))"
      "first_per_rule (dedup {} ?tf) ?tf" "first_per_rule (dedup {} pushed) pushed"
      by (rule dedup_first_per_rule dedup_distinct)+
    with k s p show ?thesis by blast
  qed
  from new old show "\<exists>tree_findings.
      tree_findings = ?tf
      \<and> (\<exists>kept structural textual pushed.
            runRules ast sql = Some kept \<and> regexRules sql = Some pushed
            \<and> first_per_rule kept (tree_findings @ pushed)
            \<and> distinct (map ruleId kept)
            \<and> kept = structural @ textual
            \<and> first_per_rule structural tree_findings
            \<and> first_per_rule textual pushed
            \<and> subseq (map ruleId textual) (ids_1_27 @ ids_28_40))
      \<and> (\<exists>kept structural textual pushed.
            runRules_part_002 ast sql = Some kept \<and> regexRules_part_002 sql = Some pushed
            \<and> first_per_rule kept (tree_findings @ pushed)
            \<and> distinct (map ruleId kept)
            \<and> kept = structural @ textual
            \<and> first_per_rule structural tree_findings
            \<and> first_per_rule textual pushed
            \<and> subseq (map ruleId textual) ids_1_27)"
    by blast
next
  show "\<exists>r. analyze astify sql = Some r \<and> distinct (map ruleId (findings r))
         \<and> (trim sql = [] \<or> (\<exists>tree. runRules tree (trim sql) = Some (findings r)))"
  proof (cases sql rule: analyze_cases)
    case 1
    then show ?thesis by (simp add: analyze_empty)
  next
    case (2 sanitized pushed)
    from analyze_eq [OF 2, of astify] runRules_eq [OF 2(3)] show ?thesis
      by (auto simp: dedup_distinct)
  qed
next
  show "\<exists>r. analyze_part_001 astify sql = Some r \<and> distinct (map ruleId (findings r))
         \<and> (trim sql = [] \<or> (\<exists>tree. runRules tree (trim sql) = Some (findings r)))"
  proof (cases sql rule: analyze_cases)
    case 1
    then show ?thesis by (simp add: analyze_empty)
  next
    case (2 sanitized pushed)
    from analyze_part_001_eq [OF 2, of astify] runRules_eq [OF 2(3)] show ?thesis
      by (auto simp: dedup_distinct)
  qed
qed

text \<open>
  Claim C2. For every input text and every behaviour of the parser, \<open>analyze\<close> returns a
  result. Its \<open>parseError\<close> is set exactly when the text is not blank and every parse
  attempt throws (the trimmed text and then the preprocessed text in \<^verbatim>\<open>part_003\<close>, the
  preprocessed text in \<^verbatim>\<open>part_001\<close>); it is then the message of the last error thrown,
  or \<open>Failed to parse SQL\<close> when what was thrown is not an \<open>Error\<close>; and the findings are
  then those of \<open>runRules\<close> without a tree on the trimmed text, so the rules on the text
  have run.
\<close>

theorem analyze_never_raises:
  "(\<exists>r. analyze astify sql = Some r
      \<and> (parseError r \<noteq> None \<longleftrightarrow>
           trim sql \<noteq> []
           \<and> (\<exists>e0 sanitized e. astify (trim sql) = Inl e0
                 \<and> preprocessForParser (trim sql) = Some sanitized
                 \<and> astify sanitized = Inl e))
      \<and> (\<forall>e0 sanitized e.
            trim sql \<noteq> [] \<and> astify (trim sql) = Inl e0
            \<and> preprocessForParser (trim sql) = Some sanitized \<and> astify sanitized = Inl e
            \<longrightarrow> parseError r
                  = Some (case e of ErrorObject m \<Rightarrow> m
                          | OtherValue \<Rightarrow> str ''Failed to parse SQL'')
                \<and> runRules None (trim sql) = Some (findings r)))
   \<and> (\<exists>r. analyze_part_001 astify sql = Some r
      \<and> (parseError r \<noteq> None \<longleftrightarrow>
           trim sql \<noteq> []
           \<and> (\<exists>sanitized e. preprocessForParser (trim sql) = Some sanitized
                 \<and> astify sanitized = Inl e))
      \<and> (\<forall>sanitized e.
            trim sql \<noteq> [] \<and> preprocessForParser (trim sql) = Some sanitized
            \<and> astify sanitized = Inl e
            \<longrightarrow> parseError r
                  = Some (case e of ErrorObject m \<Rightarrow> m
                          | OtherValue \<Rightarrow> str ''Failed to parse SQL'')
                \<and> runRules None (trim sql) = Some (findings r)))"
proof (cases sql rule: analyze_cases)
  case 1
  then show ?thesis by (simp add: analyze_empty)
next
  case (2 sanitized pushed)
  note a = analyze_eq [OF 2, of astify] and b = analyze_part_001_eq [OF 2, of astify]
  show ?thesis
  proof (intro conjI)
    show "\<exists>r. analyze astify sql = Some r
      \<and> (parseError r \<noteq> None \<longleftrightarrow>
           trim sql \<noteq> []
           \<and> (\<exists>e0 sanitized e. astify (trim sql) = Inl e0
                 \<and> preprocessForParser (trim sql) = Some sanitized
                 \<and> astify sanitized = Inl e))
      \<and> (\<forall>e0 sanitized e.
            trim sql \<noteq> [] \<and> astify (trim sql) = Inl e0
            \<and> preprocessForParser (trim sql) = Some sanitized \<and> astify sanitized = Inl e
            \<longrightarrow> parseError r
                  = Some (case e of ErrorObject m \<Rightarrow> m
                          | OtherValue \<Rightarrow> str ''Failed to parse SQL'')
                \<and> runRules None (trim sql) = Some (findings r))"
      using a 2 runRules_eq [OF 2(3), of None]
      by (auto simp: parse_def error_message_def split: sum.splits)
    show "\<exists>r. analyze_part_001 astify sql = Some r
      \<and> (parseError r \<noteq> None \<longleftrightarrow>
           trim sql \<noteq> []
           \<and> (\<exists>sanitized e. preprocessForParser (trim sql) = Some sanitized
                 \<and> astify sanitized = Inl e))
      \<and> (\<forall>sanitized e.
            trim sql \<noteq> [] \<and> preprocessForParser (trim sql) = Some sanitized
            \<and> astify sanitized = Inl e
            \<longrightarrow> parseError r
                  = Some (case e of ErrorObject m \<Rightarrow> m
                          | OtherValue \<Rightarrow> str ''Failed to parse SQL'')
                \<and> runRules None (trim sql) = Some (findings r))"
      using b 2 runRules_eq [OF 2(3), of None]
      by (auto simp: parse_part_001_def error_message_def split: sum.splits)
  qed
qed

text \<open>
  Claim C9. \<open>preprocessForParser\<close> returns a text for every input text, also when the
  parentheses of a call it matches never close; and \<open>analyze\<close> runs the rules on the
  trimmed input text, not on the preprocessed one.
\<close>

theorem normalizer_total:
  "(\<exists>t. preprocessForParser sql = Some t)
   \<and> (\<exists>r. analyze astify sql = Some r
         \<and> (trim sql = [] \<or> (\<exists>tree. runRules tree (trim sql) = Some (findings r))))
   \<and> (\<exists>r. analyze_part_001 astify sql = Some r
         \<and> (trim sql = [] \<or> (\<exists>tree. runRules tree (trim sql) = Some (findings r))))"
proof (intro conjI)
  show "\<exists>t. preprocessForParser sql = Some t" by (rule preprocessForParser_returns)
next
  show "\<exists>r. analyze astify sql = Some r
         \<and> (trim sql = [] \<or> (\<exists>tree. runRules tree (trim sql) = Some (findings r)))"
  proof (cases sql rule: analyze_cases)
    case 1
    then show ?thesis by (simp add: analyze_empty)
  next
    case (2 sanitized pushed)
    from analyze_eq [OF 2, of astify] runRules_eq [OF 2(3)] show ?thesis by auto
  qed
next
  show "\<exists>r. analyze_part_001 astify sql = Some r
         \<and> (trim sql = [] \<or> (\<exists>tree. runRules tree (trim sql) = Some (findings r)))"
  proof (cases sql rule: analyze_cases)
    case 1
    then show ?thesis by (simp add: analyze_empty)
  next
    case (2 sanitized pushed)
    from analyze_part_001_eq [OF 2, of astify] runRules_eq [OF 2(3)] show ?thesis by auto
  qed
qed

lemma filter_singletonD: "filter P xs = [f] \<Longrightarrow> f \<in> set xs \<and> P f"
proof -
  assume "filter P xs = [f]"
  then have "f \<in> set (filter P xs)" by simp
  then show ?thesis by simp
qed

lemmas loop_eval = countMatches_def findAll_def findAll_loop.simps exec_rec rx_eval

text \<open>
  Claim C8. When \<^verbatim>\<open>/\blist\s*\(/gi\<close> matches exactly twice in the trimmed text, the result
  of \<open>analyze\<close> has exactly one finding \<open>non-spillable-list\<close>, and its message and its
  title embed the count 2.
\<close>

theorem non_spillable_list_twice:
  assumes "countMatches (trim sql) re_list = Some 2"
  shows "\<exists>r f. analyze astify sql = Some r
           \<and> filter (\<lambda>f. ruleId f = str ''non-spillable-list'') (findings r) = [f]
           \<and> severity f = Error
           \<and> message f = non_spillable_list_message 2
           \<and> includes_str (message f) (num_str 2)
           \<and> includes_str (title f) (num_str 2)"
proof -
  from assms obtain ms where ms: "findAll (trim sql) re_list = Some ms" "length ms = 2"
    by (auto simp: countMatches_def)
  have ne: "trim sql \<noteq> []"
  proof
    assume "trim sql = []"
    with assms countMatches_Nil [OF minlen_pos(1)] show False by simp
  qed
  let ?f = "located (finding (str ''non-spillable-list'') Error (non_spillable_list_title 2)
                       (non_spillable_list_message 2) non_spillable_list_suggestion Memory
                       (Some (ms ! 0)))
                    (locate (trim sql) (ms ! 0))"
  from ms have "ms \<noteq> []" by auto
  with ms have mid: "rule_non_spillable_list (trim sql) = Some [?f]"
    by (simp add: rule_non_spillable_list_def Let_def)
  from analyze_rule(1) [OF ne other_blocks_non_spillable_list mid, of astify]
  obtain r where r: "analyze astify sql = Some r"
    "filter (\<lambda>f. ruleId f = str ''non-spillable-list'') (findings r) = [?f]"
    by auto
  have "includes_str (message ?f) (num_str 2)"
    by (simp add: non_spillable_list_message_def includes_later includes_here)
  moreover have "includes_str (title ?f) (num_str 2)"
    by (simp add: located_def finding_def non_spillable_list_title_def includes_later
          includes_here split: option.splits)
  ultimately show ?thesis using r by auto
qed

theorem non_spillable_list_twice_witness:
  "\<exists>r f. analyze (\<lambda>t. Inl OtherValue) (str ''  list(a), LIST (b)  '') = Some r
         \<and> filter (\<lambda>f. ruleId f = str ''non-spillable-list'') (findings r) = [f]
         \<and> includes_str (message f) (str ''2'')"
proof -
  have t: "trim (str ''  list(a), LIST (b)  '') = str ''list(a), LIST (b)''"
    by (simp add: trim_def str_def is_space_def)
  have "countMatches (trim (str ''  list(a), LIST (b)  '')) re_list = Some 2"
    unfolding t by (simp add: loop_eval re_list_def)
  moreover have "num_str 2 = str ''2''"
    by (simp add: num_str.simps str_def)
  ultimately show ?thesis
    using non_spillable_list_twice [of "str ''  list(a), LIST (b)  ''" "\<lambda>t. Inl OtherValue"]
    by auto
qed

text \<open>
  Claim C4. Let \<open>n\<close> be the number of matches of \<^verbatim>\<open>/\bORDER\s+BY\b/gi\<close>, of
  \<^verbatim>\<open>/\bOVER\s*\(/gi\<close> and of \<^verbatim>\<open>/\bGROUP\s+BY\b/gi\<close> in the trimmed text together. If
  \<open>8 \<le> n\<close> the result of \<open>analyze\<close> has exactly one finding \<open>many-blocking-operators\<close>, of
  severity \<open>error\<close>; if \<open>5 \<le> n < 8\<close> exactly one, of severity \<open>warning\<close>; if \<open>n \<le> 4\<close> none;
  and the message of the finding embeds the three counts.
\<close>

theorem many_blocking_operators_thresholds:
  assumes "countMatches (trim sql) re_order_by = Some orderByCount"
    and "countMatches (trim sql) re_over = Some windowFuncCount"
    and "countMatches (trim sql) re_group_by = Some groupByCount"
  shows "\<exists>r. analyze astify sql = Some r
           \<and> (8 \<le> orderByCount + windowFuncCount + groupByCount \<longrightarrow>
                (\<exists>f. filter (\<lambda>f. ruleId f = str ''many-blocking-operators'') (findings r) = [f]
                   \<and> severity f = Error
                   \<and> message f = many_blocking_operators_error_message orderByCount
                                   windowFuncCount groupByCount
                   \<and> includes_str (message f) (num_str orderByCount)
                   \<and> includes_str (message f) (num_str windowFuncCount)
                   \<and> includes_str (message f) (num_str groupByCount)))
           \<and> (5 \<le> orderByCount + windowFuncCount + groupByCount
                \<and> orderByCount + windowFuncCount + groupByCount < 8 \<longrightarrow>
                (\<exists>f. filter (\<lambda>f. ruleId f = str ''many-blocking-operators'') (findings r) = [f]
                   \<and> severity f = Warning
                   \<and> message f = many_blocking_operators_warning_message orderByCount
                                   windowFuncCount groupByCount
                   \<and> includes_str (message f) (num_str orderByCount)
                   \<and> includes_str (message f) (num_str windowFuncCount)
                   \<and> includes_str (message f) (num_str groupByCount)))
           \<and> (orderByCount + windowFuncCount + groupByCount \<le> 4 \<longrightarrow>
                filter (\<lambda>f. ruleId f = str ''many-blocking-operators'') (findings r) = [])"
proof (cases "trim sql = []")
  case True
  with assms countMatches_Nil [OF minlen_pos(4)] countMatches_Nil [OF minlen_pos(5)]
    countMatches_Nil [OF minlen_pos(6)]
  have "orderByCount = 0" "windowFuncCount = 0" "groupByCount = 0" by simp_all
  with True show ?thesis by (simp add: analyze_empty)
next
  case False
  let ?n = "orderByCount + windowFuncCount + groupByCount"
  let ?e = "finding (str ''many-blocking-operators'') Error
              (many_blocking_operators_error_title ?n)
              (many_blocking_operators_error_message orderByCount windowFuncCount groupByCount)
              many_blocking_operators_error_suggestion Memory None"
  let ?w = "finding (str ''many-blocking-operators'') Warning
              (many_blocking_operators_warning_title ?n)
              (many_blocking_operators_warning_message orderByCount windowFuncCount
                 groupByCount)
              many_blocking_operators_warning_suggestion Memory None"
  let ?mid = "if 8 \<le> ?n then [?e] else if 5 \<le> ?n then [?w] else []"
  from assms have mid: "rule_many_blocking_operators (trim sql) = Some ?mid"
    by (simp add: rule_many_blocking_operators_def)
  from analyze_rule(1) [OF False other_blocks_many_blocking_operators mid, of astify]
  obtain r where r: "analyze astify sql = Some r"
    "filter (\<lambda>f. ruleId f = str ''many-blocking-operators'') (findings r)
       = take 1 (filter (\<lambda>f. ruleId f = str ''many-blocking-operators'') ?mid)"
    by auto
  have e: "includes_str (message ?e) (num_str orderByCount)"
    "includes_str (message ?e) (num_str windowFuncCount)"
    "includes_str (message ?e) (num_str groupByCount)"
    by (simp_all add: many_blocking_operators_error_message_def includes_later includes_here)
  have w: "includes_str (message ?w) (num_str orderByCount)"
    "includes_str (message ?w) (num_str windowFuncCount)"
    "includes_str (message ?w) (num_str groupByCount)"
    by (simp_all add: many_blocking_operators_warning_message_def includes_later includes_here)
  from r e w show ?thesis by auto
qed

theorem many_blocking_operators_thresholds_witness:
  "(\<exists>r f. analyze (\<lambda>t. Inl OtherValue) (str ''OVER(OVER(OVER(OVER(OVER(OVER(OVER(OVER('')
            = Some r
      \<and> filter (\<lambda>f. ruleId f = str ''many-blocking-operators'') (findings r) = [f]
      \<and> severity f = Error \<and> includes_str (message f) (str ''8''))
   \<and> (\<exists>r f. analyze (\<lambda>t. Inl OtherValue) (str ''OVER(OVER(OVER(OVER(OVER('') = Some r
      \<and> filter (\<lambda>f. ruleId f = str ''many-blocking-operators'') (findings r) = [f]
      \<and> severity f = Warning \<and> includes_str (message f) (str ''5''))
   \<and> (\<exists>r. analyze (\<lambda>t. Inl OtherValue) (str ''OVER(OVER(OVER(OVER('') = Some r
      \<and> filter (\<lambda>f. ruleId f = str ''many-blocking-operators'') (findings r) = [])"
proof (intro conjI)
  let ?s = "str ''OVER(OVER(OVER(OVER(OVER(OVER(OVER(OVER(''"
  have t: "trim ?s = ?s" by (simp add: trim_def str_def is_space_def)
  have c: "countMatches (trim ?s) re_order_by = Some 0" "countMatches (trim ?s) re_over = Some 8"
    "countMatches (trim ?s) re_group_by = Some 0"
    unfolding t by (simp_all add: loop_eval re_order_by_def re_over_def re_group_by_def)
  have n: "num_str 8 = str ''8''" by (simp add: num_str.simps str_def)
  from many_blocking_operators_thresholds [OF c, of "\<lambda>t. Inl OtherValue"] n
  show "\<exists>r f. analyze (\<lambda>t. Inl OtherValue) ?s = Some r
      \<and> filter (\<lambda>f. ruleId f = str ''many-blocking-operators'') (findings r) = [f]
      \<and> severity f = Error \<and> includes_str (message f) (str ''8'')"
    by auto
next
  let ?s = "str ''OVER(OVER(OVER(OVER(OVER(''"
  have t: "trim ?s = ?s" by (simp add: trim_def str_def is_space_def)
  have c: "countMatches (trim ?s) re_order_by = Some 0" "countMatches (trim ?s) re_over = Some 5"
    "countMatches (trim ?s) re_group_by = Some 0"
    unfolding t by (simp_all add: loop_eval re_order_by_def re_over_def re_group_by_def)
  have n: "num_str 5 = str ''5''" by (simp add: num_str.simps str_def)
  from many_blocking_operators_thresholds [OF c, of "\<lambda>t. Inl OtherValue"] n
  show "\<exists>r f. analyze (\<lambda>t. Inl OtherValue) ?s = Some r
      \<and> filter (\<lambda>f. ruleId f = str ''many-blocking-operators'') (findings r) = [f]
      \<and> severity f = Warning \<and> includes_str (message f) (str ''5'')"
    by auto
next
  let ?s = "str ''OVER(OVER(OVER(OVER(''"
  have t: "trim ?s = ?s" by (simp add: trim_def str_def is_space_def)
  have c: "countMatches (trim ?s) re_order_by = Some 0" "countMatches (trim ?s) re_over = Some 4"
    "countMatches (trim ?s) re_group_by = Some 0"
    unfolding t by (simp_all add: loop_eval re_order_by_def re_over_def re_group_by_def)
  from many_blocking_operators_thresholds [OF c, of "\<lambda>t. Inl OtherValue"]
  show "\<exists>r. analyze (\<lambda>t. Inl OtherValue) ?s = Some r
      \<and> filter (\<lambda>f. ruleId f = str ''many-blocking-operators'') (findings r) = []"
    by auto
qed

lemmas norm_eval = replace_all_def spans.simps replaceBalancedCall_def
  replaceBalancedCall_loop.simps scan_parens.simps exec_rec rx_eval re_call_def re_type_cast_def
  re_pivot_clause_def re_unpivot_clause_def re_table_ref_def re_agg_call_def

lemma drop_ConsD:
  assumes "drop i s = c # xs"
  shows "i < length s" "s ! i = c" "drop (Suc i) s = xs"
proof -
  from assms show lt: "i < length s" by (metis drop_eq_Nil2 linorder_not_less list.distinct(1))
  from Cons_nth_drop_Suc [OF lt] assms show "s ! i = c" "drop (Suc i) s = xs" by simp_all
qed

lemma scan_parens_step:
  assumes "drop i s = c # xs"
  shows "scan_parens s i (Suc k)
           = scan_parens s (Suc i) (if c = 40 then Suc (Suc k) else if c = 41 then k else Suc k)"
  using drop_ConsD(1,2) [OF assms] by (subst scan_parens.simps) simp

lemma scan_parens_nesting:
  "nesting args k = Some m \<Longrightarrow> drop i s = args @ tail \<Longrightarrow>
     scan_parens s i (Suc k) = scan_parens s (i + length args) (Suc m)"
proof (induction args arbitrary: i k)
  case Nil
  then show ?case by simp
next
  case (Cons c cs)
  from Cons.prems(2) have d: "drop i s = c # (cs @ tail)" by simp
  note step = scan_parens_step [OF d, of k]
  from drop_ConsD(3) [OF d] have d': "drop (Suc i) s = cs @ tail" .
  show ?case
  proof (cases "c = 40")
    case True
    with Cons.prems(1) have "nesting cs (Suc k) = Some m" by simp
    from Cons.IH [OF this d'] step True show ?thesis by simp
  next
    case False
    show ?thesis
    proof (cases "c = 41")
      case True
      with Cons.prems(1) obtain k' where k: "k = Suc k'" "nesting cs k' = Some m"
        by (cases k) (auto split: if_splits)
      from Cons.IH [OF k(2) d'] step True k(1) show ?thesis by simp
    next
      case c: False
      with False Cons.prems(1) have "nesting cs k = Some m" by simp
      from Cons.IH [OF this d'] step False c show ?thesis by simp
    qed
  qed
qed

lemma scan_parens_balanced:
  assumes "balanced args" "drop e s = args @ 41 # rest"
  shows "scan_parens s e 1 = (Suc (e + length args), 0)"
    and "drop (Suc (e + length args)) s = rest"
proof -
  from assms(1) have "nesting args 0 = Some 0" by (simp add: balanced_def)
  from scan_parens_nesting [OF this assms(2)]
  have 1: "scan_parens s e 1 = scan_parens s (e + length args) 1" by simp
  have "drop (length args) (drop e s) = 41 # rest" by (simp add: assms(2))
  then have d: "drop (e + length args) s = 41 # rest" by (simp add: add.commute)
  from scan_parens_step [OF d, of 0]
  have 2: "scan_parens s (e + length args) 1 = scan_parens s (Suc (e + length args)) 0"
    by simp
  have 3: "scan_parens s (Suc (e + length args)) 0 = (Suc (e + length args), 0)"
    by (subst scan_parens.simps) simp
  from 1 2 3 show "scan_parens s e 1 = (Suc (e + length args), 0)" by simp
  from drop_ConsD(3) [OF d] show "drop (Suc (e + length args)) s = rest" .
qed

text \<open>
  Claim C7. When the pattern of \<open>replaceBalancedCall\<close> finds a call whose arguments have
  matching parentheses, whatever calls are nested in them, the whole call up to its own
  closing parenthesis is replaced as one unit; when no further call follows, the result
  is the text before the call, the replacement and the text behind the call.
\<close>

theorem balanced_call_replaced_whole:
  assumes "exec (re_call funcName) s 0 = Some (a, e, c)"
    and "drop e s = args @ 41 # rest"
    and "balanced args"
    and "exec (re_call funcName) (take a s @ replacement @ rest) (a + length replacement) = None"
  shows "replaceBalancedCall s funcName replacement = Some (take a s @ replacement @ rest)"
proof -
  note sc = scan_parens_balanced [OF assms(3,2)]
  have "replaceBalancedCall_loop (re_call funcName) replacement s 0
          = replaceBalancedCall_loop (re_call funcName) replacement
              (take a s @ replacement @ rest) (a + length replacement)"
    by (subst replaceBalancedCall_loop.simps) (simp add: assms(1) sc [unfolded One_nat_def])
  also have "\<dots> = Some (take a s @ replacement @ rest)"
    by (subst replaceBalancedCall_loop.simps) (simp add: assms(4))
  finally show ?thesis by (simp add: replaceBalancedCall_def)
qed

theorem balanced_call_replaced_whole_witness:
  "replaceBalancedCall
     (str ''SELECT list_transform(json_extract_string(x, '' @ [39] @ str ''$.a'' @ [39]
        @ str ''), t -> UPPER(t)) FROM t'')
     ''list_transform'' (str ''NULL'')
   = Some (str ''SELECT NULL FROM t'')
   \<and> preprocessForParser
       (str ''SELECT list_transform(json_extract_string(x, '' @ [39] @ str ''$.a'' @ [39]
          @ str ''), t -> UPPER(t)) FROM t'')
     = Some (str ''SELECT NULL FROM t'')"
proof -
  let ?s = "str ''SELECT list_transform(json_extract_string(x, '' @ [39] @ str ''$.a'' @ [39]
              @ str ''), t -> UPPER(t)) FROM t''"
  let ?args = "str ''json_extract_string(x, '' @ [39] @ str ''$.a'' @ [39]
                 @ str ''), t -> UPPER(t)''"
  have found: "exec (re_call ''list_transform'') ?s 0 = Some (7, 22, None)"
    by (simp add: exec_rec rx_eval re_call_def)
  have args: "drop 22 ?s = ?args @ 41 # str '' FROM t''"
    by (simp add: str_def)
  have bal: "balanced ?args"
    by (simp add: balanced_def str_def)
  have pre: "take 7 ?s = str ''SELECT ''"
    by (simp add: str_def)
  have last: "exec (re_call ''list_transform'')
                (take 7 ?s @ str ''NULL'' @ str '' FROM t'') (7 + length (str ''NULL'')) = None"
    unfolding pre by (simp add: exec_rec rx_eval re_call_def)
  have "replaceBalancedCall ?s ''list_transform'' (str ''NULL'')
          = Some (take 7 ?s @ str ''NULL'' @ str '' FROM t'')"
    by (rule balanced_call_replaced_whole [OF found args bal last])
  also have "take 7 ?s @ str ''NULL'' @ str '' FROM t'' = str ''SELECT NULL FROM t''"
    unfolding pre by (simp add: str_def)
  finally have s1: "replaceBalancedCall ?s ''list_transform'' (str ''NULL'')
                      = Some (str ''SELECT NULL FROM t'')" .
  let ?t = "str ''SELECT NULL FROM t''"
  have s0: "replace_all ?s re_type_cast (\<lambda>g. []) = ?s"
    by (simp add: norm_eval)
  have s2: "replaceBalancedCall ?t ''json_extract_string'' (str ''NULL'') = Some ?t"
    by (simp add: norm_eval)
  have s3: "replaceBalancedCall ?t ''json_each'' (str ''(SELECT 1)'') = Some ?t"
    by (simp add: norm_eval)
  have s4: "replaceBalancedCall ?t ''LIST'' (str ''ARRAY_AGG(1)'') = Some ?t"
    by (simp add: norm_eval)
  have s5: "replaceBalancedCall ?t ''struct_pack'' (str ''ROW(1)'') = Some ?t"
    by (simp add: norm_eval)
  have s6: "replace_all ?t re_pivot_clause (\<lambda>g. str ''SELECT * FROM '' @ g) = ?t"
    by (simp add: norm_eval)
  have s7: "replace_all ?t re_unpivot_clause (\<lambda>g. str ''SELECT * FROM '' @ g) = ?t"
    by (simp add: norm_eval)
  have "preprocessForParser ?s = Some ?t"
    by (simp only: preprocessForParser_def Let_def s0 s1 s2 s3 s4 s5 s6 s7
          Option.bind.bind_lunit)
  with s1 show ?thesis by simp
qed

theorem normalizer_total_witness:
  "preprocessForParser (str ''SELECT LIST(a, f(b) FROM t'')
     = Some (str ''SELECT LIST(a, f(b) FROM t'')
   \<and> (\<exists>r. analyze (\<lambda>t. Inl OtherValue) (str ''SELECT LIST(a, f(b) FROM t'') = Some r)"
proof -
  let ?s = "str ''SELECT LIST(a, f(b) FROM t''"
  have s0: "replace_all ?s re_type_cast (\<lambda>g. []) = ?s"
    by (simp add: norm_eval)
  have s1: "replaceBalancedCall ?s ''list_transform'' (str ''NULL'') = Some ?s"
    by (simp add: norm_eval)
  have s2: "replaceBalancedCall ?s ''json_extract_string'' (str ''NULL'') = Some ?s"
    by (simp add: norm_eval)
  have s3: "replaceBalancedCall ?s ''json_each'' (str ''(SELECT 1)'') = Some ?s"
    by (simp add: norm_eval)
  have s4: "replaceBalancedCall ?s ''LIST'' (str ''ARRAY_AGG(1)'') = Some ?s"
    by (simp add: norm_eval)
  have s5: "replaceBalancedCall ?s ''struct_pack'' (str ''ROW(1)'') = Some ?s"
    by (simp add: norm_eval)
  have s6: "replace_all ?s re_pivot_clause (\<lambda>g. str ''SELECT * FROM '' @ g) = ?s"
    by (simp add: norm_eval)
  have s7: "replace_all ?s re_unpivot_clause (\<lambda>g. str ''SELECT * FROM '' @ g) = ?s"
    by (simp add: norm_eval)
  have "preprocessForParser ?s = Some ?s"
    by (simp only: preprocessForParser_def Let_def s0 s1 s2 s3 s4 s5 s6 s7
          Option.bind.bind_lunit)
  with normalizer_total [where sql = ?s and astify = "\<lambda>t. Inl OtherValue"]
  show ?thesis by blast
qed

theorem analyze_never_raises_witness:
  "(\<exists>r f. analyze (\<lambda>t. Inl (ErrorObject (str ''bad syntax''))) (str ''list(a'') = Some r
      \<and> parseError r = Some (str ''bad syntax'')
      \<and> f \<in> set (findings r) \<and> ruleId f = str ''non-spillable-list'')
   \<and> (\<exists>r. analyze_part_001 (\<lambda>t. Inl OtherValue) (str ''list(a'') = Some r
      \<and> parseError r = Some (str ''Failed to parse SQL''))"
proof -
  let ?s = "str ''list(a''"
  have t: "trim ?s = ?s" by (simp add: trim_def str_def is_space_def)
  then have ne: "trim ?s \<noteq> []" by (simp add: str_def)
  obtain sanitized where san: "preprocessForParser (trim ?s) = Some sanitized"
    using preprocessForParser_returns by blast
  have "findAll (trim ?s) re_list = Some [str ''list(''] "
    unfolding t by (simp add: loop_eval re_list_def)
  then obtain f where mid: "rule_non_spillable_list (trim ?s) = Some [f]"
    and f: "ruleId f = str ''non-spillable-list''"
    by (simp add: rule_non_spillable_list_def Let_def)
  let ?a = "\<lambda>t :: jstring. Inl (ErrorObject (str ''bad syntax'')) :: thrown + parse_tree"
  from analyze_rule(1) [OF ne other_blocks_non_spillable_list mid, of ?a] f
  obtain r' where r': "analyze ?a ?s = Some r'"
    "filter (\<lambda>f. ruleId f = str ''non-spillable-list'') (findings r') = [f]"
    by auto
  from analyze_never_raises [where astify = ?a and sql = ?s] ne san r'(1)
  have "parseError r' = Some (str ''bad syntax'')" by auto
  with r' filter_singletonD [OF r'(2)]
  have 1: "\<exists>r f. analyze ?a ?s = Some r \<and> parseError r = Some (str ''bad syntax'')
      \<and> f \<in> set (findings r) \<and> ruleId f = str ''non-spillable-list''"
    by blast
  from analyze_never_raises [where astify = "\<lambda>t. Inl OtherValue" and sql = ?s] ne san
  have 2: "\<exists>r. analyze_part_001 (\<lambda>t. Inl OtherValue) ?s = Some r
      \<and> parseError r = Some (str ''Failed to parse SQL'')"
    by auto
  from 1 2 show ?thesis by blast
qed



text \<open>The copy of the rules in \<^verbatim>\<open>part_002\<close> has no block that pushes this finding.\<close>

lemma multiple_remote_scans_absent_part_002:
  "\<exists>kept. runRules_part_002 ast sql = Some kept
     \<and> filter (\<lambda>f. ruleId f = str ''multiple-remote-scans'') kept = []"
proof -
  obtain pushed where p: "regexRules_part_002 sql = Some pushed"
    "ruleId ` set pushed \<subseteq> set ids_1_27"
    using regexRules_part_002_returns by blast
  have "str ''multiple-remote-scans'' \<notin> set ids_1_27"
    by (simp add: ids_1_27_def)
  with p(2) have "filter (\<lambda>f. ruleId f = str ''multiple-remote-scans'') pushed = []"
    by (auto simp: filter_empty_conv)
  with astRules_without [of "str ''multiple-remote-scans''" sql "asts_of ast"]
  have "filter (\<lambda>f. ruleId f = str ''multiple-remote-scans'')
          (dedup {} (emitted ast sql pushed)) = []"
    by (simp add: dedup_filter emitted_def)
  with runRules_part_002_eq [OF p(1), of ast] show ?thesis by simp
qed

lemma order_without_limit_not_text [simp]:
  "str ''order-without-limit'' \<notin> set (ids_1_27 @ ids_28_40)"
  by (simp add: ids_1_27_def ids_28_40_def)

text \<open>
  Claim C5, at a tree the rules can receive. The rule of the unbounded sort looks at
  the outermost query only: a query with \<open>ORDER BY\<close> and no \<open>LIMIT\<close> is flagged when it
  is the whole statement and not when it is the nested query of a from item, and then
  no finding \<open>order-without-limit\<close> is in the result of \<open>analyze\<close>; the rule of the
  star expansion does follow the nested query of a from item.
\<close>

theorem nested_order_by_not_flagged:
  "map ruleId (checkOrderByWithoutLimit (nested_select ColumnsOther)
                 (str ''SELECT a FROM t ORDER BY a''))
     = [str ''order-without-limit'']
   \<and> checkOrderByWithoutLimit (select_from_nested ColumnsOther)
         (str ''SELECT a FROM (SELECT a FROM t ORDER BY a) s'') = []
   \<and> (\<exists>r. analyze (\<lambda>t. Inr (Tree (select_from_nested ColumnsOther)))
              (str ''SELECT a FROM (SELECT a FROM t ORDER BY a) s'') = Some r
         \<and> filter (\<lambda>f. ruleId f = str ''order-without-limit'') (findings r) = [])
   \<and> map ruleId (checkSelectStar (select_from_nested ColumnsStar)
                    (str ''SELECT a FROM (SELECT * FROM t ORDER BY a) s''))
       = [str ''select-star'']"
proof (intro conjI)
  show "map ruleId (checkOrderByWithoutLimit (nested_select ColumnsOther)
                 (str ''SELECT a FROM t ORDER BY a'')) = [str ''order-without-limit'']"
    by (simp add: checkOrderByWithoutLimit_def nested_select_def)
  show "checkOrderByWithoutLimit (select_from_nested ColumnsOther)
         (str ''SELECT a FROM (SELECT a FROM t ORDER BY a) s'') = []"
    by (simp add: checkOrderByWithoutLimit_def select_from_nested_def)
  show "map ruleId (checkSelectStar (select_from_nested ColumnsStar)
                    (str ''SELECT a FROM (SELECT * FROM t ORDER BY a) s''))
       = [str ''select-star'']"
    by (simp add: select_from_nested_def nested_select_def)
  let ?s = "str ''SELECT a FROM (SELECT a FROM t ORDER BY a) s''"
  let ?a = "\<lambda>t :: jstring. Inr (Tree (select_from_nested ColumnsOther)) :: thrown + parse_tree"
  have t: "trim ?s = ?s" by (simp add: trim_def str_def is_space_def)
  then have ne: "trim ?s \<noteq> []" by (simp add: str_def)
  obtain sanitized where san: "preprocessForParser (trim ?s) = Some sanitized"
    using preprocessForParser_returns by blast
  obtain pushed where p: "regexRules (trim ?s) = Some pushed"
    "ruleId ` set pushed \<subseteq> set (ids_1_27 @ ids_28_40)"
    using regexRules_returns by blast
  from p(2) have "filter (\<lambda>f. ruleId f = str ''order-without-limit'') pushed = []"
    using order_without_limit_not_text by (auto simp: filter_empty_conv)
  moreover have "map ruleId (astRules (select_from_nested ColumnsOther) (trim ?s)) = []"
    by (simp add: astRules_def checkOrderByWithoutLimit_def checkCrossJoin_def
          checkJoinWithoutCondition_def select_from_nested_def nested_select_def)
  ultimately have "filter (\<lambda>f. ruleId f = str ''order-without-limit'')
      (dedup {} (emitted (Some (Tree (select_from_nested ColumnsOther))) (trim ?s) pushed)) = []"
    by (simp add: dedup_filter emitted_def asts_of_def)
  with analyze_eq [OF ne san p(1), of ?a]
  show "\<exists>r. analyze ?a ?s = Some r
         \<and> filter (\<lambda>f. ruleId f = str ''order-without-limit'') (findings r) = []"
    by (simp add: parse_def)
qed

text \<open>
  Claim C10, at a text the analysis can receive: U+0130 followed by \<^verbatim>\<open>list(\<close>. The
  offset of the finding is taken in the lower-cased text, where U+0130 has become two
  code units: it is 2 to 7 in a text of 6 code units, and the match stands at 1 to 6.
\<close>

theorem offset_behind_dotted_capital_I:
  "\<exists>r f. analyze astify ([304] @ str ''list('') = Some r
         \<and> filter (\<lambda>f. ruleId f = str ''non-spillable-list'') (findings r) = [f]
         \<and> fragment f = Some (str ''list('')
         \<and> offset f = Some \<lparr>start = 2, end_pos = 7\<rparr>
         \<and> length (trim ([304] @ str ''list('')) = 6
         \<and> slice (trim ([304] @ str ''list('')) 1 6 = str ''list(''
         \<and> slice (trim ([304] @ str ''list('')) 2 7 = str ''ist(''"
proof -
  let ?s = "[304] @ str ''list(''"
  have t: "trim ?s = ?s" by (simp add: trim_def str_def is_space_def)
  then have ne: "trim ?s \<noteq> []" by simp
  have m: "findAll (trim ?s) re_list = Some [str ''list('']"
    unfolding t by (simp add: loop_eval re_list_def)
  have l: "locate (trim ?s) (str ''list('') = Some \<lparr>start = 2, end_pos = 7\<rparr>"
    unfolding t
    by (simp add: locate_def toLowerCase_304_ascii toLowerCase_ascii is_upper_az_def str_def)
  let ?f = "located (finding (str ''non-spillable-list'') Error (non_spillable_list_title 1)
                       (non_spillable_list_message 1) non_spillable_list_suggestion Memory
                       (Some (str ''list('')))
                    (Some \<lparr>start = 2, end_pos = 7\<rparr>)"
  from m l have mid: "rule_non_spillable_list (trim ?s) = Some [?f]"
    by (simp add: rule_non_spillable_list_def Let_def)
  from analyze_rule(1) [OF ne other_blocks_non_spillable_list mid, of astify]
  obtain r where r: "analyze astify ?s = Some r"
    "filter (\<lambda>f. ruleId f = str ''non-spillable-list'') (findings r) = [?f]"
    by auto
  have "length (trim ?s) = 6" "slice (trim ?s) 1 6 = str ''list(''"
    "slice (trim ?s) 2 7 = str ''ist(''"
    unfolding t by (simp_all add: slice_def str_def)
  with r show ?thesis by simp
qed

subsection \<open>\<open>locate\<close> on a text without U+0130\<close>

lemma indexOf_SomeD:
  "indexOf hay x = Some i \<Longrightarrow> take (length x) (drop i hay) = x \<and> i + length x \<le> length hay"
proof (induction hay arbitrary: i)
  case Nil
  then show ?case by (auto split: if_splits)
next
  case (Cons h hs)
  show ?case
  proof (cases "take (length x) (h # hs) = x")
    case True
    with Cons.prems have i: "i = 0" by simp
    from True have "length x = length (take (length x) (h # hs))" by simp
    then have "length x \<le> length (h # hs)" by (simp only: length_take)
    with True i show ?thesis by simp
  next
    case False
    with Cons.prems obtain j where j: "indexOf hs x = Some j" "i = Suc j" by auto
    from Cons.IH [OF j(1)] j(2) show ?thesis by simp
  qed
qed

text \<open>
  Below the surrogates and without U+0130 and U+03A3 in the text and in the needle,
  lowering maps code unit by code unit, and the range that \<open>locate\<close> returns is not
  empty, lies in the text, and holds the needle up to case.
\<close>

lemma locate_in_text:
  assumes "\<forall>c \<in> set sql. plain c" "\<forall>c \<in> set needle. plain c" "needle \<noteq> []"
    and "locate sql needle = Some sp"
  shows "start sp < end_pos sp \<and> end_pos sp \<le> length sql
         \<and> toLowerCase (slice sql (start sp) (end_pos sp)) = toLowerCase needle"
proof -
  let ?lc = "mapped lower_rows"
  from assms(4) obtain idx where idx: "indexOf (toLowerCase sql) (toLowerCase needle) = Some idx"
    and sp: "sp = \<lparr>start = idx, end_pos = idx + length needle\<rparr>"
    by (auto simp: locate_def split: option.splits)
  from indexOf_SomeD [OF idx] assms(1,2)
  have tk: "take (length needle) (drop idx (map ?lc sql)) = map ?lc needle"
    and le: "idx + length needle \<le> length sql"
    by (simp_all add: toLowerCase_plain)
  have "\<forall>c \<in> set (slice sql idx (idx + length needle)). plain c"
    using assms(1) by (auto simp: slice_def dest: in_set_takeD in_set_dropD)
  then have "toLowerCase (slice sql idx (idx + length needle))
               = map ?lc (take (length needle) (drop idx sql))"
    by (simp add: toLowerCase_plain slice_def)
  also have "\<dots> = map ?lc needle"
    using tk by (simp add: take_map drop_map)
  also have "\<dots> = toLowerCase needle"
    using assms(2) by (simp add: toLowerCase_plain)
  finally show ?thesis using sp le assms(3) by simp
qed

subsection \<open>The rules on one text\<close>

lemmas re_defs = re_list_def re_list_distinct_def re_string_agg_def re_agg_order_by_def
  re_order_by_def re_over_def re_group_by_def re_json_arrow_def re_json_arrow_obj_def
  re_json_each_def re_json_array_extract_def re_order_by_limit_1_def re_window_for_latest_def
  re_row_number_filter_def re_like_wildcard_def re_func_in_where_def re_distinct_star_def
  re_union_def re_count_distinct_def re_not_in_subquery_def re_correlated_subquery_def
  re_insert_select_star_def re_cte_def re_window_func_def re_qualify_def re_where_on_window_def
  re_cast_ops_def re_from_read_def re_md_def re_group_by_verbose_def re_from_read_http_def
  re_select_star_def re_list_transform_def re_pivot_def re_unpivot_def re_pivot_using_def
  re_left_join_on_true_def re_ordered_set_agg_def re_unnest_def re_with_recursive_def
  re_recursive_limit_def re_compare_def re_plus_one_def re_using_key_def re_ctas_def
  re_in_list_def re_remote_read_def re_where_def re_remote_glob_def re_rank_call_def
  re_inequality_join_def re_asof_pattern_def re_eq_literal_def re_or_again_def re_or_chain_def
  re_between_temporal_def re_date_literal_def re_between_before_temporal_def
  re_cte_select_star_def re_final_select_star_def re_db_qualified_def re_call_def
  re_type_cast_def re_table_ref_def re_agg_call_def re_pivot_clause_def re_unpivot_clause_def

lemmas rule_eval = star_over_star_sql_def loop_eval re_defs test_def match_count_def spans.simps
  includes_str_def toUpperCase_ascii toLowerCase_ascii locate_def new_Set_def

lemma on_text_non_spillable_list:
  "rule_non_spillable_list star_over_star_sql
     = Some [located (finding (str ''non-spillable-list'') Error (non_spillable_list_title 1)
                        (non_spillable_list_message 1) non_spillable_list_suggestion Memory
                        (Some (str ''list('')))
                     (Some \<lparr>start = 25, end_pos = 30\<rparr>)]"
  by (simp add: rule_non_spillable_list_def rule_eval located_def)

lemma on_text_non_spillable_list_distinct: "rule_non_spillable_list_distinct star_over_star_sql = Some []"
  by (simp add: rule_non_spillable_list_distinct_def rule_eval)

lemma on_text_non_spillable_string_agg: "rule_non_spillable_string_agg star_over_star_sql = Some []"
  by (simp add: rule_non_spillable_string_agg_def rule_eval)

lemma on_text_non_spillable_ordered_agg: "rule_non_spillable_ordered_agg star_over_star_sql = Some []"
  by (simp add: rule_non_spillable_ordered_agg_def rule_eval)

lemma on_text_many_blocking_operators: "rule_many_blocking_operators star_over_star_sql = Some []"
  by (simp add: rule_many_blocking_operators_def rule_eval)

lemma on_text_json_extraction: "rule_json_extraction star_over_star_sql = Some []"
  by (simp add: rule_json_extraction_def rule_eval)

lemma on_text_json_each_expansion: "rule_json_each_expansion star_over_star_sql = Some []"
  by (simp add: rule_json_each_expansion_def rule_eval)

lemma on_text_json_array_extract: "rule_json_array_extract star_over_star_sql = Some []"
  by (simp add: rule_json_array_extract_def rule_eval)

lemma on_text_repeated_order_limit_1: "rule_repeated_order_limit_1 star_over_star_sql = Some []"
  by (simp add: rule_repeated_order_limit_1_def rule_eval)

lemma on_text_use_arg_max: "rule_use_arg_max star_over_star_sql = Some []"
  by (simp add: rule_use_arg_max_def rule_eval)

lemma on_text_leading_wildcard_like: "rule_leading_wildcard_like star_over_star_sql = Some []"
  by (simp add: rule_leading_wildcard_like_def rule_eval)

lemma on_text_function_on_filter_column: "rule_function_on_filter_column star_over_star_sql = Some []"
  by (simp add: rule_function_on_filter_column_def rule_eval)

lemma on_text_distinct_star: "rule_distinct_star star_over_star_sql = Some []"
  by (simp add: rule_distinct_star_def rule_eval)

lemma on_text_union_without_all: "rule_union_without_all star_over_star_sql = Some []"
  by (simp add: rule_union_without_all_def rule_eval)

lemma on_text_count_distinct: "rule_count_distinct star_over_star_sql = Some []"
  by (simp add: rule_count_distinct_def rule_eval)

lemma on_text_not_in_subquery: "rule_not_in_subquery star_over_star_sql = Some []"
  by (simp add: rule_not_in_subquery_def rule_eval)

lemma on_text_correlated_subquery: "rule_correlated_subquery star_over_star_sql = Some []"
  by (simp add: rule_correlated_subquery_def rule_eval)

lemma on_text_insert_select_star: "rule_insert_select_star star_over_star_sql = Some []"
  by (simp add: rule_insert_select_star_def rule_eval)

lemma on_text_many_ctes: "rule_many_ctes star_over_star_sql = Some []"
  by (simp add: rule_many_ctes_def rule_eval)

lemma on_text_window_without_qualify: "rule_window_without_qualify star_over_star_sql = Some []"
  by (simp add: rule_window_without_qualify_def rule_eval)

lemma on_text_excessive_casts: "rule_excessive_casts star_over_star_sql = Some []"
  by (simp add: rule_excessive_casts_def rule_eval)

lemma on_text_md_local_remote_transfer: "rule_md_local_remote_transfer star_over_star_sql = Some []"
  by (simp add: rule_md_local_remote_transfer_def rule_eval)

lemma on_text_group_by_verbose: "rule_group_by_verbose star_over_star_sql = Some []"
  by (simp add: rule_group_by_verbose_def rule_eval)

lemma on_text_remote_file_select_star: "rule_remote_file_select_star star_over_star_sql = Some []"
  by (simp add: rule_remote_file_select_star_def rule_eval)

lemma on_text_md_duckling_size: "rule_md_duckling_size star_over_star_sql = Some []"
  by (simp add: rule_md_duckling_size_def rule_eval)

lemma on_text_list_transform: "rule_list_transform star_over_star_sql = Some []"
  by (simp add: rule_list_transform_def rule_eval)

lemma on_text_non_spillable_pivot: "rule_non_spillable_pivot star_over_star_sql = Some []"
  by (simp add: rule_non_spillable_pivot_def rule_eval)

lemma on_text_many_left_join_on_true: "rule_many_left_join_on_true star_over_star_sql = Some []"
  by (simp add: rule_many_left_join_on_true_def rule_eval)

lemma on_text_non_spillable_median: "rule_non_spillable_median star_over_star_sql = Some []"
  by (simp add: rule_non_spillable_median_def rule_eval)

lemma on_text_unnest_large_expansion: "rule_unnest_large_expansion star_over_star_sql = Some []"
  by (simp add: rule_unnest_large_expansion_def rule_eval)

lemma on_text_recursive_cte_no_limit: "rule_recursive_cte_no_limit star_over_star_sql = Some []"
  by (simp add: rule_recursive_cte_no_limit_def rule_eval)

lemma on_text_ctas_memory: "rule_ctas_memory star_over_star_sql = Some []"
  by (simp add: rule_ctas_memory_def rule_eval)

lemma on_text_large_in_list: "rule_large_in_list star_over_star_sql = Some []"
  by (simp add: rule_large_in_list_def rule_eval)

lemma on_text_read_remote_no_filter: "rule_read_remote_no_filter star_over_star_sql = Some []"
  by (simp add: rule_read_remote_no_filter_def rule_eval)

lemma on_text_multiple_remote_scans: "rule_multiple_remote_scans star_over_star_sql = Some []"
  by (simp add: rule_multiple_remote_scans_def rule_eval)

lemma on_text_glob_many_files: "rule_glob_many_files star_over_star_sql = Some []"
  by (simp add: rule_glob_many_files_def rule_eval)

lemma on_text_temporal_join_via_window: "rule_temporal_join_via_window star_over_star_sql = Some []"
  by (simp add: rule_temporal_join_via_window_def rule_eval)

lemma on_text_or_chain_instead_of_in: "rule_or_chain_instead_of_in star_over_star_sql = Some []"
  by (simp add: rule_or_chain_instead_of_in_def rule_eval)

lemma on_text_between_timestamp: "rule_between_timestamp star_over_star_sql = Some []"
  by (simp add: rule_between_timestamp_def rule_eval)

lemma on_text_chained_select_star: "rule_chained_select_star star_over_star_sql = Some []"
  by (simp add: rule_chained_select_star_def rule_eval)

lemma on_text_md_cross_database_join: "rule_md_cross_database_join star_over_star_sql = Some []"
  by (simp add: rule_md_cross_database_join_def rule_eval)

lemmas on_text = on_text_non_spillable_list on_text_non_spillable_list_distinct
  on_text_non_spillable_string_agg on_text_non_spillable_ordered_agg
  on_text_many_blocking_operators on_text_json_extraction on_text_json_each_expansion
  on_text_json_array_extract on_text_repeated_order_limit_1 on_text_use_arg_max
  on_text_leading_wildcard_like on_text_function_on_filter_column on_text_distinct_star
  on_text_union_without_all on_text_count_distinct on_text_not_in_subquery
  on_text_correlated_subquery on_text_insert_select_star on_text_many_ctes
  on_text_window_without_qualify on_text_excessive_casts on_text_md_local_remote_transfer
  on_text_group_by_verbose on_text_remote_file_select_star on_text_md_duckling_size
  on_text_list_transform on_text_non_spillable_pivot on_text_many_left_join_on_true
  on_text_non_spillable_median on_text_unnest_large_expansion on_text_recursive_cte_no_limit
  on_text_ctas_memory on_text_large_in_list on_text_read_remote_no_filter
  on_text_multiple_remote_scans on_text_glob_many_files on_text_temporal_join_via_window
  on_text_or_chain_instead_of_in on_text_between_timestamp on_text_chained_select_star
  on_text_md_cross_database_join

lemma regexRules_on_text:
  "regexRules star_over_star_sql
     = Some [located (finding (str ''non-spillable-list'') Error (non_spillable_list_title 1)
                        (non_spillable_list_message 1) non_spillable_list_suggestion Memory
                        (Some (str ''list('')))
                     (Some \<lparr>start = 25, end_pos = 30\<rparr>)]"
  "regexRules_part_002 star_over_star_sql
     = Some [located (finding (str ''non-spillable-list'') Error (non_spillable_list_title 1)
                        (non_spillable_list_message 1) non_spillable_list_suggestion Memory
                        (Some (str ''list('')))
                     (Some \<lparr>start = 25, end_pos = 30\<rparr>)]"
  by (simp_all add: regexRules_def regexRules_part_002_def blocks_1_27_def blocks_28_40_def
        on_text)

lemma tree_on_text:
  "checkSelectStar star_over_star star_over_star_sql
     = [located (finding (str ''select-star'') Warning select_star_all_title
                   select_star_all_message select_star_all_suggestion Performance
                   (Some (str ''SELECT *'')))
                (Some \<lparr>start = 0, end_pos = 8\<rparr>),
        finding (str ''select-star'') Warning select_star_item_title
          select_star_item_message select_star_item_suggestion Performance (Some (str ''*''))]"
  "checkOrderByWithoutLimit star_over_star star_over_star_sql
     = [located (finding (str ''order-without-limit'') Warning order_without_limit_title
                   order_without_limit_message order_without_limit_suggestion Memory
                   (Some (str ''ORDER BY'')))
                (Some \<lparr>start = 43, end_pos = 51\<rparr>)]"
  "checkCrossJoin star_over_star star_over_star_sql = []"
  "checkNestedSubqueries star_over_star star_over_star_sql 0 = []"
  "checkJoinWithoutCondition star_over_star star_over_star_sql = []"
  by (simp_all add: star_over_star_def star_over_star_sql_def checkOrderByWithoutLimit_def
        checkCrossJoin_def checkJoinWithoutCondition_def locate_def toLowerCase_ascii
        is_upper_az_def str_def located_def)

theorem findings_deduplicated_witness:
  "map fragment (checkSelectStar star_over_star star_over_star_sql)
     = [Some (str ''SELECT *''), Some (str ''*'')]
   \<and> map ruleId (checkSelectStar star_over_star star_over_star_sql)
     = [str ''select-star'', str ''select-star'']
   \<and> (\<exists>kept. runRules (Some (Tree star_over_star)) star_over_star_sql = Some kept
         \<and> map ruleId kept
             = [str ''select-star'', str ''order-without-limit'', str ''non-spillable-list'']
         \<and> map fragment kept
             = [Some (str ''SELECT *''), Some (str ''ORDER BY''), Some (str ''list('')]
         \<and> map offset kept
             = [Some \<lparr>start = 0, end_pos = 8\<rparr>, Some \<lparr>start = 43, end_pos = 51\<rparr>,
                Some \<lparr>start = 25, end_pos = 30\<rparr>])
   \<and> (\<exists>kept. runRules_part_002 (Some (Tree star_over_star)) star_over_star_sql = Some kept
         \<and> map ruleId kept
             = [str ''select-star'', str ''order-without-limit'', str ''non-spillable-list''])
   \<and> (\<exists>r. analyze (\<lambda>t. Inr (Tree star_over_star)) star_over_star_sql = Some r
         \<and> map ruleId (findings r)
             = [str ''select-star'', str ''order-without-limit'', str ''non-spillable-list''])"
proof -
  have t: "trim star_over_star_sql = star_over_star_sql"
    by (simp add: star_over_star_sql_def trim_def str_def is_space_def)
  then have ne: "trim star_over_star_sql \<noteq> []"
    by (simp add: star_over_star_sql_def str_def)
  obtain sanitized where san: "preprocessForParser (trim star_over_star_sql) = Some sanitized"
    using preprocessForParser_returns by blast
  have an: "\<exists>r. analyze (\<lambda>t. Inr (Tree star_over_star)) star_over_star_sql = Some r
         \<and> map ruleId (findings r)
             = [str ''select-star'', str ''order-without-limit'', str ''non-spillable-list'']"
    using analyze_eq [OF ne san, of _ "\<lambda>t. Inr (Tree star_over_star)"]
    by (simp add: t regexRules_on_text parse_def emitted_def asts_of_def astRules_def
          tree_on_text)
  from findings_deduplicated
    [where ast = "Some (Tree star_over_star)" and sql = star_over_star_sql]
  obtain kept kept' where
    "runRules (Some (Tree star_over_star)) star_over_star_sql = Some kept"
    "first_per_rule kept
       ((checkSelectStar star_over_star star_over_star_sql
         @ checkOrderByWithoutLimit star_over_star star_over_star_sql
         @ checkCrossJoin star_over_star star_over_star_sql
         @ checkNestedSubqueries star_over_star star_over_star_sql 0
         @ checkJoinWithoutCondition star_over_star star_over_star_sql)
        @ the (regexRules star_over_star_sql))"
    "runRules_part_002 (Some (Tree star_over_star)) star_over_star_sql = Some kept'"
    "first_per_rule kept'
       ((checkSelectStar star_over_star star_over_star_sql
         @ checkOrderByWithoutLimit star_over_star star_over_star_sql
         @ checkCrossJoin star_over_star star_over_star_sql
         @ checkNestedSubqueries star_over_star star_over_star_sql 0
         @ checkJoinWithoutCondition star_over_star star_over_star_sql)
        @ the (regexRules_part_002 star_over_star_sql))"
    by fastforce
  with an show ?thesis
    by (simp add: tree_on_text regexRules_on_text first_per_rule_def atLeast0_lessThan_Suc)
qed

end
